theory Spec2Isabelle
  imports Complex_Main "HOL-Library.Sublist" "HOL-Library.AList"
begin

section \<open>Python values\<close>

text \<open>
  A Python \<open>str\<close> is a sequence of Unicode code points. The source mixes ASCII
  identifiers with Chinese message texts, so a string is a list of code points:
  \<open>asc\<close> embeds an ASCII literal, other characters are written as their code points
  (\<open>[0x6700, 0x65B0]\<close> is the two-character word "newest").
\<close>

type_synonym ustr = "nat list"

definition asc :: "string \<Rightarrow> ustr" where
  "asc s = map of_char s"

text \<open>
  A Python \<open>float\<close> is an IEEE 754 binary64 number: a finite value, which is a
  rational, an infinity or NaN. The two zeros are one value here (they compare equal and
  are both false; only \<open>str\<close> tells them apart).
\<close>

datatype pyfloat = Finite rat | PosInf | NegInf | NaN

text \<open>
  The values that flow through the dictionaries of the checker. \<open>PInt\<close> is the
  unbounded \<open>int\<close>. \<open>PDict\<close> is an insertion-ordered dictionary with string keys;
  \<open>PObj\<close> is an instance of a class, with the class name and the instance dictionary.
\<close>

datatype pyval =
    PNone
  | PBool bool
  | PInt int
  | PFloat pyfloat
  | PStr ustr
  | PList "pyval list"
  | PDict "(ustr \<times> pyval) list"
  | PObj ustr "(ustr \<times> pyval) list"

text \<open>
  Exceptions. \<open>AttributeError\<close>, \<open>ValueError\<close>, \<open>JSONDecodeError\<close> and
  \<open>OtherException\<close> (any other exception class) carry their message. \<open>TypeError\<close>,
  \<open>OverflowError\<close> and \<open>ZeroDivisionError\<close> are raised by the interpreter and carry
  the operation that failed, \<open>KeyError\<close> carries the missing key; the text the interpreter
  gives them is not fixed here.
\<close>

datatype exn =
    AttributeError ustr
  | TypeError ustr
  | KeyError ustr
  | OverflowError ustr
  | ZeroDivisionError ustr
  | ValueError ustr
  | JSONDecodeError ustr
  | OtherException ustr

text \<open>Truth value testing (\<open>if x:\<close>, \<open>x or y\<close>, \<open>all(...)\<close>).\<close>

fun truthy :: "pyval \<Rightarrow> bool" where
  "truthy PNone = False"
| "truthy (PBool b) = b"
| "truthy (PInt n) = (n \<noteq> 0)"
| "truthy (PFloat x) = (x \<noteq> Finite 0)"
| "truthy (PStr s) = (s \<noteq> [])"
| "truthy (PList xs) = (xs \<noteq> [])"
| "truthy (PDict d) = (d \<noteq> [])"
| "truthy (PObj c d) = True"

text \<open>\<open>type(v).__name__\<close>, as the interpreter prints it in its messages.\<close>

fun type_name :: "pyval \<Rightarrow> ustr" where
  "type_name PNone = asc ''NoneType''"
| "type_name (PBool b) = asc ''bool''"
| "type_name (PInt n) = asc ''int''"
| "type_name (PFloat x) = asc ''float''"
| "type_name (PStr s) = asc ''str''"
| "type_name (PList xs) = asc ''list''"
| "type_name (PDict d) = asc ''dict''"
| "type_name (PObj c d) = c"

text \<open>The \<open>AttributeError\<close> of reading an attribute that a value does not have.\<close>

definition no_attribute :: "pyval \<Rightarrow> ustr \<Rightarrow> exn" where
  "no_attribute v name =
     AttributeError ([0x27] @ type_name v @ [0x27] @ asc '' object has no attribute ''
       @ [0x27] @ name @ [0x27])"

text \<open>\<open>d.get(key, default)\<close>: only a dictionary has the method.\<close>

fun dict_get :: "pyval \<Rightarrow> ustr \<Rightarrow> pyval \<Rightarrow> exn + pyval" where
  "dict_get (PDict d) key dflt = Inr (case map_of d key of Some v \<Rightarrow> v | None \<Rightarrow> dflt)"
| "dict_get v key dflt = Inl (no_attribute v (asc ''get''))"

text \<open>\<open>str(n)\<close> of a non-negative integer, as the f-strings print a count.\<close>

fun str_nat :: "nat \<Rightarrow> ustr" where
  "str_nat n = (if n < 10 then [48 + n] else str_nat (n div 10) @ [48 + n mod 10])"

declare str_nat.simps [simp del]

section \<open>Floating-point arithmetic\<close>

text \<open>
  \<open>pow2 p\<close> is the power of two with exponent \<open>p\<close>. A finite binary64 number is
  \<open>m * pow2 p\<close> for integers \<open>m\<close> and \<open>p\<close> with \<open>\<bar>m\<bar> < pow2 53\<close> and
  \<open>- 1074 \<le> p \<le> 971\<close>.
\<close>

definition pow2 :: "int \<Rightarrow> rat" where
  "pow2 p = (if 0 \<le> p then 2 ^ nat p else 1 / 2 ^ nat (- p))"

text \<open>Rounding to the nearest integer, a tie to the even one.\<close>

definition round_half_even :: "rat \<Rightarrow> int" where
  "round_half_even q =
     (let f = \<lfloor>q\<rfloor>; r = q - of_int f
      in if r < 1 / 2 then f else if 1 / 2 < r then f + 1 else if even f then f else f + 1)"

text \<open>
  The exponent of the last place of \<open>a \<ge> 0\<close>: the least \<open>p\<close> from \<open>- 1074\<close> on with
  \<open>a < pow2 (p + 53)\<close>, searched upwards from \<open>p\<close> in at most \<open>n\<close> steps.
\<close>

fun ulp_exponent :: "nat \<Rightarrow> int \<Rightarrow> rat \<Rightarrow> int" where
  "ulp_exponent 0 p a = p"
| "ulp_exponent (Suc n) p a = (if a < pow2 (p + 53) then p else ulp_exponent n (p + 1) a)"

text \<open>
  The binary64 number nearest to a rational (round to nearest, ties to even, the default
  rounding of IEEE 754): every arithmetic operation on floats returns the exact result
  rounded this way. A result of magnitude \<open>pow2 1024\<close> or more after rounding is an
  infinity.
\<close>

definition round_double :: "rat \<Rightarrow> pyfloat" where
  "round_double q =
     (let a = \<bar>q\<bar>;
          p = ulp_exponent 2046 (- 1074) a;
          v = of_int (round_half_even (a / pow2 p)) * pow2 p
      in if pow2 1024 \<le> v then (if q < 0 then NegInf else PosInf)
         else Finite (if q < 0 then - v else v))"

text \<open>A decimal literal of the source, such as \<open>0.35\<close>, is the nearest binary64 number.\<close>

definition float_literal :: "rat \<Rightarrow> pyfloat" where
  "float_literal q = round_double q"

fun float_negative :: "pyfloat \<Rightarrow> bool" where
  "float_negative (Finite q) = (q < 0)"
| "float_negative NegInf = True"
| "float_negative x = False"

text \<open>\<open>x * y\<close>, \<open>x + y\<close> and \<open>x / y\<close> on floats (the divisors of the source are positive
  constants and list lengths).\<close>

fun float_mul :: "pyfloat \<Rightarrow> pyfloat \<Rightarrow> pyfloat" where
  "float_mul (Finite a) (Finite b) = round_double (a * b)"
| "float_mul x y =
     (if x = NaN \<or> y = NaN \<or> x = Finite 0 \<or> y = Finite 0 then NaN
      else if float_negative x \<noteq> float_negative y then NegInf
      else PosInf)"

fun float_add :: "pyfloat \<Rightarrow> pyfloat \<Rightarrow> pyfloat" where
  "float_add (Finite a) (Finite b) = round_double (a + b)"
| "float_add (Finite a) y = y"
| "float_add x (Finite b) = x"
| "float_add x y = (if x = y then x else NaN)"

definition float_div :: "pyfloat \<Rightarrow> rat \<Rightarrow> pyfloat" where
  "float_div x d = (case x of Finite a \<Rightarrow> round_double (a / d) | _ \<Rightarrow> x)"

text \<open>Comparing a float with an integer literal; every comparison with NaN is false.\<close>

fun float_lt :: "pyfloat \<Rightarrow> int \<Rightarrow> bool" where
  "float_lt (Finite q) k = (q < of_int k)"
| "float_lt NegInf k = True"
| "float_lt x k = False"

fun float_ge :: "pyfloat \<Rightarrow> int \<Rightarrow> bool" where
  "float_ge (Finite q) k = (of_int k \<le> q)"
| "float_ge PosInf k = True"
| "float_ge x k = False"

fun float_gt :: "pyfloat \<Rightarrow> int \<Rightarrow> bool" where
  "float_gt (Finite q) k = (of_int k < q)"
| "float_gt PosInf k = True"
| "float_gt x k = False"

text \<open>A number is an \<open>int\<close> or a \<open>float\<close> (\<open>bool\<close> is a subclass of \<open>int\<close>).\<close>

datatype pynum = NInt int | NFloat pyfloat

fun num_of :: "pyval \<Rightarrow> pynum option" where
  "num_of (PInt n) = Some (NInt n)"
| "num_of (PFloat x) = Some (NFloat x)"
| "num_of (PBool b) = Some (NInt (if b then 1 else 0))"
| "num_of v = None"

fun num_val :: "pynum \<Rightarrow> pyval" where
  "num_val (NInt n) = PInt n"
| "num_val (NFloat x) = PFloat x"

text \<open>An \<open>int\<close> is compared with an integer exactly, whatever its size.\<close>

fun num_lt :: "pynum \<Rightarrow> int \<Rightarrow> bool" where
  "num_lt (NInt n) k = (n < k)"
| "num_lt (NFloat x) k = float_lt x k"

fun num_gt :: "pynum \<Rightarrow> int \<Rightarrow> bool" where
  "num_gt (NInt n) k = (k < n)"
| "num_gt (NFloat x) k = float_gt x k"

text \<open>
  The conversion of an operand to \<open>float\<close> in mixed arithmetic: an \<open>int\<close> is rounded to
  the nearest float, and one that is too large raises \<open>OverflowError\<close>.
\<close>

fun to_float :: "pynum \<Rightarrow> exn + pyfloat" where
  "to_float (NFloat x) = Inr x"
| "to_float (NInt n) =
     (case round_double (of_int n) of
        Finite q \<Rightarrow> Inr (Finite q)
      | _ \<Rightarrow> Inl (OverflowError (asc ''int too large to convert to float'')))"

text \<open>\<open>x * k\<close> for a number \<open>x\<close> and a float \<open>k\<close>.\<close>

definition num_mul_float :: "pynum \<Rightarrow> pyfloat \<Rightarrow> exn + pyfloat" where
  "num_mul_float x k = (case to_float x of Inl e \<Rightarrow> Inl e | Inr a \<Rightarrow> Inr (float_mul a k))"

text \<open>\<open>x + y\<close> on numbers: exact on two \<open>int\<close>s, in floating point otherwise.\<close>

fun num_add :: "pynum \<Rightarrow> pynum \<Rightarrow> exn + pynum" where
  "num_add (NInt a) (NInt b) = Inr (NInt (a + b))"
| "num_add x y =
     (case to_float x of Inl e \<Rightarrow> Inl e
      | Inr a \<Rightarrow>
     (case to_float y of Inl e \<Rightarrow> Inl e
      | Inr b \<Rightarrow> Inr (NFloat (float_add a b))))"

text \<open>\<open>sum(xs)\<close>: the elements are added from the left to the start value \<open>0\<close> (the lists
  summed here have at most two elements).\<close>

fun num_sum :: "pynum \<Rightarrow> pynum list \<Rightarrow> exn + pynum" where
  "num_sum acc [] = Inr acc"
| "num_sum acc (x # xs) = (case num_add acc x of Inl e \<Rightarrow> Inl e | Inr s \<Rightarrow> num_sum s xs)"

text \<open>
  \<open>x / n\<close> for a list length \<open>n\<close>: true division. The quotient of two \<open>int\<close>s is the
  exact quotient rounded once, and raises \<open>OverflowError\<close> when it is too large.
\<close>

definition num_truediv :: "pynum \<Rightarrow> nat \<Rightarrow> exn + pyfloat" where
  "num_truediv x n =
     (if n = 0 then Inl (ZeroDivisionError (asc ''division by zero''))
      else
        (case x of
           NInt s \<Rightarrow>
             (case round_double (of_int s / of_nat n) of
                Finite q \<Rightarrow> Inr (Finite q)
              | _ \<Rightarrow> Inl (OverflowError (asc ''integer division result too large for a float'')))
         | NFloat a \<Rightarrow> Inr (float_div a (of_nat n))))"

section \<open>FactChecker._analyze_content_freshness\<close>

text \<open>
  \<open>content.lower()\<close> is the lowering of the interpreter, which follows the Unicode
  character database of its version; it is the first argument of the functions below.
  \<open>ascii_lower\<close> maps \<open>A\<close> to \<open>Z\<close> to \<open>a\<close> to \<open>z\<close> and leaves every other code
  point: it is what \<open>str.lower\<close> does on a string whose cased characters are all Basic
  Latin letters, and is used on such strings only (the ASCII contents of the examples,
  and the keywords, whose other characters are Chinese).
\<close>

definition ascii_lower :: "ustr \<Rightarrow> ustr" where
  "ascii_lower s = map (\<lambda>c. if 65 \<le> c \<and> c \<le> 90 then c + 32 else c) s"

text \<open>\<open>keyword in content\<close> on strings is the contiguous-substring test \<^const>\<open>sublist\<close>.\<close>

text \<open>
  The list literal of the source, as Python reads it: where the source has no comma
  between two adjacent string literals, the two are one string (\<open>'stable' '...'\<close> is
  the single keyword of both texts joined), which leaves 46 keywords.
\<close>

definition fresh_keywords :: "ustr list" where
  "fresh_keywords =
    [[0x6700, 0x65B0],
     [0x65B0, 0x7248, 0x672C],
     [0x521A, 0x521A, 0x53D1, 0x5E03],
     [0x4ECA, 0x5929, 0x53D1, 0x5E03],
     [0x672C, 0x6708],
     [0x6700, 0x8FD1],
     [0x65B0, 0x63A8, 0x51FA],
     [0x6B63, 0x5F0F, 0x53D1, 0x5E03],
     [0x4E0A, 0x7EBF],
     [0x53D1, 0x5E03],
     asc ''v2.0'',
     asc ''v3.0'',
     asc ''v4.0'',
     asc ''v5.0'',
     asc ''v6.0'',
     asc ''2025'',
     asc ''2026'',
     asc ''2027'',
     asc ''2028'',
     asc ''2029'',
     asc ''2030'',
     asc ''beta'',
     asc ''alpha'',
     asc ''rc'',
     asc ''release'',
     asc ''stable'' @ [0x66F4, 0x65B0],
     [0x5347, 0x7EA7],
     [0x65B0, 0x589E],
     [0x6539, 0x8FDB],
     [0x4F18, 0x5316],
     [0x4FEE, 0x590D] @ asc ''breaking news'',
     asc ''breaking'',
     [0x7A81, 0x53D1],
     [0x91CD, 0x78C5],
     [0x91CD, 0x78C5, 0x9996, 0x6B21],
     asc ''first'',
     [0x9996, 0x4E2A],
     [0x7B2C, 0x4E00],
     [0x521D, 0x6B21, 0x6700, 0x65B0, 0x6D88, 0x606F],
     [0x6700, 0x65B0, 0x52A8, 0x6001],
     [0x6700, 0x65B0, 0x8FDB, 0x5C55],
     [0x6700, 0x65B0, 0x60C5, 0x51B5, 0x4ECA, 0x5929],
     [0x4ECA, 0x65E5],
     [0x73B0, 0x5728],
     [0x5F53, 0x524D],
     [0x6B63, 0x5728]]"

text \<open>
  \<open>fresh_count = sum(1 for keyword in fresh_keywords if keyword in content_lower)\<close>:
  every keyword of the list adds one when it occurs in the lowered content, however
  often it occurs there.
\<close>

definition fresh_count :: "(ustr \<Rightarrow> ustr) \<Rightarrow> ustr \<Rightarrow> nat" where
  "fresh_count lower content =
     (let content_lower = lower content
      in sum_list (map (\<lambda>keyword. 1)
           (filter (\<lambda>keyword. sublist keyword content_lower) fresh_keywords)))"

definition analyze_content_freshness :: "(ustr \<Rightarrow> ustr) \<Rightarrow> ustr \<Rightarrow> ustr \<Rightarrow> pyval" where
  "analyze_content_freshness lower content topic =
     (let fresh_count = fresh_count lower content
      in if fresh_count \<ge> 3 then
           PDict [(asc ''is_fresh'', PBool True),
                  (asc ''freshness_level'', PStr [0x6700, 0x65B0]),
                  (asc ''score'', PInt 95),
                  (asc ''reasoning'', PStr ([0x5185, 0x5BB9, 0x5305, 0x542B] @ asc '' ''
                     @ str_nat fresh_count @ asc '' ''
                     @ [0x4E2A, 0x65B0, 0x9C9C, 0x5EA6, 0x5173, 0x952E, 0x8BCD, 0xFF0C,
                        0x5224, 0x65AD, 0x4E3A, 0x6700, 0x65B0])),
                  (asc ''method'', PStr (asc ''content_analysis''))]
         else if fresh_count \<ge> 1 then
           PDict [(asc ''is_fresh'', PBool True),
                  (asc ''freshness_level'', PStr [0x8F83, 0x65B0]),
                  (asc ''score'', PInt 85),
                  (asc ''reasoning'', PStr ([0x5185, 0x5BB9, 0x5305, 0x542B] @ asc '' ''
                     @ str_nat fresh_count @ asc '' ''
                     @ [0x4E2A, 0x65B0, 0x9C9C, 0x5EA6, 0x5173, 0x952E, 0x8BCD, 0xFF0C,
                        0x5224, 0x65AD, 0x4E3A, 0x8F83, 0x65B0])),
                  (asc ''method'', PStr (asc ''content_analysis''))]
         else
           PDict [(asc ''is_fresh'', PBool False),
                  (asc ''freshness_level'', PStr [0x672A, 0x77E5]),
                  (asc ''score'', PInt 50),
                  (asc ''reasoning'', PStr [0x5185, 0x5BB9, 0x672A, 0x5305, 0x542B, 0x660E,
                     0x663E, 0x7684, 0x65B0, 0x9C9C, 0x5EA6, 0x5173, 0x952E, 0x8BCD]),
                  (asc ''method'', PStr (asc ''content_analysis''))])"

text \<open>
  The count as the specification words it, for comparison: the occurrences of the
  keywords in the lowered content, an occurrence being a position at which a keyword
  starts.
\<close>

fun occurrences :: "ustr \<Rightarrow> ustr \<Rightarrow> nat" where
  "occurrences key [] = 0"
| "occurrences key (c # cs) = (if prefix key (c # cs) then 1 else 0) + occurrences key cs"

definition spec_occurrence_count :: "(ustr \<Rightarrow> ustr) \<Rightarrow> ustr \<Rightarrow> nat" where
  "spec_occurrence_count lower content =
     sum_list (map (\<lambda>keyword. occurrences keyword (lower content)) fresh_keywords)"

section \<open>The world outside the checker\<close>

text \<open>
  Configuration read from the process environment by \<open>config.py\<close>
  (\<open>os.getenv\<close> gives a string or \<open>None\<close>).
\<close>

record config =
  TAVILY_API_KEY :: "ustr option"
  DEEPSEEK_API_KEY :: "ustr option"
  DEEPSEEK_BASE_URL :: ustr
  GLM_API_KEY :: "ustr option"

text \<open>
  A request to the chat model is the prompt template of the source filled with the
  values below; the templates are constants, so a request is known by these values.
\<close>

datatype prompt =
    VerificationPrompt ustr
  | CrossRefSearchPrompt ustr ustr "(pyval \<times> pyval) list" "pyval list"
  | CrossRefPrompt ustr ustr
  | ImprovementPrompt ustr ustr ustr ustr ustr ustr "ustr list"

text \<open>What \<open>requests.post\<close> returns: the status code, \<open>response.text\<close> and the
  outcome of \<open>response.json()\<close>.\<close>

record http_response =
  resp_status_code :: int
  resp_text :: ustr
  resp_json :: "exn + pyval"

text \<open>
  What the checker calls and does not define: the clock, the standard library and the
  remote services. Each service call either raises or returns.
  \<^item> \<open>now\<close>: \<open>datetime.now()\<close>, in microseconds;
  \<^item> \<open>format_1f\<close>: the format specification \<open>:.1f\<close> on a float;
  \<^item> \<open>str_lower\<close>: \<open>str.lower\<close>;
  \<^item> \<open>json_loads\<close>: \<open>json.loads\<close>;
  \<^item> \<open>list_set\<close>: \<open>list(set(xs))\<close>, the distinct elements in the interpreter's order;
  \<^item> \<open>str_of\<close>: \<open>str(x)\<close> of a value that is not a string;
  \<^item> \<open>exception_text\<close>: \<open>str(e)\<close> of an exception that the interpreter raised;
  \<^item> \<open>chat_create\<close>: \<open>client.chat.completions.create(...)\<close> followed by
    \<open>response.choices[0].message.content\<close>;
  \<^item> \<open>requests_post_json\<close>: the Tavily endpoint, \<open>requests.post\<close>,
    \<open>raise_for_status\<close> and \<open>response.json()\<close>, for a query and \<open>max_results\<close>;
  \<^item> \<open>requests_post\<close>: \<open>requests.post\<close> to the GLM endpoint, for the request sent;
  \<^item> \<open>re_search\<close>: \<open>re.search(pattern, text, re.DOTALL | re.IGNORECASE)\<close>, giving
    \<open>group(1)\<close> of the match when there is one.
\<close>

record world =
  now :: int
  format_1f :: "pyfloat \<Rightarrow> ustr"
  str_lower :: "ustr \<Rightarrow> ustr"
  json_loads :: "ustr \<Rightarrow> exn + pyval"
  list_set :: "ustr list \<Rightarrow> ustr list"
  str_of :: "pyval \<Rightarrow> ustr"
  exception_text :: "exn \<Rightarrow> ustr"
  chat_create :: "prompt \<Rightarrow> exn + pyval"
  requests_post_json :: "ustr \<Rightarrow> nat \<Rightarrow> exn + pyval"
  requests_post :: "prompt \<Rightarrow> exn + http_response"
  re_search :: "ustr \<Rightarrow> ustr \<Rightarrow> ustr option"

text \<open>
  A \<open>datetime\<close> is a point in microseconds, naive or timezone-aware; subtracting an
  aware one from the naive \<open>datetime.now()\<close> raises \<open>TypeError\<close>.
\<close>

datatype datetime = Naive int | Aware int

section \<open>More of Python\<close>

text \<open>\<open>str(e)\<close> of an exception: its message.\<close>

fun str_exn :: "world \<Rightarrow> exn \<Rightarrow> ustr" where
  "str_exn w (AttributeError m) = m"
| "str_exn w (ValueError m) = m"
| "str_exn w (JSONDecodeError m) = m"
| "str_exn w (OtherException m) = m"
| "str_exn w e = exception_text w e"

definition opt_str :: "ustr option \<Rightarrow> pyval" where
  "opt_str s = (case s of None \<Rightarrow> PNone | Some t \<Rightarrow> PStr t)"

text \<open>\<open>a or b\<close>.\<close>

definition py_or :: "pyval \<Rightarrow> pyval \<Rightarrow> pyval" where
  "py_or a b = (if truthy a then a else b)"

text \<open>
  Reading a data attribute of an instance: the instance dictionary decides (the classes
  here have methods only, no class-level data attributes and no \<open>__getattr__\<close>).
\<close>

fun getattr :: "pyval \<Rightarrow> ustr \<Rightarrow> exn + pyval" where
  "getattr (PObj cls d) name =
     (case map_of d name of
        Some v \<Rightarrow> Inr v
      | None \<Rightarrow> Inl (no_attribute (PObj cls d) name))"
| "getattr v name = Inl (no_attribute v name)"

text \<open>The left operand of \<open>x * k\<close> for a float \<open>k\<close>: a value that is no number raises
  \<open>TypeError\<close>.\<close>

definition py_num :: "pyval \<Rightarrow> exn + pynum" where
  "py_num x =
     (case num_of x of
        Some n \<Rightarrow> Inr n
      | None \<Rightarrow> Inl (TypeError (asc ''unsupported operand type(s) for *'')))"

definition py_mul :: "pyval \<Rightarrow> pyfloat \<Rightarrow> exn + pyfloat" where
  "py_mul x k = (case py_num x of Inl e \<Rightarrow> Inl e | Inr n \<Rightarrow> num_mul_float n k)"

text \<open>\<open>x[:n]\<close>: strings and lists can be sliced, the other values raise.\<close>

fun py_slice_to :: "nat \<Rightarrow> pyval \<Rightarrow> exn + pyval" where
  "py_slice_to n (PStr s) = Inr (PStr (take n s))"
| "py_slice_to n (PList xs) = Inr (PList (take n xs))"
| "py_slice_to n v = Inl (TypeError (asc ''object is not subscriptable''))"

text \<open>\<open>s.strip()\<close>: the characters for which \<open>str.isspace\<close> holds are removed at both ends.\<close>

definition isspace :: "nat \<Rightarrow> bool" where
  "isspace c \<longleftrightarrow>
     (9 \<le> c \<and> c \<le> 13) \<or> (28 \<le> c \<and> c \<le> 32) \<or> c = 0x85 \<or> c = 0xA0 \<or> c = 0x1680
     \<or> (0x2000 \<le> c \<and> c \<le> 0x200A) \<or> c = 0x2028 \<or> c = 0x2029 \<or> c = 0x202F
     \<or> c = 0x205F \<or> c = 0x3000"

definition str_strip :: "ustr \<Rightarrow> ustr" where
  "str_strip s = rev (dropWhile isspace (rev (dropWhile isspace s)))"

text \<open>\<open>v.strip()\<close> on a value: only a string has the method.\<close>

fun py_strip :: "pyval \<Rightarrow> exn + ustr" where
  "py_strip (PStr s) = Inr (str_strip s)"
| "py_strip v = Inl (no_attribute v (asc ''strip''))"

text \<open>Running a list of computations in order, up to the first that raises.\<close>

fun sequence :: "(exn + 'a) list \<Rightarrow> exn + 'a list" where
  "sequence [] = Inr []"
| "sequence (m # ms) =
     (case m of
        Inl e \<Rightarrow> Inl e
      | Inr x \<Rightarrow> (case sequence ms of Inl e \<Rightarrow> Inl e | Inr xs \<Rightarrow> Inr (x # xs)))"

text \<open>\<open>d[key]\<close> on a value: a missing key raises \<open>KeyError\<close>, a value that is no
  dictionary raises \<open>TypeError\<close> for a string key.\<close>

fun dict_subscript :: "pyval \<Rightarrow> ustr \<Rightarrow> exn + pyval" where
  "dict_subscript (PDict d) key =
     (case map_of d key of Some v \<Rightarrow> Inr v | None \<Rightarrow> Inl (KeyError key))"
| "dict_subscript v key = Inl (TypeError (asc ''object is not subscriptable by str''))"

text \<open>\<open>d[key] = value\<close>: a present key keeps its place, a new key is appended.\<close>

fun dict_setitem :: "pyval \<Rightarrow> ustr \<Rightarrow> pyval \<Rightarrow> exn + pyval" where
  "dict_setitem (PDict d) key v = Inr (PDict (AList.update key v d))"
| "dict_setitem x key v = Inl (TypeError (asc ''object does not support item assignment''))"

text \<open>A value inside an f-string: a string is itself, another value is printed by
  \<open>str\<close>.\<close>

definition py_str :: "world \<Rightarrow> pyval \<Rightarrow> ustr" where
  "py_str w v = (case v of PStr s \<Rightarrow> s | _ \<Rightarrow> str_of w v)"

section \<open>web_searcher.py\<close>

text \<open>
  \<open>WebSearcher.__init__\<close> sets exactly three attributes: \<open>tavily_api_key\<close>,
  \<open>tavily_client\<close> and \<open>legacy_api_key\<close>. The constructor of
  \<open>SimpleTavilyClient\<close> stores its two attributes and cannot raise.
\<close>

definition SimpleTavilyClient_init :: "pyval \<Rightarrow> pyval" where
  "SimpleTavilyClient_init key =
     PObj (asc ''SimpleTavilyClient'')
       [(asc ''api_key'', key), (asc ''base_url'', PStr (asc ''https://api.tavily.com/search''))]"

text \<open>What reading \<open>api_key\<close> on an instance of \<open>WebSearcher\<close> raises.\<close>

definition no_api_key_error :: exn where
  "no_api_key_error =
     AttributeError ([0x27] @ asc ''WebSearcher'' @ [0x27] @ asc '' object has no attribute ''
       @ [0x27] @ asc ''api_key'' @ [0x27])"

text \<open>The rounds of grounded verification and grounded freshness: the dictionaries
  that \<open>verify_fact\<close> and \<open>check_freshness_with_search\<close> return.\<close>

record verification_round =
  vr_is_true :: "bool option"
  vr_confidence :: pynum
  vr_reasoning :: ustr
  vr_sources :: "ustr list"
  vr_search_results :: "pyval list"

record freshness_round =
  fr_is_fresh :: "bool option"
  fr_freshness_level :: ustr
  fr_score :: pynum
  fr_reasoning :: ustr
  fr_latest_info :: ustr
  fr_search_results :: "pyval list"

definition verify_fact :: "ustr \<Rightarrow> verification_round" where
  "verify_fact claim =
     \<lparr>vr_is_true = None, vr_confidence = NInt 0,
      vr_reasoning = asc ''Function deprecated to save tokens'',
      vr_sources = [], vr_search_results = []\<rparr>"

definition check_freshness_with_search :: "ustr \<Rightarrow> ustr \<Rightarrow> freshness_round" where
  "check_freshness_with_search topic content =
     \<lparr>fr_is_fresh = None, fr_freshness_level = [0x672A, 0x77E5], fr_score = NInt 0,
      fr_reasoning = asc ''Function deprecated to save tokens'',
      fr_latest_info = [], fr_search_results = []\<rparr>"

text \<open>One result of \<open>_search_with_tavily\<close>, built from one entry of the response.\<close>

definition tavily_result :: "pyval \<Rightarrow> exn + pyval" where
  "tavily_result result =
     (case dict_get result (asc ''title'') (PStr [0x65E0, 0x6807, 0x9898]) of Inl e \<Rightarrow> Inl e
      | Inr title \<Rightarrow>
     (case dict_get result (asc ''content'') (PStr []) of Inl e \<Rightarrow> Inl e
      | Inr content \<Rightarrow>
     (case py_slice_to 800 content of Inl e \<Rightarrow> Inl e
      | Inr summary \<Rightarrow>
     (case dict_get result (asc ''url'') (PStr []) of Inl e \<Rightarrow> Inl e
      | Inr link \<Rightarrow>
     (case dict_get result (asc ''published_date'') (PStr []) of Inl e \<Rightarrow> Inl e
      | Inr published \<Rightarrow>
        Inr (PDict [(asc ''title'', title), (asc ''summary'', summary), (asc ''link'', link),
                    (asc ''published'', published),
                    (asc ''source'', PStr (asc ''Tavily API''))]))))))"

text \<open>Iterating over a value in a \<open>for\<close> loop: a list gives its elements, a string its
  characters, a dictionary its keys; the other values raise \<open>TypeError\<close>.\<close>

fun py_iter :: "pyval \<Rightarrow> exn + pyval list" where
  "py_iter (PList xs) = Inr xs"
| "py_iter (PStr s) = Inr (map (\<lambda>c. PStr [c]) s)"
| "py_iter (PDict d) = Inr (map (\<lambda>kv. PStr (fst kv)) d)"
| "py_iter v = Inl (TypeError (asc ''object is not iterable''))"

text \<open>The body of the \<open>try\<close> in \<open>_search_with_tavily\<close>; the log line on
  \<open>response.get('answer')\<close> slices the answer and can raise as well.\<close>

definition search_with_tavily_body :: "world \<Rightarrow> ustr \<Rightarrow> nat \<Rightarrow> exn + pyval list" where
  "search_with_tavily_body w topic max_results =
     (case requests_post_json w topic max_results of Inl e \<Rightarrow> Inl e
      | Inr response \<Rightarrow>
     (case dict_get response (asc ''results'') (PList []) of Inl e \<Rightarrow> Inl e
      | Inr entries \<Rightarrow>
     (case py_iter entries of Inl e \<Rightarrow> Inl e
      | Inr es \<Rightarrow>
     (case sequence (map tavily_result es) of Inl e \<Rightarrow> Inl e
      | Inr results \<Rightarrow>
     (case dict_get response (asc ''answer'') PNone of Inl e \<Rightarrow> Inl e
      | Inr answer \<Rightarrow>
        (if truthy answer then
           (case py_slice_to 100 answer of Inl e \<Rightarrow> Inl e | Inr a \<Rightarrow> Inr results)
         else Inr results))))))"

definition search_with_tavily :: "world \<Rightarrow> ustr \<Rightarrow> nat \<Rightarrow> pyval list" where
  "search_with_tavily w topic max_results =
     (case search_with_tavily_body w topic max_results of Inl e \<Rightarrow> [] | Inr results \<Rightarrow> results)"

definition search_topic :: "world \<Rightarrow> pyval \<Rightarrow> ustr \<Rightarrow> nat \<Rightarrow> exn + pyval list" where
  "search_topic w self topic max_results =
     (case getattr self (asc ''tavily_client'') of Inl e \<Rightarrow> Inl e
      | Inr tavily_client \<Rightarrow>
        (if truthy tavily_client then Inr (search_with_tavily w topic max_results)
         else Inr []))"

text \<open>
  The object in \<open>self.web_searcher\<close>, as \<open>FactChecker\<close> uses it: the instance, whose
  attributes are read, and the three methods that are called on it. A method call either
  raises or returns; the first argument of the two verification methods is the number of
  the round in which the loop calls them, and \<open>search_topic\<close> is given the instance it
  reads \<open>tavily_client\<close> from.
\<close>

record searcher =
  searcher_instance :: pyval
  call_verify_fact :: "nat \<Rightarrow> ustr \<Rightarrow> exn + verification_round"
  call_check_freshness_with_search :: "nat \<Rightarrow> ustr \<Rightarrow> ustr \<Rightarrow> exn + freshness_round"
  call_search_topic :: "world \<Rightarrow> pyval \<Rightarrow> ustr \<Rightarrow> nat \<Rightarrow> exn + pyval list"

text \<open>\<open>WebSearcher(api_key)\<close>: the instance with its three attributes and the methods
  of the class.\<close>

definition WebSearcher_init :: "config \<Rightarrow> pyval \<Rightarrow> searcher" where
  "WebSearcher_init cfg api_key =
     (let tavily_api_key = opt_str (TAVILY_API_KEY cfg);
          tavily_client = (if truthy tavily_api_key then SimpleTavilyClient_init tavily_api_key
                           else PNone);
          self = PObj (asc ''WebSearcher'')
                   [(asc ''tavily_api_key'', tavily_api_key),
                    (asc ''tavily_client'', tavily_client),
                    (asc ''legacy_api_key'', api_key)]
      in \<lparr>searcher_instance = self,
          call_verify_fact = (\<lambda>i claim. Inr (verify_fact claim)),
          call_check_freshness_with_search =
            (\<lambda>i topic content. Inr (check_freshness_with_search topic content)),
          call_search_topic = search_topic\<rparr>)"

section \<open>fact_checker.py\<close>

record fact_checker =
  api_key :: pyval
  base_url :: pyval
  client :: pyval
  web_searcher :: searcher

text \<open>\<open>FactChecker.__init__\<close>: the searcher is always built here, by
  \<open>WebSearcher(api_key=doubao_api_key)\<close>.\<close>

definition FactChecker_init :: "config \<Rightarrow> pyval \<Rightarrow> pyval \<Rightarrow> pyval \<Rightarrow> fact_checker" where
  "FactChecker_init cfg key url doubao_api_key =
     (let k = py_or key (opt_str (DEEPSEEK_API_KEY cfg));
          b = py_or url (PStr (DEEPSEEK_BASE_URL cfg))
      in \<lparr>api_key = k, base_url = b,
          client = (if truthy k then PObj (asc ''OpenAI'')
                      [(asc ''api_key'', k), (asc ''base_url'', b)] else PNone),
          web_searcher = WebSearcher_init cfg doubao_api_key\<rparr>)"

subsection \<open>The parsers\<close>

text \<open>
  Both parsers return what \<open>json.loads(text)\<close> returns, whatever it is, and the degraded
  dictionary when it raises (a bare \<open>except\<close>). The first argument is the outcome of
  \<open>json.loads(text)\<close>.
\<close>

definition parse_verification_result :: "exn + pyval \<Rightarrow> ustr \<Rightarrow> pyval" where
  "parse_verification_result decoded text =
     (case decoded of
        Inr result \<Rightarrow> result
      | Inl e \<Rightarrow>
          PDict [(asc ''is_true'', PNone), (asc ''confidence'', PInt 50),
                 (asc ''reasoning'', PStr text), (asc ''sources'', PList []),
                 (asc ''method'', PStr (asc ''none''))])"

definition parse_cross_ref_result :: "exn + pyval \<Rightarrow> ustr \<Rightarrow> pyval" where
  "parse_cross_ref_result decoded text =
     (case decoded of
        Inr result \<Rightarrow> result
      | Inl e \<Rightarrow>
          PDict [(asc ''is_consistent'', PNone), (asc ''confidence'', PInt 50),
                 (asc ''known_facts'', PList []), (asc ''contradictions'', PList []),
                 (asc ''additional_context'', PStr text), (asc ''reasoning'', PStr []),
                 (asc ''method'', PStr (asc ''none''))])"

subsection \<open>verify_claim\<close>

text \<open>The four texts of lines 150 to 157, with the number of rounds: agreement with
  high confidence, agreement with medium confidence, a contradiction (low confidence),
  and a result that needs manual review.\<close>

definition reasoning_high :: "nat \<Rightarrow> ustr" where
  "reasoning_high n =
     [0x591A, 0x6E90, 0x9A8C, 0x8BC1, 0x4E00, 0x81F4, 0xFF0C, 0x53EF, 0x4FE1, 0x5EA6, 0x9AD8,
      0xFF08] @ str_nat n @ asc '' '' @ [0x8F6E, 0x9A8C, 0x8BC1, 0xFF09]"

definition reasoning_medium :: "nat \<Rightarrow> ustr" where
  "reasoning_medium n =
     [0x591A, 0x6E90, 0x9A8C, 0x8BC1, 0x57FA, 0x672C, 0x4E00, 0x81F4, 0xFF0C, 0x53EF, 0x4FE1,
      0x5EA6, 0x4E2D, 0x7B49, 0xFF08] @ str_nat n @ asc '' '' @ [0x8F6E, 0x9A8C, 0x8BC1, 0xFF09]"

definition reasoning_low :: "nat \<Rightarrow> ustr" where
  "reasoning_low n =
     [0x591A, 0x6E90, 0x9A8C, 0x8BC1, 0x53D1, 0x73B0, 0x77DB, 0x76FE, 0xFF0C, 0x53EF, 0x4FE1,
      0x5EA6, 0x4F4E, 0xFF08] @ str_nat n @ asc '' '' @ [0x8F6E, 0x9A8C, 0x8BC1, 0xFF09]"

definition reasoning_review :: "nat \<Rightarrow> ustr" where
  "reasoning_review n =
     [0x591A, 0x6E90, 0x9A8C, 0x8BC1, 0x7ED3, 0x679C, 0x4E0D, 0x4E00, 0x81F4, 0xFF0C, 0x9700,
      0x8981, 0x4EBA, 0x5DE5, 0x5BA1, 0x6838, 0xFF08] @ str_nat n @ asc '' ''
      @ [0x8F6E, 0x9A8C, 0x8BC1, 0xFF09]"

text \<open>\<open>sum(r.get('confidence', 0) for r in verification_results) / len(verification_results)\<close>.\<close>

definition mean_confidence :: "verification_round list \<Rightarrow> exn + pyfloat" where
  "mean_confidence verification_results =
     (case num_sum (NInt 0) (map vr_confidence verification_results) of Inl e \<Rightarrow> Inl e
      | Inr summed \<Rightarrow> num_truediv summed (length verification_results))"

text \<open>
  Lines 140 to 167: the dictionary built from the usable rounds. The first argument is
  \<open>list(set(all_sources))\<close>, whose order the interpreter decides.
\<close>

definition consensus_dict :: "ustr list \<Rightarrow> verification_round list \<Rightarrow> exn + pyval" where
  "consensus_dict distinct_sources verification_results =
     (case mean_confidence verification_results of Inl e \<Rightarrow> Inl e
      | Inr avg_confidence \<Rightarrow>
     (let n = length verification_results;
          all_search_results = concat (map vr_search_results verification_results);
          is_true = list_all (\<lambda>r. vr_is_true r = Some True) verification_results;
          reasoning =
            (if is_true \<and> float_ge avg_confidence 80 then reasoning_high n
             else if is_true \<and> float_ge avg_confidence 60 then reasoning_medium n
             else if \<not> is_true then reasoning_low n
             else reasoning_review n)
      in Inr (PDict
           [(asc ''is_true'', PBool is_true),
            (asc ''confidence'', PFloat avg_confidence),
            (asc ''reasoning'', PStr reasoning),
            (asc ''sources'', PList (map PStr distinct_sources)),
            (asc ''search_results'', PList all_search_results),
            (asc ''method'', PStr (asc ''multi_source_web_search'')),
            (asc ''verification_count'', PInt (int n))])))"

text \<open>Lines 139 to 167: the consensus when a usable round exists, \<open>None\<close> when there
  is none (the code then falls through to the chat model).\<close>

definition verify_consensus :: "world \<Rightarrow> verification_round list \<Rightarrow> (exn + pyval) option" where
  "verify_consensus w verification_results =
     (if verification_results \<noteq> [] then
        (let all_sources = concat (map vr_sources verification_results)
         in Some (consensus_dict (list_set w all_sources) verification_results))
      else None)"

text \<open>Lines 131 to 137: two rounds, each a call of \<open>verify_fact\<close> on the searcher;
  those with \<open>confidence > 0\<close> are kept.\<close>

definition verification_rounds :: "searcher \<Rightarrow> ustr \<Rightarrow> exn + verification_round list" where
  "verification_rounds s claim =
     (case sequence (map (\<lambda>i. call_verify_fact s i claim) [0..<2]) of Inl e \<Rightarrow> Inl e
      | Inr web_results \<Rightarrow>
          Inr (filter (\<lambda>web_result. num_gt (vr_confidence web_result) 0) web_results))"

text \<open>The reply of the chat model, stripped and parsed (the tail of \<open>verify_claim\<close>).\<close>

definition ask_verification :: "world \<Rightarrow> ustr \<Rightarrow> exn + pyval" where
  "ask_verification w claim =
     (case chat_create w (VerificationPrompt claim) of Inl e \<Rightarrow> Inl e
      | Inr content \<Rightarrow>
     (case py_strip content of Inl e \<Rightarrow> Inl e
      | Inr result_text \<Rightarrow>
        Inr (parse_verification_result (json_loads w result_text) result_text)))"

text \<open>The dictionary returned when no chat client is configured.\<close>

definition verify_not_configured :: pyval where
  "verify_not_configured =
     PDict [(asc ''is_true'', PNone), (asc ''confidence'', PInt 0),
            (asc ''reasoning'', PStr ([0x672A, 0x914D, 0x7F6E] @ asc '' API Key''
               @ [0xFF0C, 0x65E0, 0x6CD5, 0x9A8C, 0x8BC1])),
            (asc ''sources'', PList []),
            (asc ''method'', PStr (asc ''none''))]"

text \<open>The body of the \<open>try\<close> block of \<open>verify_claim\<close>.\<close>

definition verify_claim_body :: "world \<Rightarrow> fact_checker \<Rightarrow> ustr \<Rightarrow> exn + pyval" where
  "verify_claim_body w self claim =
     (case getattr (searcher_instance (web_searcher self)) (asc ''api_key'') of Inl e \<Rightarrow> Inl e
      | Inr searcher_key \<Rightarrow>
        (case (if truthy searcher_key then
                 (case verification_rounds (web_searcher self) claim of Inl e \<Rightarrow> Inl e
                  | Inr verification_results \<Rightarrow> Inr (verify_consensus w verification_results))
               else Inr None) of
           Inl e \<Rightarrow> Inl e
         | Inr (Some verdict) \<Rightarrow> verdict
         | Inr None \<Rightarrow>
             (if \<not> truthy (client self) then Inr verify_not_configured
              else ask_verification w claim)))"

text \<open>\<open>verify_claim\<close>: \<open>except Exception\<close> turns every exception of the body into the
  failure dictionary of lines 225 to 233.\<close>

definition verify_failure :: "world \<Rightarrow> exn \<Rightarrow> pyval" where
  "verify_failure w e =
     PDict [(asc ''is_true'', PNone), (asc ''confidence'', PInt 0),
            (asc ''reasoning'', PStr ([0x9A8C, 0x8BC1, 0x5931, 0x8D25] @ asc '': '' @ str_exn w e)),
            (asc ''sources'', PList []),
            (asc ''method'', PStr (asc ''none''))]"

definition verify_claim :: "world \<Rightarrow> fact_checker \<Rightarrow> ustr \<Rightarrow> pyval" where
  "verify_claim w self claim =
     (case verify_claim_body w self claim of
        Inr verdict \<Rightarrow> verdict
      | Inl e \<Rightarrow> verify_failure w e)"

subsection \<open>check_freshness\<close>

text \<open>Lines 253 to 273: the label and the score of an age in hours.\<close>

definition time_score_of_age :: "pyfloat \<Rightarrow> ustr \<times> int" where
  "time_score_of_age age =
     (if float_lt age 1 then ([0x6700, 0x65B0], 100)
      else if float_lt age 24 then ([0x4ECA, 0x65E5], 95)
      else if float_lt age 48 then ([0x8FD1] @ asc ''2'' @ [0x5929], 85)
      else if float_lt age 72 then ([0x8FD1] @ asc ''3'' @ [0x5929], 70)
      else if float_lt age 168 then ([0x8FD1, 0x4E00, 0x5468], 50)
      else if float_lt age 720 then ([0x8FD1, 0x4E00, 0x6708], 30)
      else ([0x8F83, 0x65E7], 10))"

text \<open>
  \<open>(datetime.now() - timestamp).total_seconds() / 3600\<close>: the difference is a whole
  number of microseconds, \<open>total_seconds\<close> divides it by \<open>10 ** 6\<close> (a true division
  of two integers, rounded once), and the division by 3600 rounds again.
\<close>

definition age_hours :: "world \<Rightarrow> datetime \<Rightarrow> exn + pyfloat" where
  "age_hours w timestamp =
     (case timestamp of
        Naive t \<Rightarrow> Inr (float_div (round_double (of_int (now w - t) / 1000000)) 3600)
      | Aware t \<Rightarrow>
          Inl (TypeError (asc ''can't subtract offset-naive and offset-aware datetimes'')))"

text \<open>Lines 250 to 279: \<open>(time_freshness, time_score, time_reasoning)\<close>. A
  \<open>datetime\<close> is always true, so \<open>if timestamp:\<close> asks whether one was given.\<close>

definition time_check :: "world \<Rightarrow> datetime option \<Rightarrow> exn + ustr \<times> int \<times> ustr" where
  "time_check w timestamp =
     (case timestamp of
        Some ts \<Rightarrow>
          (case age_hours w ts of Inl e \<Rightarrow> Inl e
           | Inr age \<Rightarrow>
               Inr (fst (time_score_of_age age), snd (time_score_of_age age),
                    [0x5185, 0x5BB9, 0x53D1, 0x5E03, 0x4E8E] @ asc '' '' @ format_1f w age
                    @ asc '' '' @ [0x5C0F, 0x65F6, 0x524D]))
      | None \<Rightarrow>
          Inr ([0x672A, 0x77E5], 50,
               [0x65E0, 0x65F6, 0x95F4, 0x6233, 0x4FE1, 0x606F, 0xFF0C, 0x65E0, 0x6CD5, 0x5224,
                0x65AD, 0x65F6, 0x6548, 0x6027]))"

text \<open>Lines 288 to 294: two rounds, each a call of \<open>check_freshness_with_search\<close> on
  the searcher; those with \<open>score > 0\<close> are kept.\<close>

definition freshness_rounds :: "searcher \<Rightarrow> ustr \<Rightarrow> ustr \<Rightarrow> exn + freshness_round list" where
  "freshness_rounds s topic content =
     (case sequence (map (\<lambda>i. call_check_freshness_with_search s i topic content) [0..<2]) of
        Inl e \<Rightarrow> Inl e
      | Inr web_results \<Rightarrow>
          Inr (filter (\<lambda>web_freshness. num_gt (fr_score web_freshness) 0) web_results))"

definition freshness_round_dict :: "freshness_round \<Rightarrow> pyval" where
  "freshness_round_dict r =
     PDict [(asc ''is_fresh'', (case fr_is_fresh r of None \<Rightarrow> PNone | Some b \<Rightarrow> PBool b)),
            (asc ''freshness_level'', PStr (fr_freshness_level r)),
            (asc ''score'', num_val (fr_score r)),
            (asc ''reasoning'', PStr (fr_reasoning r)),
            (asc ''latest_info'', PStr (fr_latest_info r)),
            (asc ''search_results'', PList (fr_search_results r))]"

text \<open>\<open>sum(r.get('score', 0) for r in web_freshness_results) / len(web_freshness_results)\<close>.\<close>

definition mean_score :: "freshness_round list \<Rightarrow> exn + pyfloat" where
  "mean_score web_freshness_results =
     (case num_sum (NInt 0) (map fr_score web_freshness_results) of Inl e \<Rightarrow> Inl e
      | Inr summed \<Rightarrow> num_truediv summed (length web_freshness_results))"

text \<open>Lines 296 to 337: the verdict with a search score, \<open>None\<close> when no round is usable.
  The blend is \<open>time_score * 0.25 + avg_web_score * 0.55 + content_freshness['score'] * 0.20\<close>,
  evaluated from left to right.\<close>

definition freshness_consensus ::
  "world \<Rightarrow> ustr \<Rightarrow> int \<Rightarrow> ustr \<Rightarrow> pyval \<Rightarrow> freshness_round list \<Rightarrow> (exn + pyval) option" where
  "freshness_consensus w time_freshness time_score time_reasoning content_freshness
       web_freshness_results =
     (if web_freshness_results \<noteq> [] then
        Some
        (case mean_score web_freshness_results of Inl e \<Rightarrow> Inl e
         | Inr avg_web_score \<Rightarrow>
        (let n = length web_freshness_results;
             all_search_results = concat (map fr_search_results web_freshness_results);
             is_fresh = list_all (\<lambda>r. fr_is_fresh r = Some True) web_freshness_results
         in
         (case num_mul_float (NInt time_score) (float_literal (25 / 100)) of Inl e \<Rightarrow> Inl e
          | Inr weighted_time \<Rightarrow>
         (case dict_subscript content_freshness (asc ''score'') of Inl e \<Rightarrow> Inl e
          | Inr content_score \<Rightarrow>
         (case py_mul content_score (float_literal (20 / 100)) of Inl e \<Rightarrow> Inl e
          | Inr weighted_content \<Rightarrow>
         (let final_score =
                float_add (float_add weighted_time
                             (float_mul avg_web_score (float_literal (55 / 100))))
                  weighted_content;
              fresh_level =
                (if float_ge final_score 85 then [0x6700, 0x65B0]
                 else if float_ge final_score 70 then [0x8F83, 0x65B0]
                 else if float_ge final_score 50 then [0x4E00, 0x822C]
                 else [0x8FC7, 0x65F6]);
              reasoning =
                (if is_fresh \<and> float_ge avg_web_score 85 then
                   [0x591A, 0x6E90, 0x9A8C, 0x8BC1, 0x4E00, 0x81F4, 0xFF0C, 0x5185, 0x5BB9, 0x975E,
                    0x5E38, 0x65B0, 0x9C9C, 0xFF08] @ str_nat n @ asc '' ''
                    @ [0x8F6E, 0x9A8C, 0x8BC1, 0xFF09]
                 else if is_fresh \<and> float_ge avg_web_score 70 then
                   [0x591A, 0x6E90, 0x9A8C, 0x8BC1, 0x57FA, 0x672C, 0x4E00, 0x81F4, 0xFF0C, 0x5185,
                    0x5BB9, 0x8F83, 0x65B0, 0xFF08] @ str_nat n @ asc '' ''
                    @ [0x8F6E, 0x9A8C, 0x8BC1, 0xFF09]
                 else if \<not> is_fresh then
                   [0x591A, 0x6E90, 0x9A8C, 0x8BC1, 0x53D1, 0x73B0, 0x5185, 0x5BB9, 0x8FC7, 0x65F6,
                    0x6216, 0x4FE1, 0x606F, 0x9648, 0x65E7, 0xFF08] @ str_nat n @ asc '' ''
                    @ [0x8F6E, 0x9A8C, 0x8BC1, 0xFF09]
                 else
                   [0x591A, 0x6E90, 0x9A8C, 0x8BC1, 0x7ED3, 0x679C, 0x4E0D, 0x4E00, 0x81F4, 0xFF0C,
                    0x9700, 0x8981, 0x4EBA, 0x5DE5, 0x5BA1, 0x6838, 0xFF08] @ str_nat n @ asc '' ''
                    @ [0x8F6E, 0x9A8C, 0x8BC1, 0xFF09])
          in
          (case dict_subscript content_freshness (asc ''reasoning'') of Inl e \<Rightarrow> Inl e
           | Inr content_reasoning \<Rightarrow>
             Inr (PDict
               [(asc ''is_fresh'', PBool is_fresh),
                (asc ''freshness_level'', PStr fresh_level),
                (asc ''score'', PFloat final_score),
                (asc ''time_freshness'', PStr time_freshness),
                (asc ''time_score'', PInt time_score),
                (asc ''content_freshness'', content_freshness),
                (asc ''web_freshness'', PList (map freshness_round_dict web_freshness_results)),
                (asc ''reasoning'', PStr
                   ([0x65F6, 0x95F4, 0x65B0, 0x9C9C, 0x5EA6, 0xFF1A] @ time_reasoning
                    @ [0xFF0C, 0x5185, 0x5BB9, 0x65B0, 0x9C9C, 0x5EA6, 0xFF1A]
                    @ py_str w content_reasoning
                    @ [0xFF0C] @ asc ''Web '' @ [0x641C, 0x7D22, 0x65B0, 0x9C9C, 0x5EA6, 0xFF1A]
                    @ reasoning)),
                (asc ''method'', PStr (asc ''multi_source_web_search'')),
                (asc ''search_results'', PList all_search_results),
                (asc ''verification_count'', PInt (int n))]))))))))
      else None)"

text \<open>Lines 339 to 364: the verdict without a search score. The blend is
  \<open>time_score * 0.4 + content_freshness['score'] * 0.6\<close>.\<close>

definition no_search_verdict :: "world \<Rightarrow> ustr \<Rightarrow> int \<Rightarrow> ustr \<Rightarrow> pyval \<Rightarrow> exn + pyval" where
  "no_search_verdict w time_freshness time_score time_reasoning content_freshness =
     (case num_mul_float (NInt time_score) (float_literal (4 / 10)) of Inl e \<Rightarrow> Inl e
      | Inr weighted_time \<Rightarrow>
     (case dict_subscript content_freshness (asc ''score'') of Inl e \<Rightarrow> Inl e
      | Inr content_score \<Rightarrow>
     (case py_mul content_score (float_literal (6 / 10)) of Inl e \<Rightarrow> Inl e
      | Inr weighted_content \<Rightarrow>
     (let final_score = float_add weighted_time weighted_content;
          tier =
            (if float_ge final_score 80 then (True, [0x6700, 0x65B0])
             else if float_ge final_score 60 then (True, [0x8F83, 0x65B0])
             else if float_ge final_score 40 then (False, [0x4E00, 0x822C])
             else (False, [0x8FC7, 0x65F6]));
          is_fresh = fst tier;
          fresh_level = snd tier
      in
      (case dict_subscript content_freshness (asc ''reasoning'') of Inl e \<Rightarrow> Inl e
       | Inr content_reasoning \<Rightarrow>
         Inr (PDict
           [(asc ''is_fresh'', PBool is_fresh),
            (asc ''freshness_level'', PStr fresh_level),
            (asc ''score'', PFloat final_score),
            (asc ''time_freshness'', PStr time_freshness),
            (asc ''time_score'', PInt time_score),
            (asc ''content_freshness'', content_freshness),
            (asc ''reasoning'', PStr
               ([0x65F6, 0x95F4, 0x65B0, 0x9C9C, 0x5EA6, 0xFF1A] @ time_reasoning
                @ [0xFF0C, 0x5185, 0x5BB9, 0x65B0, 0x9C9C, 0x5EA6, 0xFF1A]
                @ py_str w content_reasoning
                @ [0xFF08, 0x672A, 0x542F, 0x7528] @ asc '' Web ''
                @ [0x641C, 0x7D22, 0x9A8C, 0x8BC1, 0xFF09])),
            (asc ''method'', PStr (asc ''hybrid'')),
            (asc ''warning'', PStr
               ([0x672A, 0x542F, 0x7528] @ asc '' Web '' @ [0x641C, 0x7D22, 0x9A8C, 0x8BC1, 0xFF0C,
                0x65F6, 0x6548, 0x6027, 0x5224, 0x65AD, 0x53EF, 0x80FD, 0x4E0D, 0x51C6, 0x786E]))]))))))"

text \<open>The body of the \<open>try\<close> block of \<open>check_freshness\<close>.\<close>

definition check_freshness_body ::
  "world \<Rightarrow> fact_checker \<Rightarrow> ustr \<Rightarrow> ustr \<Rightarrow> datetime option \<Rightarrow> exn + pyval" where
  "check_freshness_body w self content topic timestamp =
     (case time_check w timestamp of Inl e \<Rightarrow> Inl e
      | Inr (time_freshness, time_score, time_reasoning) \<Rightarrow>
     (let content_freshness = analyze_content_freshness (str_lower w) content topic in
     (case getattr (searcher_instance (web_searcher self)) (asc ''api_key'') of Inl e \<Rightarrow> Inl e
      | Inr searcher_key \<Rightarrow>
        (case (if truthy searcher_key then
                 (case freshness_rounds (web_searcher self) topic content of Inl e \<Rightarrow> Inl e
                  | Inr web_freshness_results \<Rightarrow>
                      Inr (freshness_consensus w time_freshness time_score time_reasoning
                             content_freshness web_freshness_results))
               else Inr None) of
           Inl e \<Rightarrow> Inl e
         | Inr (Some verdict) \<Rightarrow> verdict
         | Inr None \<Rightarrow>
             no_search_verdict w time_freshness time_score time_reasoning content_freshness))))"

text \<open>The dictionary of the \<open>except\<close> branch, lines 366 to 377.\<close>

definition freshness_failure :: "world \<Rightarrow> exn \<Rightarrow> pyval" where
  "freshness_failure w e =
     PDict [(asc ''is_fresh'', PNone),
            (asc ''freshness_level'', PStr [0x672A, 0x77E5]),
            (asc ''score'', PInt 0),
            (asc ''time_freshness'', PStr [0x672A, 0x77E5]),
            (asc ''time_score'', PInt 0),
            (asc ''content_freshness'', PDict []),
            (asc ''reasoning'', PStr ([0x68C0, 0x67E5, 0x5931, 0x8D25] @ asc '': '' @ str_exn w e)),
            (asc ''method'', PStr (asc ''hybrid''))]"

definition check_freshness ::
  "world \<Rightarrow> fact_checker \<Rightarrow> ustr \<Rightarrow> ustr \<Rightarrow> datetime option \<Rightarrow> pyval" where
  "check_freshness w self content topic timestamp =
     (case check_freshness_body w self content topic timestamp of
        Inr verdict \<Rightarrow> verdict
      | Inl e \<Rightarrow> freshness_failure w e)"

subsection \<open>cross_reference\<close>

text \<open>One line of the digest: \<open>result.get('title', '')\<close> and
  \<open>result.get('summary', '')[:100]\<close>.\<close>

definition digest_line :: "pyval \<Rightarrow> exn + pyval \<times> pyval" where
  "digest_line result =
     (case dict_get result (asc ''title'') (PStr []) of Inl e \<Rightarrow> Inl e
      | Inr title \<Rightarrow>
     (case dict_get result (asc ''summary'') (PStr []) of Inl e \<Rightarrow> Inl e
      | Inr summary \<Rightarrow>
     (case py_slice_to 100 summary of Inl e \<Rightarrow> Inl e
      | Inr s \<Rightarrow> Inr (title, s))))"

text \<open>The reply of the chat model to a request, stripped and parsed.\<close>

definition ask_cross_ref :: "world \<Rightarrow> prompt \<Rightarrow> exn + pyval" where
  "ask_cross_ref w request =
     (case chat_create w request of Inl e \<Rightarrow> Inl e
      | Inr content \<Rightarrow>
     (case py_strip content of Inl e \<Rightarrow> Inl e
      | Inr result_text \<Rightarrow>
        Inr (parse_cross_ref_result (json_loads w result_text) result_text)))"

text \<open>Lines 393 to 461: the branch with search results; \<open>Inr None\<close> when the code
  falls through to the branch without them.\<close>

definition cross_reference_search ::
  "world \<Rightarrow> fact_checker \<Rightarrow> ustr \<Rightarrow> ustr \<Rightarrow> exn + pyval option" where
  "cross_reference_search w self topic content =
     (case call_search_topic (web_searcher self) w (searcher_instance (web_searcher self))
             topic 5 of Inl e \<Rightarrow> Inl e
      | Inr search_results \<Rightarrow>
        (if search_results \<noteq> [] then
           (case sequence (map digest_line (take 3 search_results)) of Inl e \<Rightarrow> Inl e
            | Inr search_summary \<Rightarrow>
              (if \<not> truthy (client self) then
                 Inr (Some (PDict
                   [(asc ''is_consistent'', PNone), (asc ''confidence'', PInt 50),
                    (asc ''known_facts'', PList []), (asc ''contradictions'', PList []),
                    (asc ''additional_context'', PStr []),
                    (asc ''reasoning'', PStr ([0x672A, 0x914D, 0x7F6E] @ asc '' API Key''
                       @ [0xFF0C, 0x65E0, 0x6CD5, 0x9A8C, 0x8BC1])),
                    (asc ''method'', PStr (asc ''none''))]))
               else
                 (case ask_cross_ref w (CrossRefSearchPrompt topic (take 800 content)
                         search_summary (take 3 search_results)) of Inl e \<Rightarrow> Inl e
                  | Inr parsed_result \<Rightarrow>
                 (case dict_setitem parsed_result (asc ''search_results'')
                         (PList search_results) of Inl e \<Rightarrow> Inl e
                  | Inr with_results \<Rightarrow>
                 (case dict_setitem with_results (asc ''method'')
                         (PStr (asc ''web_search'')) of Inl e \<Rightarrow> Inl e
                  | Inr with_method \<Rightarrow> Inr (Some with_method))))))
         else Inr None))"

text \<open>The body of the \<open>try\<close> block of \<open>cross_reference\<close>.\<close>

definition cross_reference_body :: "world \<Rightarrow> fact_checker \<Rightarrow> ustr \<Rightarrow> ustr \<Rightarrow> exn + pyval" where
  "cross_reference_body w self topic content =
     (case getattr (searcher_instance (web_searcher self)) (asc ''api_key'') of Inl e \<Rightarrow> Inl e
      | Inr searcher_key \<Rightarrow>
        (case (if truthy searcher_key then cross_reference_search w self topic content
               else Inr None) of
           Inl e \<Rightarrow> Inl e
         | Inr (Some verdict) \<Rightarrow> Inr verdict
         | Inr None \<Rightarrow>
             (if \<not> truthy (client self) then
                Inr (PDict
                  [(asc ''is_consistent'', PNone), (asc ''confidence'', PInt 0),
                   (asc ''known_facts'', PList []), (asc ''contradictions'', PList []),
                   (asc ''additional_context'', PStr []),
                   (asc ''reasoning'', PStr ([0x672A, 0x914D, 0x7F6E] @ asc '' API Key''
                      @ [0xFF0C, 0x65E0, 0x6CD5, 0x9A8C, 0x8BC1])),
                   (asc ''method'', PStr (asc ''none''))])
              else ask_cross_ref w (CrossRefPrompt topic (take 800 content)))))"

text \<open>The dictionary of the \<open>except\<close> branch, lines 512 to 522.\<close>

definition cross_reference_failure :: "world \<Rightarrow> exn \<Rightarrow> pyval" where
  "cross_reference_failure w e =
     PDict [(asc ''is_consistent'', PNone), (asc ''confidence'', PInt 0),
            (asc ''known_facts'', PList []), (asc ''contradictions'', PList []),
            (asc ''additional_context'', PStr []),
            (asc ''reasoning'', PStr ([0x9A8C, 0x8BC1, 0x5931, 0x8D25] @ asc '': '' @ str_exn w e)),
            (asc ''method'', PStr (asc ''none''))]"

definition cross_reference :: "world \<Rightarrow> fact_checker \<Rightarrow> ustr \<Rightarrow> ustr \<Rightarrow> pyval" where
  "cross_reference w self topic content =
     (case cross_reference_body w self topic content of
        Inr verdict \<Rightarrow> verdict
      | Inl e \<Rightarrow> cross_reference_failure w e)"

subsection \<open>comprehensive_check\<close>

text \<open>Lines 554 to 571: \<open>(recommendation, quality_level)\<close>.\<close>

definition quality_of :: "pyfloat \<Rightarrow> ustr \<times> ustr" where
  "quality_of overall_score =
     (if float_ge overall_score 90 then
        ([0x2705] @ asc '' '' @ [0x5185, 0x5BB9, 0x8D28, 0x91CF, 0x4F18, 0x79C0, 0xFF0C, 0x5F3A,
          0x70C8, 0x63A8, 0x8350, 0x53D1, 0x5E03], [0x4F18, 0x79C0])
      else if float_ge overall_score 80 then
        ([0x2705] @ asc '' '' @ [0x5185, 0x5BB9, 0x8D28, 0x91CF, 0x826F, 0x597D, 0xFF0C, 0x63A8,
          0x8350, 0x53D1, 0x5E03], [0x826F, 0x597D])
      else if float_ge overall_score 70 then
        ([0x26A0, 0xFE0F] @ asc '' '' @ [0x5185, 0x5BB9, 0x8D28, 0x91CF, 0x8FBE, 0x6807, 0xFF0C,
          0x53EF, 0x4EE5, 0x53D1, 0x5E03, 0xFF0C, 0x4F46, 0x5EFA, 0x8BAE, 0x4EBA, 0x5DE5, 0x5BA1,
          0x6838], [0x8FBE, 0x6807])
      else if float_ge overall_score 60 then
        ([0x274C] @ asc '' '' @ [0x5185, 0x5BB9, 0x8D28, 0x91CF, 0x4E00, 0x822C, 0xFF0C, 0x4E0D,
          0x5EFA, 0x8BAE, 0x53D1, 0x5E03, 0xFF0C, 0x9700, 0x8981, 0x4FEE, 0x6539], [0x4E00, 0x822C])
      else if float_ge overall_score 50 then
        ([0x274C] @ asc '' '' @ [0x5185, 0x5BB9, 0x8D28, 0x91CF, 0x8F83, 0x5DEE, 0xFF0C, 0x4E0D,
          0x5EFA, 0x8BAE, 0x53D1, 0x5E03, 0xFF0C, 0x9700, 0x8981, 0x5927, 0x5E45, 0x4FEE, 0x6539],
         [0x8F83, 0x5DEE])
      else
        ([0x274C] @ asc '' '' @ [0x5185, 0x5BB9, 0x8D28, 0x91CF, 0x5F88, 0x5DEE, 0xFF0C, 0x7EDD,
          0x5BF9, 0x4E0D, 0x80FD, 0x53D1, 0x5E03], [0x5F88, 0x5DEE]))"

text \<open>The five texts of the suggestion list: three name a dimension that is not
  sufficient (truth, freshness, consistency), two are warnings (possibly false
  information, possibly outdated).\<close>

definition suggest_truth :: ustr where
  "suggest_truth = [0x771F, 0x5B9E, 0x6027, 0x4E0D, 0x8DB3, 0xFF1A, 0x5EFA, 0x8BAE, 0x91CD, 0x65B0,
     0x6838, 0x5B9E, 0x4E8B, 0x5B9E, 0xFF0C, 0x6DFB, 0x52A0, 0x66F4, 0x591A, 0x53EF, 0x9760, 0x6765,
     0x6E90]"

definition suggest_freshness :: ustr where
  "suggest_freshness = [0x65F6, 0x6548, 0x6027, 0x4E0D, 0x8DB3, 0xFF1A, 0x5EFA, 0x8BAE, 0x66F4,
     0x65B0, 0x5185, 0x5BB9, 0xFF0C, 0x6DFB, 0x52A0, 0x6700, 0x65B0, 0x4FE1, 0x606F]"

definition suggest_consistency :: ustr where
  "suggest_consistency = [0x4E00, 0x81F4, 0x6027, 0x4E0D, 0x8DB3, 0xFF1A, 0x5EFA, 0x8BAE, 0x68C0,
     0x67E5, 0x5185, 0x5BB9, 0x903B, 0x8F91, 0xFF0C, 0x786E, 0x4FDD, 0x4FE1, 0x606F, 0x4E00, 0x81F4]"

definition warn_truth :: ustr where
  "warn_truth = [0x8B66, 0x544A, 0xFF1A, 0x5185, 0x5BB9, 0x53EF, 0x80FD, 0x5305, 0x542B, 0x865A,
     0x5047, 0x4FE1, 0x606F, 0xFF0C, 0x5FC5, 0x987B, 0x5F7B, 0x5E95, 0x6838, 0x67E5]"

definition warn_freshness :: ustr where
  "warn_freshness = [0x8B66, 0x544A, 0xFF1A, 0x5185, 0x5BB9, 0x53EF, 0x80FD, 0x8FC7, 0x65F6,
     0xFF0C, 0x5EFA, 0x8BAE, 0x91CD, 0x65B0, 0x83B7, 0x53D6, 0x6700, 0x65B0, 0x8D44, 0x8BAF]"

text \<open>Lines 573 to 585: the list is built by five \<open>if\<close> statements in this order.\<close>

definition improvement_suggestions :: "pynum \<Rightarrow> pynum \<Rightarrow> pynum \<Rightarrow> ustr list" where
  "improvement_suggestions truth_score freshness_score consistency_score =
     (if num_lt truth_score 70 then [suggest_truth] else [])
     @ (if num_lt freshness_score 70 then [suggest_freshness] else [])
     @ (if num_lt consistency_score 70 then [suggest_consistency] else [])
     @ (if num_lt truth_score 50 then [warn_truth] else [])
     @ (if num_lt freshness_score 50 then [warn_freshness] else [])"

text \<open>
  Lines 542 to 610, on the three verdicts. Reading a score with \<open>.get\<close> raises on a
  verdict that is no dictionary. The weighted sum
  \<open>truth_score * 0.35 + freshness_score * 0.45 + consistency_score * 0.20\<close> is evaluated
  from left to right in floating point: each product and each sum is rounded, a score
  that is no number raises \<open>TypeError\<close> and an \<open>int\<close> too large for a float raises
  \<open>OverflowError\<close>. Nothing here catches an exception.
\<close>

definition aggregate :: "pyval \<Rightarrow> pyval \<Rightarrow> pyval \<Rightarrow> exn + pyval" where
  "aggregate truth_check freshness_check consistency_check =
     (case dict_get truth_check (asc ''confidence'') (PInt 0) of Inl e \<Rightarrow> Inl e
      | Inr truth_score \<Rightarrow>
     (case dict_get freshness_check (asc ''score'') (PInt 0) of Inl e \<Rightarrow> Inl e
      | Inr freshness_score \<Rightarrow>
     (case dict_get consistency_check (asc ''confidence'') (PInt 0) of Inl e \<Rightarrow> Inl e
      | Inr consistency_score \<Rightarrow>
     (case py_num truth_score of Inl e \<Rightarrow> Inl e
      | Inr t \<Rightarrow>
     (case num_mul_float t (float_literal (35 / 100)) of Inl e \<Rightarrow> Inl e
      | Inr weighted_truth \<Rightarrow>
     (case py_num freshness_score of Inl e \<Rightarrow> Inl e
      | Inr f \<Rightarrow>
     (case num_mul_float f (float_literal (45 / 100)) of Inl e \<Rightarrow> Inl e
      | Inr weighted_freshness \<Rightarrow>
     (case py_num consistency_score of Inl e \<Rightarrow> Inl e
      | Inr c \<Rightarrow>
     (case num_mul_float c (float_literal (20 / 100)) of Inl e \<Rightarrow> Inl e
      | Inr weighted_consistency \<Rightarrow>
     (let overall_score =
            float_add (float_add weighted_truth weighted_freshness) weighted_consistency;
          is_pass = float_ge overall_score 70;
          recommendation = fst (quality_of overall_score);
          quality_level = snd (quality_of overall_score)
      in Inr (PDict
        [(asc ''overall_score'', PFloat overall_score),
         (asc ''is_pass'', PBool is_pass),
         (asc ''quality_level'', PStr quality_level),
         (asc ''truth_check'', truth_check),
         (asc ''freshness_check'', freshness_check),
         (asc ''consistency_check'', consistency_check),
         (asc ''recommendation'', PStr recommendation),
         (asc ''improvement_suggestions'', PList (map PStr (improvement_suggestions t f c))),
         (asc ''score_breakdown'', PDict
            [(asc ''truth_score'', truth_score),
             (asc ''freshness_score'', freshness_score),
             (asc ''consistency_score'', consistency_score),
             (asc ''weights'', PDict
                [(asc ''truth'', PFloat (float_literal (35 / 100))),
                 (asc ''freshness'', PFloat (float_literal (45 / 100))),
                 (asc ''consistency'', PFloat (float_literal (20 / 100)))])])])))))))))))"

definition comprehensive_check ::
  "world \<Rightarrow> fact_checker \<Rightarrow> ustr \<Rightarrow> ustr \<Rightarrow> datetime option \<Rightarrow> exn + pyval" where
  "comprehensive_check w self topic content timestamp =
     (let truth_check = verify_claim w self content;
          freshness_check = check_freshness w self content topic timestamp;
          consistency_check = cross_reference w self topic content
      in aggregate truth_check freshness_check consistency_check)"
section \<open>Checkers that the constructor does not build\<close>

text \<open>
  The constructor always installs an instance of \<open>WebSearcher\<close>, which has no attribute
  \<open>api_key\<close>. The three methods of \<open>FactChecker\<close> are written for a searcher that has
  one. \<open>with_searcher_key k\<close> is the checker after the assignment
  \<open>self.web_searcher.api_key = k\<close>, and \<open>with_verify_fact vf\<close> is the checker whose
  searcher answers \<open>verify_fact\<close> with \<open>vf\<close> (a subclass of \<open>WebSearcher\<close> that
  overrides the deprecated method).
\<close>

definition with_searcher_key :: "pyval \<Rightarrow> fact_checker \<Rightarrow> fact_checker" where
  "with_searcher_key k self =
     self\<lparr>web_searcher := (web_searcher self)\<lparr>searcher_instance :=
       (case searcher_instance (web_searcher self) of
          PObj cls d \<Rightarrow> PObj cls (AList.update (asc ''api_key'') k d)
        | v \<Rightarrow> v)\<rparr>\<rparr>"

definition with_verify_fact ::
  "(nat \<Rightarrow> ustr \<Rightarrow> exn + verification_round) \<Rightarrow> fact_checker \<Rightarrow> fact_checker" where
  "with_verify_fact vf self = self\<lparr>web_searcher := (web_searcher self)\<lparr>call_verify_fact := vf\<rparr>\<rparr>"

section \<open>content_improver.py\<close>

text \<open>\<open>x < k\<close> for an integer literal \<open>k\<close>: a value that is no number raises
  \<open>TypeError\<close>.\<close>

definition py_lt :: "pyval \<Rightarrow> int \<Rightarrow> exn + bool" where
  "py_lt x k =
     (case num_of x of
        Some n \<Rightarrow> Inr (num_lt n k)
      | None \<Rightarrow> Inl (TypeError (asc ''< not supported between these instances'')))"

text \<open>A value under the format specification \<open>:.1f\<close>: a number is converted to
  \<open>float\<close> and printed; a string raises \<open>ValueError\<close>, the other values raise
  \<open>TypeError\<close>.\<close>

definition py_format_1f :: "world \<Rightarrow> pyval \<Rightarrow> exn + ustr" where
  "py_format_1f w x =
     (case num_of x of
        Some n \<Rightarrow> (case to_float n of Inl e \<Rightarrow> Inl e | Inr a \<Rightarrow> Inr (format_1f w a))
      | None \<Rightarrow>
          (case x of
             PStr s \<Rightarrow>
               Inl (ValueError (asc ''Unknown format code '' @ [0x27] @ asc ''f'' @ [0x27]
                      @ asc '' for object of type '' @ [0x27] @ asc ''str'' @ [0x27]))
           | _ \<Rightarrow> Inl (TypeError (asc ''unsupported format string passed to __format__''))))"

text \<open>\<open>key in x\<close> for a string \<open>key\<close>.\<close>

fun py_in :: "ustr \<Rightarrow> pyval \<Rightarrow> exn + bool" where
  "py_in key (PDict d) = Inr (map_of d key \<noteq> None)"
| "py_in key (PList xs) = Inr (PStr key \<in> set xs)"
| "py_in key (PStr s) = Inr (sublist key s)"
| "py_in key v = Inl (TypeError (asc ''argument is not iterable''))"

text \<open>\<open>len(x)\<close>.\<close>

fun py_len :: "pyval \<Rightarrow> exn + nat" where
  "py_len (PStr s) = Inr (length s)"
| "py_len (PList xs) = Inr (length xs)"
| "py_len (PDict d) = Inr (length d)"
| "py_len v = Inl (TypeError (asc ''object has no len()''))"

text \<open>\<open>'\n'.join(xs)\<close>: every element has to be a string.\<close>

fun join_lines :: "pyval list \<Rightarrow> exn + ustr" where
  "join_lines [] = Inr []"
| "join_lines [PStr s] = Inr s"
| "join_lines (PStr s # x # xs) =
     (case join_lines (x # xs) of Inl e \<Rightarrow> Inl e | Inr rest \<Rightarrow> Inr (s @ [10] @ rest))"
| "join_lines (v # xs) = Inl (TypeError (asc ''sequence item: expected str instance''))"

text \<open>
  \<open>clean_json_response\<close>: the first group of the first pattern that matches, stripped,
  and the stripped text when none matches. The patterns are
  \<open>```json\s*\n?([\s\S]*?)\n?```\<close> and \<open>```\s*\n?([\s\S]*?)\n?```\<close>.
\<close>

definition clean_json_response :: "world \<Rightarrow> ustr \<Rightarrow> ustr" where
  "clean_json_response w text =
     (if text = [] then text
      else
        (case re_search w
                ([0x60, 0x60, 0x60] @ asc ''json'' @ [0x5C] @ asc ''s*'' @ [0x5C] @ asc ''n?([''
                 @ [0x5C] @ asc ''s'' @ [0x5C] @ asc ''S]*?)'' @ [0x5C] @ asc ''n?''
                 @ [0x60, 0x60, 0x60]) text of
           Some group1 \<Rightarrow> str_strip group1
         | None \<Rightarrow>
             (case re_search w
                     ([0x60, 0x60, 0x60, 0x5C] @ asc ''s*'' @ [0x5C] @ asc ''n?(['' @ [0x5C]
                      @ asc ''s'' @ [0x5C] @ asc ''S]*?)'' @ [0x5C] @ asc ''n?''
                      @ [0x60, 0x60, 0x60]) text of
                Some group1 \<Rightarrow> str_strip group1
              | None \<Rightarrow> str_strip text)))"

record content_improver =
  improver_api_key :: pyval
  improver_base_url :: ustr
  improver_model :: ustr

definition ContentImprover_init :: "config \<Rightarrow> pyval \<Rightarrow> content_improver" where
  "ContentImprover_init cfg key =
     \<lparr>improver_api_key = py_or key (opt_str (GLM_API_KEY cfg)),
      improver_base_url = asc ''https://ark.cn-beijing.volces.com/api/v3/responses'',
      improver_model = asc ''glm-4-7-251222''\<rparr>"

subsection \<open>_make_glm_request\<close>

text \<open>The texts one entry of \<open>content\<close> adds to \<open>collected_text\<close>; the debug line
  slices the text.\<close>

definition collect_content_item :: "pyval \<Rightarrow> exn + pyval list" where
  "collect_content_item content_item =
     (case dict_get content_item (asc ''type'') PNone of Inl e \<Rightarrow> Inl e
      | Inr item_type \<Rightarrow>
        (if item_type = PStr (asc ''output_text'') then
           (case dict_get content_item (asc ''text'') (PStr []) of Inl e \<Rightarrow> Inl e
            | Inr text \<Rightarrow>
              (if truthy text then
                 (case py_slice_to 100 text of Inl e \<Rightarrow> Inl e | Inr shown \<Rightarrow> Inr [text])
               else Inr []))
         else Inr []))"

text \<open>The texts one entry of \<open>output\<close> adds.\<close>

definition collect_output_item :: "pyval \<Rightarrow> exn + pyval list" where
  "collect_output_item item =
     (case dict_get item (asc ''type'') (PStr (asc ''unknown'')) of Inl e \<Rightarrow> Inl e
      | Inr item_type \<Rightarrow>
     (case dict_get item (asc ''role'') PNone of Inl e \<Rightarrow> Inl e
      | Inr role \<Rightarrow>
        (if item_type = PStr (asc ''message'') \<and> role = PStr (asc ''assistant'') then
           (case dict_get item (asc ''content'') (PList []) of Inl e \<Rightarrow> Inl e
            | Inr content \<Rightarrow>
           (case py_iter content of Inl e \<Rightarrow> Inl e
            | Inr content_items \<Rightarrow>
           (case sequence (map collect_content_item content_items) of Inl e \<Rightarrow> Inl e
            | Inr texts \<Rightarrow> Inr (concat texts))))
         else if item_type = PStr (asc ''web_search_call'') then
           (case dict_get item (asc ''action'') (PDict []) of Inl e \<Rightarrow> Inl e
            | Inr action \<Rightarrow>
           (case dict_get action (asc ''query'') (PStr (asc ''N/A'')) of Inl e \<Rightarrow> Inl e
            | Inr query \<Rightarrow> Inr []))
         else Inr [])))"

text \<open>The decoded response, from \<open>if 'error' in result\<close> to \<open>return content\<close>.\<close>

definition glm_content :: "world \<Rightarrow> pyval \<Rightarrow> exn + ustr" where
  "glm_content w result =
     (case py_in (asc ''error'') result of Inl e \<Rightarrow> Inl e
      | Inr has_error \<Rightarrow>
        (if has_error then
           (case dict_subscript result (asc ''error'') of Inl e \<Rightarrow> Inl e
            | Inr err \<Rightarrow>
           (case dict_get err (asc ''code'') (PStr (asc ''unknown'')) of Inl e \<Rightarrow> Inl e
            | Inr error_code \<Rightarrow>
           (case dict_get err (asc ''message'') (PStr (asc ''unknown'')) of Inl e \<Rightarrow> Inl e
            | Inr error_message \<Rightarrow>
              Inl (OtherException (asc ''API '' @ [0x9519, 0x8BEF] @ asc '' ['' @ py_str w error_code
                     @ asc '']: '' @ py_str w error_message)))))
         else
           (case py_in (asc ''output'') result of Inl e \<Rightarrow> Inl e
            | Inr has_output \<Rightarrow>
              (if \<not> has_output then
                 Inl (OtherException ([0x54CD, 0x5E94, 0x4E2D, 0x6CA1, 0x6709] @ asc '' output ''
                        @ [0x5B57, 0x6BB5]))
               else
                 (case dict_subscript result (asc ''output'') of Inl e \<Rightarrow> Inl e
                  | Inr output_items \<Rightarrow>
                 (case py_iter output_items of Inl e \<Rightarrow> Inl e
                  | Inr items \<Rightarrow>
                 (case sequence (map collect_output_item items) of Inl e \<Rightarrow> Inl e
                  | Inr texts \<Rightarrow>
                    (if concat texts = [] then
                       Inl (OtherException (asc ''GLM-4.7 '' @ [0x54CD, 0x5E94, 0x4E2D, 0x672A,
                              0x627E, 0x5230, 0x6709, 0x6548, 0x6587, 0x672C, 0x5185, 0x5BB9]))
                     else
                       (case join_lines (concat texts) of Inl e \<Rightarrow> Inl e
                        | Inr content \<Rightarrow>
                       (case py_in (asc ''usage'') result of Inl e \<Rightarrow> Inl e
                        | Inr has_usage \<Rightarrow>
                          (if has_usage then
                             (case dict_subscript result (asc ''usage'') of Inl e \<Rightarrow> Inl e
                              | Inr usage \<Rightarrow>
                             (case dict_get usage (asc ''total_tokens'') (PInt 0) of
                                Inl e \<Rightarrow> Inl e
                              | Inr total_tokens \<Rightarrow> Inr content))
                           else Inr content)))))))))))"

text \<open>\<open>_make_glm_request\<close>: without a key \<open>ValueError\<close>; the \<open>except\<close> of the method
  logs and raises again, so every exception of the request leaves the method.\<close>

definition make_glm_request :: "world \<Rightarrow> content_improver \<Rightarrow> prompt \<Rightarrow> exn + ustr" where
  "make_glm_request w self request =
     (if \<not> truthy (improver_api_key self) then
        Inl (ValueError (asc ''GLM API Key '' @ [0x672A, 0x914D, 0x7F6E]))
      else
        (case requests_post w request of Inl e \<Rightarrow> Inl e
         | Inr response \<Rightarrow>
           (if resp_status_code response \<noteq> 200 then
              Inl (OtherException (asc ''HTTP '' @ [0x9519, 0x8BEF] @ asc '': ''
                     @ str_of w (PInt (resp_status_code response)) @ asc '' - ''
                     @ take 500 (resp_text response)))
            else
              (case resp_json response of Inl e \<Rightarrow> Inl e
               | Inr result \<Rightarrow> glm_content w result))))"

subsection \<open>improve_content\<close>

text \<open>One entry of \<open>improvement_needs\<close> for a score below 70, as lines 200 to 205
  build it.\<close>

definition need_of :: "world \<Rightarrow> pyval \<Rightarrow> ustr \<Rightarrow> ustr \<Rightarrow> exn + ustr list" where
  "need_of w score before after =
     (case py_lt score 70 of Inl e \<Rightarrow> Inl e
      | Inr low \<Rightarrow>
        (if low then
           (case py_format_1f w score of Inl e \<Rightarrow> Inl e
            | Inr shown \<Rightarrow> Inr [before @ shown @ after])
         else Inr []))"

text \<open>Lines 193 to 250: the request that is sent, or the exception raised on the way
  (a report without the expected entries, a score that is no number).\<close>

definition improvement_request :: "world \<Rightarrow> ustr \<Rightarrow> ustr \<Rightarrow> pyval \<Rightarrow> exn + prompt" where
  "improvement_request w topic content check_result =
     (case dict_subscript check_result (asc ''score_breakdown'') of Inl e \<Rightarrow> Inl e
      | Inr breakdown1 \<Rightarrow>
     (case dict_subscript breakdown1 (asc ''truth_score'') of Inl e \<Rightarrow> Inl e
      | Inr truth_score \<Rightarrow>
     (case dict_subscript check_result (asc ''score_breakdown'') of Inl e \<Rightarrow> Inl e
      | Inr breakdown2 \<Rightarrow>
     (case dict_subscript breakdown2 (asc ''freshness_score'') of Inl e \<Rightarrow> Inl e
      | Inr freshness_score \<Rightarrow>
     (case dict_subscript check_result (asc ''score_breakdown'') of Inl e \<Rightarrow> Inl e
      | Inr breakdown3 \<Rightarrow>
     (case dict_subscript breakdown3 (asc ''consistency_score'') of Inl e \<Rightarrow> Inl e
      | Inr consistency_score \<Rightarrow>
     (case dict_subscript check_result (asc ''overall_score'') of Inl e \<Rightarrow> Inl e
      | Inr overall_score \<Rightarrow>
     (case need_of w truth_score ([0x771F, 0x5B9E, 0x6027, 0x8BC4, 0x5206] @ asc '' '')
             (asc '' '' @ [0x5206, 0x8FC7, 0x4F4E, 0xFF0C, 0x9700, 0x8981, 0x6838, 0x5B9E, 0x4E8B,
              0x5B9E, 0xFF0C, 0x6DFB, 0x52A0, 0x53EF, 0x9760, 0x6765, 0x6E90]) of Inl e \<Rightarrow> Inl e
      | Inr truth_need \<Rightarrow>
     (case need_of w freshness_score ([0x65F6, 0x6548, 0x6027, 0x8BC4, 0x5206] @ asc '' '')
             (asc '' '' @ [0x5206, 0x8FC7, 0x4F4E, 0xFF0C, 0x9700, 0x8981, 0x66F4, 0x65B0, 0x5185,
              0x5BB9, 0xFF0C, 0x6DFB, 0x52A0, 0x6700, 0x65B0, 0x4FE1, 0x606F]) of Inl e \<Rightarrow> Inl e
      | Inr freshness_need \<Rightarrow>
     (case need_of w consistency_score ([0x4E00, 0x81F4, 0x6027, 0x8BC4, 0x5206] @ asc '' '')
             (asc '' '' @ [0x5206, 0x8FC7, 0x4F4E, 0xFF0C, 0x9700, 0x8981, 0x68C0, 0x67E5, 0x5185,
              0x5BB9, 0x903B, 0x8F91, 0xFF0C, 0x786E, 0x4FDD, 0x4FE1, 0x606F, 0x4E00, 0x81F4]) of
        Inl e \<Rightarrow> Inl e
      | Inr consistency_need \<Rightarrow>
     (case dict_get check_result (asc ''improvement_suggestions'') PNone of Inl e \<Rightarrow> Inl e
      | Inr suggestions \<Rightarrow>
     (case (if truthy suggestions then
              (case dict_subscript check_result (asc ''improvement_suggestions'') of
                 Inl e \<Rightarrow> Inl e
               | Inr again \<Rightarrow> py_iter again)
            else Inr []) of Inl e \<Rightarrow> Inl e
      | Inr extra \<Rightarrow>
     (case py_format_1f w overall_score of Inl e \<Rightarrow> Inl e
      | Inr overall_shown \<Rightarrow>
     (case py_format_1f w truth_score of Inl e \<Rightarrow> Inl e
      | Inr truth_shown \<Rightarrow>
     (case py_format_1f w freshness_score of Inl e \<Rightarrow> Inl e
      | Inr freshness_shown \<Rightarrow>
     (case py_format_1f w consistency_score of Inl e \<Rightarrow> Inl e
      | Inr consistency_shown \<Rightarrow>
        Inr (ImprovementPrompt topic content overall_shown truth_shown freshness_shown
               consistency_shown
               (truth_need @ freshness_need @ consistency_need @ map (py_str w) extra))
     ))))))))))))))))"

text \<open>The three dictionaries that report a failure; each carries the content it was
  given.\<close>

definition not_configured_result :: "ustr \<Rightarrow> pyval" where
  "not_configured_result content =
     PDict [(asc ''success'', PBool False), (asc ''improved_content'', PStr content),
            (asc ''improvements'', PList []),
            (asc ''reasoning'', PStr ([0x672A, 0x914D, 0x7F6E] @ asc '' API Key''
               @ [0xFF0C, 0x65E0, 0x6CD5, 0x6539, 0x8FDB, 0x5185, 0x5BB9]))]"

definition parse_failure_result :: "world \<Rightarrow> ustr \<Rightarrow> exn \<Rightarrow> pyval" where
  "parse_failure_result w content e =
     PDict [(asc ''success'', PBool False), (asc ''improved_content'', PStr content),
            (asc ''improvements'', PList []),
            (asc ''reasoning'', PStr ([0x89E3, 0x6790, 0x5931, 0x8D25] @ asc '': '' @ str_exn w e))]"

definition improve_failure_result :: "world \<Rightarrow> ustr \<Rightarrow> exn \<Rightarrow> pyval" where
  "improve_failure_result w content e =
     PDict [(asc ''success'', PBool False), (asc ''improved_content'', PStr content),
            (asc ''improvements'', PList []),
            (asc ''reasoning'', PStr ([0x6539, 0x8FDB, 0x5931, 0x8D25] @ asc '': '' @ str_exn w e))]"

text \<open>
  Lines 258 to 285, the inner \<open>try\<close>, on the outcome of \<open>json.loads(cleaned_result)\<close>:
  \<open>JSONDecodeError\<close> is caught here, another exception of \<open>json.loads\<close> and an exception
  while the decoded value is read leave the block.
\<close>

definition improvement_of_decoded :: "world \<Rightarrow> ustr \<Rightarrow> exn + pyval \<Rightarrow> exn + pyval" where
  "improvement_of_decoded w content decoded =
     (case decoded of
        Inl (JSONDecodeError m) \<Rightarrow> Inr (parse_failure_result w content (JSONDecodeError m))
      | Inl e \<Rightarrow> Inl e
      | Inr result \<Rightarrow>
     (case dict_get result (asc ''improved_content'') (PStr content) of Inl e \<Rightarrow> Inl e
      | Inr improved_content \<Rightarrow>
     (case dict_get result (asc ''improvements'') (PList []) of Inl e \<Rightarrow> Inl e
      | Inr improvements \<Rightarrow>
     (case dict_get result (asc ''reasoning'') (PStr []) of Inl e \<Rightarrow> Inl e
      | Inr reasoning \<Rightarrow>
     (case py_len improvements of Inl e \<Rightarrow> Inl e
      | Inr n \<Rightarrow>
     (case py_iter improvements of Inl e \<Rightarrow> Inl e
      | Inr imps \<Rightarrow>
     (case sequence (map (\<lambda>imp. dict_get imp (asc ''issue'') (PStr [])) imps) of Inl e \<Rightarrow> Inl e
      | Inr issues \<Rightarrow>
        Inr (PDict [(asc ''success'', PBool True), (asc ''improved_content'', improved_content),
                    (asc ''improvements'', improvements),
                    (asc ''reasoning'', reasoning)]))))))))"

text \<open>The body of the outer \<open>try\<close> of \<open>improve_content\<close>.\<close>

definition improve_content_body ::
  "world \<Rightarrow> content_improver \<Rightarrow> ustr \<Rightarrow> ustr \<Rightarrow> pyval \<Rightarrow> exn + pyval" where
  "improve_content_body w self topic content check_result =
     (case improvement_request w topic content check_result of Inl e \<Rightarrow> Inl e
      | Inr request \<Rightarrow>
     (case make_glm_request w self request of Inl e \<Rightarrow> Inl e
      | Inr result_text \<Rightarrow>
        improvement_of_decoded w content (json_loads w (clean_json_response w result_text))))"

definition improve_content ::
  "world \<Rightarrow> content_improver \<Rightarrow> ustr \<Rightarrow> ustr \<Rightarrow> pyval \<Rightarrow> pyval" where
  "improve_content w self topic content check_result =
     (if \<not> truthy (improver_api_key self) then not_configured_result content
      else
        (case improve_content_body w self topic content check_result of
           Inr result \<Rightarrow> result
         | Inl e \<Rightarrow> improve_failure_result w content e))"

section \<open>Basic facts\<close>

lemma asc_eq_iff [simp]: "asc s = asc t \<longleftrightarrow> s = t"
proof -
  have "inj (of_char :: char \<Rightarrow> nat)"
    by (rule inj_on_inverseI [where g = char_of]) simp
  then show ?thesis
    unfolding asc_def by (simp add: inj_map_eq_map)
qed

lemma asc_eq_Nil_iff [simp]: "asc s = [] \<longleftrightarrow> s = []"
  by (simp add: asc_def)

lemma str_nat_2 [simp]: "str_nat 2 = [50]"
  by (simp add: str_nat.simps)

lemma str_nat_Suc_Suc_0 [simp]: "str_nat (Suc (Suc 0)) = [50]"
  by (simp add: str_nat.simps)

lemma upt_2 [simp]: "[0..<2] = [0, 1]"
  by (simp add: upt_rec)

subsection \<open>Rounding\<close>

lemma pow2_pos [simp]: "0 < pow2 p"
  by (simp add: pow2_def)

lemma pow2_powi: "pow2 p = 2 powi p"
  by (simp add: pow2_def power_int_def field_simps)

lemma pow2_mono: "p \<le> q \<Longrightarrow> pow2 p \<le> pow2 q"
  by (simp add: pow2_powi power_int_increasing)

text \<open>The search finds the exponent \<open>q\<close> when \<open>a\<close> lies in the binade of \<open>q\<close> (or below
  every binade and \<open>q\<close> is the least exponent).\<close>

lemma ulp_exponent_eq:
  "a < pow2 (q + 53) \<Longrightarrow> q = p \<or> pow2 (q + 52) \<le> a \<Longrightarrow> p \<le> q \<Longrightarrow> nat (q - p) \<le> n
   \<Longrightarrow> ulp_exponent n p a = q"
proof (induction n arbitrary: p)
  case 0
  then show ?case by simp
next
  case (Suc n)
  show ?case
  proof (cases "a < pow2 (p + 53)")
    case True
    have "q = p"
    proof (rule ccontr)
      assume "q \<noteq> p"
      with Suc.prems have "pow2 (q + 52) \<le> a" "p + 53 \<le> q + 52" by auto
      with pow2_mono [of "p + 53" "q + 52"] True show False by simp
    qed
    with True show ?thesis by simp
  next
    case False
    with Suc.prems have "q \<noteq> p" by auto
    with Suc.prems have "p + 1 \<le> q" "nat (q - (p + 1)) \<le> n" "q = p + 1 \<or> pow2 (q + 52) \<le> a"
      by auto
    from Suc.IH [OF Suc.prems(1) this(3) this(1) this(2)] False show ?thesis by simp
  qed
qed

text \<open>How a rounding is computed by hand: give the exponent \<open>p\<close> of the last place and
  the rounded significand \<open>m\<close>.\<close>

lemma round_double_eq:
  assumes "\<bar>q\<bar> < pow2 (p + 53)" "p = - 1074 \<or> pow2 (p + 52) \<le> \<bar>q\<bar>" "- 1074 \<le> p" "p \<le> 971"
    and "round_half_even (\<bar>q\<bar> / pow2 p) = m" "of_int m * pow2 p < pow2 1024"
  shows "round_double q = Finite (if q < 0 then - (of_int m * pow2 p) else of_int m * pow2 p)"
proof -
  have e: "ulp_exponent 2046 (- 1074) \<bar>q\<bar> = p"
    using assms(1-4) by (intro ulp_exponent_eq) auto
  have "\<not> pow2 1024 \<le> of_int m * pow2 p"
    using assms(6) by simp
  then show ?thesis
    unfolding round_double_def Let_def e assms(5) by (simp only: if_False)
qed

lemma floor_rat_numeral [simp]: "\<lfloor>(numeral a :: rat) / numeral b\<rfloor> = numeral a div numeral b"
  by (metis floor_divide_of_int_eq of_int_numeral)

lemma round_double_0 [simp]: "round_double 0 = Finite 0"
  using round_double_eq [of 0 "- 1074" 0] by (simp add: round_half_even_def pow2_def)

text \<open>The float literals of the source and the roundings of the worked examples.\<close>

lemma float_literal_035 [simp]: "float_literal (7 / 20) = Finite (3152519739159347 / 9007199254740992)"
  unfolding float_literal_def
  using round_double_eq [of "7 / 20" "- 54" 6305039478318694]
  by (simp add: round_half_even_def pow2_def)

lemma float_literal_045 [simp]: "float_literal (9 / 20) = Finite (8106479329266893 / 18014398509481984)"
  unfolding float_literal_def
  using round_double_eq [of "9 / 20" "- 54" 8106479329266893]
  by (simp add: round_half_even_def pow2_def)

lemma float_literal_020 [simp]: "float_literal (1 / 5) = Finite (3602879701896397 / 18014398509481984)"
  unfolding float_literal_def
  using round_double_eq [of "1 / 5" "- 55" 7205759403792794]
  by (simp add: round_half_even_def pow2_def)

lemma float_literal_04 [simp]: "float_literal (2 / 5) = Finite (3602879701896397 / 9007199254740992)"
  unfolding float_literal_def
  using round_double_eq [of "2 / 5" "- 54" 7205759403792794]
  by (simp add: round_half_even_def pow2_def)

lemma float_literal_06 [simp]: "float_literal (3 / 5) = Finite (5404319552844595 / 9007199254740992)"
  unfolding float_literal_def
  using round_double_eq [of "3 / 5" "- 53" 5404319552844595]
  by (simp add: round_half_even_def pow2_def)

lemma round_double_8 [simp]: "round_double (8) = Finite (8)"
  using round_double_eq [of "8" "- 49" 4503599627370496]
  by (simp add: round_half_even_def pow2_def)

lemma round_double_10 [simp]: "round_double (10) = Finite (10)"
  using round_double_eq [of "10" "- 49" 5629499534213120]
  by (simp add: round_half_even_def pow2_def)

lemma round_double_28 [simp]: "round_double (28) = Finite (28)"
  using round_double_eq [of "28" "- 48" 7881299347898368]
  by (simp add: round_half_even_def pow2_def)

lemma round_double_30 [simp]: "round_double (30) = Finite (30)"
  using round_double_eq [of "30" "- 48" 8444249301319680]
  by (simp add: round_half_even_def pow2_def)

lemma round_double_50 [simp]: "round_double (50) = Finite (50)"
  using round_double_eq [of "50" "- 47" 7036874417766400]
  by (simp add: round_half_even_def pow2_def)

lemma round_double_57 [simp]: "round_double (57) = Finite (57)"
  using round_double_eq [of "57" "- 47" 8022036836253696]
  by (simp add: round_half_even_def pow2_def)

lemma round_double_70 [simp]: "round_double (70) = Finite (70)"
  using round_double_eq [of "70" "- 46" 4925812092436480]
  by (simp add: round_half_even_def pow2_def)

lemma round_double_77 [simp]: "round_double (77) = Finite (77)"
  using round_double_eq [of "77" "- 46" 5418393301680128]
  by (simp add: round_half_even_def pow2_def)

lemma round_double_80 [simp]: "round_double (80) = Finite (80)"
  using round_double_eq [of "80" "- 46" 5629499534213120]
  by (simp add: round_half_even_def pow2_def)

lemma round_double_82 [simp]: "round_double (82) = Finite (82)"
  using round_double_eq [of "82" "- 46" 5770237022568448]
  by (simp add: round_half_even_def pow2_def)

lemma round_double_85 [simp]: "round_double (85) = Finite (85)"
  using round_double_eq [of "85" "- 46" 5981343255101440]
  by (simp add: round_half_even_def pow2_def)

lemma round_double_90 [simp]: "round_double (90) = Finite (90)"
  using round_double_eq [of "90" "- 46" 6333186975989760]
  by (simp add: round_half_even_def pow2_def)

lemma round_double_95 [simp]: "round_double (95) = Finite (95)"
  using round_double_eq [of "95" "- 46" 6685030696878080]
  by (simp add: round_half_even_def pow2_def)

lemma round_double_100 [simp]: "round_double (100) = Finite (100)"
  using round_double_eq [of "100" "- 46" 7036874417766400]
  by (simp add: round_half_even_def pow2_def)

lemma round_weights_035_045 [simp]: "round_double (14411518807585587 / 18014398509481984) = Finite (3602879701896397 / 4503599627370496)"
  using round_double_eq [of "14411518807585587 / 18014398509481984" "- 53" 7205759403792794]
  by (simp add: round_half_even_def pow2_def)

lemma round_weights_035_045_020 [simp]: "round_double (18014398509481985 / 18014398509481984) = Finite (1)"
  using round_double_eq [of "18014398509481985 / 18014398509481984" "- 52" 4503599627370496]
  by (simp add: round_half_even_def pow2_def)

lemma round_50_times_04 [simp]: "round_double (90071992547409925 / 4503599627370496) = Finite (20)"
  using round_double_eq [of "90071992547409925 / 4503599627370496" "- 48" 5629499534213120]
  by (simp add: round_half_even_def pow2_def)

lemma round_95_times_06 [simp]: "round_double (513410357520236525 / 9007199254740992) = Finite (57)"
  using round_double_eq [of "513410357520236525 / 9007199254740992" "- 47" 8022036836253696]
  by (simp add: round_half_even_def pow2_def)

lemma round_20 [simp]: "round_double (20) = Finite (20)"
  using round_double_eq [of "20" "- 48" 5629499534213120]
  by (simp add: round_half_even_def pow2_def)

lemma round_85_times_035 [simp]: "round_double (267964177828544495 / 9007199254740992) = Finite (8373880557142015 / 281474976710656)"
  using round_double_eq [of "267964177828544495 / 9007199254740992" "- 48" 8373880557142015]
  by (simp add: round_half_even_def pow2_def)

lemma round_77_times_045 [simp]: "round_double (624198908353550761 / 18014398509481984) = Finite (4876553971512115 / 140737488355328)"
  using round_double_eq [of "624198908353550761 / 18014398509481984" "- 47" 4876553971512115]
  by (simp add: round_half_even_def pow2_def)

lemma round_28_times_020 [simp]: "round_double (25220157913274779 / 4503599627370496) = Finite (6305039478318695 / 1125899906842624)"
  using round_double_eq [of "25220157913274779 / 4503599627370496" "- 50" 6305039478318695]
  by (simp add: round_half_even_def pow2_def)

lemma round_sum_85_77 [simp]: "round_double (18126988500166245 / 281474976710656) = Finite (4531747125041561 / 70368744177664)"
  using round_double_eq [of "18126988500166245 / 281474976710656" "- 46" 4531747125041561]
  by (simp add: round_half_even_def pow2_def)

lemma round_sum_85_77_28 [simp]: "round_double (78812993478983671 / 1125899906842624) = Finite (4925812092436479 / 70368744177664)"
  using round_double_eq [of "78812993478983671 / 1125899906842624" "- 46" 4925812092436479]
  by (simp add: round_half_even_def pow2_def)

lemma round_90_times_035 [simp]: "round_double (141863388262170615 / 4503599627370496) = Finite (8866461766385663 / 281474976710656)"
  using round_double_eq [of "141863388262170615 / 4503599627370496" "- 48" 8866461766385663]
  by (simp add: round_half_even_def pow2_def)

lemma round_82_times_045 [simp]: "round_double (332365652499942613 / 9007199254740992) = Finite (5193213320311603 / 140737488355328)"
  using round_double_eq [of "332365652499942613 / 9007199254740992" "- 47" 5193213320311603]
  by (simp add: round_half_even_def pow2_def)

lemma round_8_times_020 [simp]: "round_double (3602879701896397 / 2251799813685248) = Finite (3602879701896397 / 2251799813685248)"
  using round_double_eq [of "3602879701896397 / 2251799813685248" "- 52" 7205759403792794]
  by (simp add: round_half_even_def pow2_def)

lemma round_sum_90_82 [simp]: "round_double (19252888407008869 / 281474976710656) = Finite (4813222101752217 / 70368744177664)"
  using round_double_eq [of "19252888407008869 / 281474976710656" "- 46" 4813222101752217]
  by (simp add: round_half_even_def pow2_def)

lemma round_sum_90_82_8 [simp]: "round_double (157625986957967341 / 2251799813685248) = Finite (4925812092436479 / 70368744177664)"
  using round_double_eq [of "157625986957967341 / 2251799813685248" "- 46" 4925812092436479]
  by (simp add: round_half_even_def pow2_def)

lemma round_seconds_24001 [simp]: "round_double (432018 / 5) = Finite (2968805090053325 / 34359738368)"
  using round_double_eq [of "432018 / 5" "- 36" 5937610180106650]
  by (simp add: round_half_even_def pow2_def)

lemma round_hours_24001 [simp]: "round_double (118752203602133 / 4947802324992) = Finite (6755680916032455 / 281474976710656)"
  using round_double_eq [of "118752203602133 / 4947802324992" "- 48" 6755680916032455]
  by (simp add: round_half_even_def pow2_def)

lemma round_double_86400 [simp]: "round_double (86400) = Finite (86400)"
  using round_double_eq [of "86400" "- 36" 5937362789990400]
  by (simp add: round_half_even_def pow2_def)

lemma round_double_24 [simp]: "round_double (24) = Finite (24)"
  using round_double_eq [of "24" "- 48" 6755399441055744]
  by (simp add: round_half_even_def pow2_def)

lemma round_seconds_23999 [simp]: "round_double (431982 / 5) = Finite (2968557699937075 / 34359738368)"
  using round_double_eq [of "431982 / 5" "- 36" 5937115399874150]
  by (simp add: round_half_even_def pow2_def)

lemma round_hours_23999 [simp]: "round_double (118742307997483 / 4947802324992) = Finite (6755117966079033 / 281474976710656)"
  using round_double_eq [of "118742307997483 / 4947802324992" "- 48" 6755117966079033]
  by (simp add: round_half_even_def pow2_def)

text \<open>A number of magnitude \<open>pow2 1024\<close> or more rounds to an infinity, and an \<open>int\<close>
  of that size does not convert to \<open>float\<close>.\<close>

lemma ulp_exponent_exhausted:
  "(\<And>p'. p \<le> p' \<Longrightarrow> p' < p + int n \<Longrightarrow> \<not> a < pow2 (p' + 53)) \<Longrightarrow> ulp_exponent n p a = p + int n"
proof (induction n arbitrary: p)
  case 0
  then show ?case by simp
next
  case (Suc n)
  have "\<not> a < pow2 (p + 53)"
    using Suc.prems [of p] by simp
  moreover have "ulp_exponent n (p + 1) a = p + 1 + int n"
    by (rule Suc.IH) (use Suc.prems in auto)
  ultimately show ?case by simp
qed

lemma pow2_add: "pow2 (p + q) = pow2 p * pow2 q"
  by (simp add: pow2_powi power_int_add)

lemma round_half_even_ge: "of_int k \<le> x \<Longrightarrow> k \<le> round_half_even x"
proof -
  assume "of_int k \<le> x"
  then have "k \<le> \<lfloor>x\<rfloor>" by (simp add: le_floor_iff)
  then show ?thesis by (simp add: round_half_even_def Let_def)
qed

lemma round_double_overflow:
  assumes "pow2 1024 \<le> \<bar>q\<bar>"
  shows "round_double q = (if q < 0 then NegInf else PosInf)"
proof -
  have e: "ulp_exponent 2046 (- 1074) \<bar>q\<bar> = 972"
  proof -
    have "ulp_exponent 2046 (- 1074) \<bar>q\<bar> = - 1074 + int 2046"
    proof (rule ulp_exponent_exhausted)
      fix p' :: int
      assume "- 1074 \<le> p'" "p' < - 1074 + int 2046"
      then have "pow2 (p' + 53) \<le> pow2 1024"
        by (intro pow2_mono) simp
      with assms show "\<not> \<bar>q\<bar> < pow2 (p' + 53)" by simp
    qed
    then show ?thesis by simp
  qed
  have "pow2 1024 = pow2 52 * pow2 972"
    using pow2_add [of 52 972] by simp
  with assms have "pow2 52 * pow2 972 \<le> \<bar>q\<bar>" by simp
  then have "pow2 52 \<le> \<bar>q\<bar> / pow2 972"
    by (simp add: pos_le_divide_eq)
  then have "of_int (2 ^ 52) \<le> \<bar>q\<bar> / pow2 972"
    by (simp add: pow2_def)
  then have "2 ^ 52 \<le> round_half_even (\<bar>q\<bar> / pow2 972)"
    by (rule round_half_even_ge)
  then have "(of_int (2 ^ 52) :: rat) \<le> of_int (round_half_even (\<bar>q\<bar> / pow2 972))"
    by (simp only: of_int_le_iff)
  then have "pow2 52 * pow2 972 \<le> of_int (round_half_even (\<bar>q\<bar> / pow2 972)) * pow2 972"
    by (simp add: pow2_def)
  then have v: "pow2 1024 \<le> of_int (round_half_even (\<bar>q\<bar> / pow2 972)) * pow2 972"
    using \<open>pow2 1024 = pow2 52 * pow2 972\<close> by simp
  show ?thesis
    unfolding round_double_def Let_def e using v by (simp only: if_True)
qed

lemma to_float_too_large:
  "to_float (NInt (2 ^ 1024)) = Inl (OverflowError (asc ''int too large to convert to float''))"
proof -
  have "pow2 1024 \<le> \<bar>of_int (2 ^ 1024)\<bar>"
    by (simp add: pow2_def)
  from round_double_overflow [OF this] show ?thesis
    by simp
qed


lemma to_float_0 [simp]: "to_float (NInt 0) = Inr (Finite 0)"
  by simp

subsection \<open>The checker as its constructor builds it\<close>

lemma getattr_WebSearcher_api_key:
  "getattr (searcher_instance (WebSearcher_init cfg k)) (asc ''api_key'') = Inl no_api_key_error"
  by (simp add: WebSearcher_init_def no_api_key_error_def no_attribute_def Let_def)

lemma web_searcher_FactChecker_init [simp]:
  "web_searcher (FactChecker_init cfg key url d) = WebSearcher_init cfg d"
  by (simp add: FactChecker_init_def Let_def)

lemma verify_claim_body_built:
  "verify_claim_body w (FactChecker_init cfg key url d) claim = Inl no_api_key_error"
  by (simp add: verify_claim_body_def getattr_WebSearcher_api_key)

lemma cross_reference_body_built:
  "cross_reference_body w (FactChecker_init cfg key url d) topic content = Inl no_api_key_error"
  by (simp add: cross_reference_body_def getattr_WebSearcher_api_key)

lemma time_check_cases:
  "(\<exists>e. time_check w timestamp = Inl e) \<or> (\<exists>a b c. time_check w timestamp = Inr (a, b, c))"
  by (cases "time_check w timestamp") auto

lemma check_freshness_body_built:
  "\<exists>e. check_freshness_body w (FactChecker_init cfg key url d) content topic timestamp = Inl e"
  using time_check_cases [of w timestamp]
  by (auto simp add: check_freshness_body_def getattr_WebSearcher_api_key Let_def)

lemma check_freshness_body_built_naive:
  "timestamp = None \<or> (\<exists>t. timestamp = Some (Naive t)) \<Longrightarrow>
   check_freshness_body w (FactChecker_init cfg key url d) content topic timestamp = Inl no_api_key_error"
  by (auto simp add: check_freshness_body_def time_check_def age_hours_def getattr_WebSearcher_api_key Let_def)

lemma verify_claim_built:
  "verify_claim w (FactChecker_init cfg key url d) claim = verify_failure w no_api_key_error"
  by (simp add: verify_claim_def verify_claim_body_built)

lemma cross_reference_built:
  "cross_reference w (FactChecker_init cfg key url d) topic content
     = cross_reference_failure w no_api_key_error"
  by (simp add: cross_reference_def cross_reference_body_built)

lemma check_freshness_built:
  "\<exists>e. check_freshness w (FactChecker_init cfg key url d) content topic timestamp
     = freshness_failure w e"
  using check_freshness_body_built [of w cfg key url d content topic timestamp]
  by (auto simp add: check_freshness_def)

lemma quality_of_0: "quality_of (Finite 0) =
    ([0x274C] @ asc '' '' @ [0x5185, 0x5BB9, 0x8D28, 0x91CF, 0x5F88, 0x5DEE, 0xFF0C, 0x7EDD,
          0x5BF9, 0x4E0D, 0x80FD, 0x53D1, 0x5E03], [0x5F88, 0x5DEE])"
  by (simp add: quality_of_def)

lemma aggregate_failures:
  "aggregate (verify_failure w e1) (freshness_failure w e2) (cross_reference_failure w e3) =
     Inr (PDict
        [(asc ''overall_score'', PFloat (Finite 0)),
         (asc ''is_pass'', PBool False),
         (asc ''quality_level'', PStr [0x5F88, 0x5DEE]),
         (asc ''truth_check'', verify_failure w e1),
         (asc ''freshness_check'', freshness_failure w e2),
         (asc ''consistency_check'', cross_reference_failure w e3),
         (asc ''recommendation'', PStr (fst (quality_of (Finite 0)))),
         (asc ''improvement_suggestions'', PList (map PStr
            [suggest_truth, suggest_freshness, suggest_consistency, warn_truth, warn_freshness])),
         (asc ''score_breakdown'', PDict
            [(asc ''truth_score'', PInt 0),
             (asc ''freshness_score'', PInt 0),
             (asc ''consistency_score'', PInt 0),
             (asc ''weights'', PDict
                [(asc ''truth'', PFloat (float_literal (35 / 100))),
                 (asc ''freshness'', PFloat (float_literal (45 / 100))),
                 (asc ''consistency'', PFloat (float_literal (20 / 100)))])])])"
  by (simp add: aggregate_def verify_failure_def freshness_failure_def cross_reference_failure_def
      py_num_def num_mul_float_def quality_of_0 improvement_suggestions_def Let_def)

lemma comprehensive_check_built:
  "\<exists>e. comprehensive_check w (FactChecker_init cfg key url d) topic content timestamp =
     aggregate (verify_failure w no_api_key_error) (freshness_failure w e)
       (cross_reference_failure w no_api_key_error)"
  using check_freshness_built [of w cfg key url d content topic timestamp]
  by (auto simp add: comprehensive_check_def verify_claim_built cross_reference_built Let_def)

subsection \<open>The report and its suggestions\<close>

lemma py_num_InrD: "py_num x = Inr n \<Longrightarrow> num_of x = Some n"
  by (auto simp add: py_num_def split: option.splits)

lemma num_mul_float_InrD:
  "num_mul_float n k = Inr a \<Longrightarrow> \<exists>x. to_float n = Inr x \<and> a = float_mul x k"
  by (auto simp add: num_mul_float_def split: sum.splits)

lemma aggregate_InrD:
  assumes "aggregate tc fc cc = Inr report"
  shows "\<exists>ts fs cs nt nf nc t f c.
      dict_get tc (asc ''confidence'') (PInt 0) = Inr ts \<and> num_of ts = Some nt
    \<and> to_float nt = Inr t
    \<and> dict_get fc (asc ''score'') (PInt 0) = Inr fs \<and> num_of fs = Some nf
    \<and> to_float nf = Inr f
    \<and> dict_get cc (asc ''confidence'') (PInt 0) = Inr cs \<and> num_of cs = Some nc
    \<and> to_float nc = Inr c
    \<and> report = PDict
        [(asc ''overall_score'', PFloat
            (float_add (float_add (float_mul t (float_literal (35 / 100)))
                                  (float_mul f (float_literal (45 / 100))))
                       (float_mul c (float_literal (20 / 100))))),
         (asc ''is_pass'', PBool (float_ge
            (float_add (float_add (float_mul t (float_literal (35 / 100)))
                                  (float_mul f (float_literal (45 / 100))))
                       (float_mul c (float_literal (20 / 100)))) 70)),
         (asc ''quality_level'', PStr (snd (quality_of
            (float_add (float_add (float_mul t (float_literal (35 / 100)))
                                  (float_mul f (float_literal (45 / 100))))
                       (float_mul c (float_literal (20 / 100))))))),
         (asc ''truth_check'', tc),
         (asc ''freshness_check'', fc),
         (asc ''consistency_check'', cc),
         (asc ''recommendation'', PStr (fst (quality_of
            (float_add (float_add (float_mul t (float_literal (35 / 100)))
                                  (float_mul f (float_literal (45 / 100))))
                       (float_mul c (float_literal (20 / 100))))))),
         (asc ''improvement_suggestions'', PList (map PStr (improvement_suggestions nt nf nc))),
         (asc ''score_breakdown'', PDict
            [(asc ''truth_score'', ts),
             (asc ''freshness_score'', fs),
             (asc ''consistency_score'', cs),
             (asc ''weights'', PDict
                [(asc ''truth'', PFloat (float_literal (35 / 100))),
                 (asc ''freshness'', PFloat (float_literal (45 / 100))),
                 (asc ''consistency'', PFloat (float_literal (20 / 100)))])])]"
proof -
  from assms obtain ts where ts: "dict_get tc (asc ''confidence'') (PInt 0) = Inr ts"
    by (cases "dict_get tc (asc ''confidence'') (PInt 0)") (auto simp add: aggregate_def)
  from assms ts obtain fs where fs: "dict_get fc (asc ''score'') (PInt 0) = Inr fs"
    by (cases "dict_get fc (asc ''score'') (PInt 0)") (auto simp add: aggregate_def)
  from assms ts fs obtain cs where cs: "dict_get cc (asc ''confidence'') (PInt 0) = Inr cs"
    by (cases "dict_get cc (asc ''confidence'') (PInt 0)") (auto simp add: aggregate_def)
  from assms ts fs cs obtain nt where nt: "py_num ts = Inr nt"
    by (cases "py_num ts") (auto simp add: aggregate_def)
  from assms ts fs cs nt obtain a where a: "num_mul_float nt (float_literal (35 / 100)) = Inr a"
    by (cases "num_mul_float nt (float_literal (35 / 100))") (auto simp add: aggregate_def)
  from assms ts fs cs nt a obtain nf where nf: "py_num fs = Inr nf"
    by (cases "py_num fs") (auto simp add: aggregate_def)
  from assms ts fs cs nt a nf obtain b where b: "num_mul_float nf (float_literal (45 / 100)) = Inr b"
    by (cases "num_mul_float nf (float_literal (45 / 100))") (auto simp add: aggregate_def)
  from assms ts fs cs nt a nf b obtain nc where nc: "py_num cs = Inr nc"
    by (cases "py_num cs") (auto simp add: aggregate_def)
  from assms ts fs cs nt a nf b nc obtain c' where c': "num_mul_float nc (float_literal (20 / 100)) = Inr c'"
    by (cases "num_mul_float nc (float_literal (20 / 100))") (auto simp add: aggregate_def)
  from num_mul_float_InrD [OF a] obtain t where t: "to_float nt = Inr t"
    "a = float_mul t (float_literal (35 / 100))" by blast
  from num_mul_float_InrD [OF b] obtain f where f: "to_float nf = Inr f"
    "b = float_mul f (float_literal (45 / 100))" by blast
  from num_mul_float_InrD [OF c'] obtain c where c: "to_float nc = Inr c"
    "c' = float_mul c (float_literal (20 / 100))" by blast
  have r: "report = PDict
        [(asc ''overall_score'', PFloat (float_add (float_add a b) c')),
         (asc ''is_pass'', PBool (float_ge (float_add (float_add a b) c') 70)),
         (asc ''quality_level'', PStr (snd (quality_of (float_add (float_add a b) c')))),
         (asc ''truth_check'', tc),
         (asc ''freshness_check'', fc),
         (asc ''consistency_check'', cc),
         (asc ''recommendation'', PStr (fst (quality_of (float_add (float_add a b) c')))),
         (asc ''improvement_suggestions'', PList (map PStr (improvement_suggestions nt nf nc))),
         (asc ''score_breakdown'', PDict
            [(asc ''truth_score'', ts),
             (asc ''freshness_score'', fs),
             (asc ''consistency_score'', cs),
             (asc ''weights'', PDict
                [(asc ''truth'', PFloat (float_literal (35 / 100))),
                 (asc ''freshness'', PFloat (float_literal (45 / 100))),
                 (asc ''consistency'', PFloat (float_literal (20 / 100)))])])]"
    using assms ts fs cs nt a nf b nc c' by (simp add: aggregate_def Let_def)
  show ?thesis
    apply (rule exI [of _ ts], rule exI [of _ fs], rule exI [of _ cs])
    apply (rule exI [of _ nt], rule exI [of _ nf], rule exI [of _ nc])
    apply (rule exI [of _ t], rule exI [of _ f], rule exI [of _ c])
    using ts fs cs py_num_InrD [OF nt] py_num_InrD [OF nf] py_num_InrD [OF nc] t f c
    unfolding r by (simp only: simp_thms)
qed

text \<open>The report exists as soon as the three verdicts are dictionaries whose scores
  are numbers that convert to \<open>float\<close>.\<close>

lemma aggregate_InrI:
  assumes "dict_get tc (asc ''confidence'') (PInt 0) = Inr ts" "num_of ts = Some nt"
      "to_float nt = Inr t"
    and "dict_get fc (asc ''score'') (PInt 0) = Inr fs" "num_of fs = Some nf"
      "to_float nf = Inr f"
    and "dict_get cc (asc ''confidence'') (PInt 0) = Inr cs" "num_of cs = Some nc"
      "to_float nc = Inr c"
  shows "\<exists>report. aggregate tc fc cc = Inr report"
  using assms
  by (simp add: aggregate_def py_num_def num_mul_float_def Let_def
      del: float_literal_035 float_literal_045 float_literal_020)

lemma comprehensive_check_InrD:
  assumes "comprehensive_check w self topic content timestamp = Inr report"
  shows "\<exists>ts fs cs nt nf nc t f c.
      dict_get (verify_claim w self content) (asc ''confidence'') (PInt 0) = Inr ts
    \<and> num_of ts = Some nt \<and> to_float nt = Inr t
    \<and> dict_get (check_freshness w self content topic timestamp) (asc ''score'') (PInt 0) = Inr fs
    \<and> num_of fs = Some nf \<and> to_float nf = Inr f
    \<and> dict_get (cross_reference w self topic content) (asc ''confidence'') (PInt 0) = Inr cs
    \<and> num_of cs = Some nc \<and> to_float nc = Inr c
    \<and> dict_get report (asc ''overall_score'') PNone = Inr (PFloat
            (float_add (float_add (float_mul t (float_literal (35 / 100)))
                                  (float_mul f (float_literal (45 / 100))))
                       (float_mul c (float_literal (20 / 100)))))
    \<and> dict_get report (asc ''is_pass'') PNone = Inr (PBool (float_ge
            (float_add (float_add (float_mul t (float_literal (35 / 100)))
                                  (float_mul f (float_literal (45 / 100))))
                       (float_mul c (float_literal (20 / 100)))) 70))
    \<and> dict_get report (asc ''improvement_suggestions'') PNone
        = Inr (PList (map PStr (improvement_suggestions nt nf nc)))
    \<and> dict_get report (asc ''score_breakdown'') PNone
        = Inr (PDict
            [(asc ''truth_score'', ts),
             (asc ''freshness_score'', fs),
             (asc ''consistency_score'', cs),
             (asc ''weights'', PDict
                [(asc ''truth'', PFloat (float_literal (35 / 100))),
                 (asc ''freshness'', PFloat (float_literal (45 / 100))),
                 (asc ''consistency'', PFloat (float_literal (20 / 100)))])])"
proof -
  from assms have "aggregate (verify_claim w self content)
      (check_freshness w self content topic timestamp) (cross_reference w self topic content)
      = Inr report"
    by (simp add: comprehensive_check_def Let_def)
  from aggregate_InrD [OF this] obtain ts fs cs nt nf nc t f c where
    h: "dict_get (verify_claim w self content) (asc ''confidence'') (PInt 0) = Inr ts"
       "num_of ts = Some nt" "to_float nt = Inr t"
       "dict_get (check_freshness w self content topic timestamp) (asc ''score'') (PInt 0) = Inr fs"
       "num_of fs = Some nf" "to_float nf = Inr f"
       "dict_get (cross_reference w self topic content) (asc ''confidence'') (PInt 0) = Inr cs"
       "num_of cs = Some nc" "to_float nc = Inr c"
    and r: "report = PDict
        [(asc ''overall_score'', PFloat
            (float_add (float_add (float_mul t (float_literal (35 / 100)))
                                  (float_mul f (float_literal (45 / 100))))
                       (float_mul c (float_literal (20 / 100))))),
         (asc ''is_pass'', PBool (float_ge
            (float_add (float_add (float_mul t (float_literal (35 / 100)))
                                  (float_mul f (float_literal (45 / 100))))
                       (float_mul c (float_literal (20 / 100)))) 70)),
         (asc ''quality_level'', PStr (snd (quality_of
            (float_add (float_add (float_mul t (float_literal (35 / 100)))
                                  (float_mul f (float_literal (45 / 100))))
                       (float_mul c (float_literal (20 / 100))))))),
         (asc ''truth_check'', verify_claim w self content),
         (asc ''freshness_check'', check_freshness w self content topic timestamp),
         (asc ''consistency_check'', cross_reference w self topic content),
         (asc ''recommendation'', PStr (fst (quality_of
            (float_add (float_add (float_mul t (float_literal (35 / 100)))
                                  (float_mul f (float_literal (45 / 100))))
                       (float_mul c (float_literal (20 / 100))))))),
         (asc ''improvement_suggestions'', PList (map PStr (improvement_suggestions nt nf nc))),
         (asc ''score_breakdown'', (PDict
            [(asc ''truth_score'', ts),
             (asc ''freshness_score'', fs),
             (asc ''consistency_score'', cs),
             (asc ''weights'', PDict
                [(asc ''truth'', PFloat (float_literal (35 / 100))),
                 (asc ''freshness'', PFloat (float_literal (45 / 100))),
                 (asc ''consistency'', PFloat (float_literal (20 / 100)))])]))]"
    by blast
  show ?thesis
    apply (rule exI [of _ ts], rule exI [of _ fs], rule exI [of _ cs])
    apply (rule exI [of _ nt], rule exI [of _ nf], rule exI [of _ nc])
    apply (rule exI [of _ t], rule exI [of _ f], rule exI [of _ c])
    using h unfolding r by (simp del: float_literal_035 float_literal_045 float_literal_020)
qed

lemma suggestion_texts_distinct:
  "distinct [suggest_truth, suggest_freshness, suggest_consistency, warn_truth, warn_freshness]"
  by (simp add: suggest_truth_def suggest_freshness_def suggest_consistency_def warn_truth_def
      warn_freshness_def)

lemma improvement_suggestions_split:
  "\<exists>ms ws. improvement_suggestions t f c = ms @ ws
     \<and> set ms \<subseteq> {suggest_truth, suggest_freshness, suggest_consistency}
     \<and> set ws \<subseteq> {warn_truth, warn_freshness}"
proof -
  let ?ms = "(if num_lt t 70 then [suggest_truth] else [])
     @ (if num_lt f 70 then [suggest_freshness] else [])
     @ (if num_lt c 70 then [suggest_consistency] else [])"
  let ?ws = "(if num_lt t 50 then [warn_truth] else [])
     @ (if num_lt f 50 then [warn_freshness] else [])"
  have "improvement_suggestions t f c = ?ms @ ?ws"
    by (simp add: improvement_suggestions_def)
  moreover have "set ?ms \<subseteq> {suggest_truth, suggest_freshness, suggest_consistency}" by auto
  moreover have "set ?ws \<subseteq> {warn_truth, warn_freshness}" by auto
  ultimately show ?thesis by blast
qed

lemma improvement_suggestions_members:
  "(suggest_truth \<in> set (improvement_suggestions t f c)) = num_lt t 70"
  "(suggest_freshness \<in> set (improvement_suggestions t f c)) = num_lt f 70"
  "(suggest_consistency \<in> set (improvement_suggestions t f c)) = num_lt c 70"
  "(warn_truth \<in> set (improvement_suggestions t f c)) = num_lt t 50"
  "(warn_freshness \<in> set (improvement_suggestions t f c)) = num_lt f 50"
  using suggestion_texts_distinct
  by (auto simp add: improvement_suggestions_def)

lemma improvement_suggestions_distinct: "distinct (improvement_suggestions t f c)"
  using suggestion_texts_distinct
  by (auto simp add: improvement_suggestions_def)

subsection \<open>The results of improve_content\<close>

lemma failure_results_keep_content:
  "dict_get (not_configured_result content) (asc ''success'') PNone = Inr (PBool False)"
  "dict_get (not_configured_result content) (asc ''improved_content'') PNone = Inr (PStr content)"
  "dict_get (parse_failure_result w content e) (asc ''success'') PNone = Inr (PBool False)"
  "dict_get (parse_failure_result w content e) (asc ''improved_content'') PNone = Inr (PStr content)"
  "dict_get (improve_failure_result w content e) (asc ''success'') PNone = Inr (PBool False)"
  "dict_get (improve_failure_result w content e) (asc ''improved_content'') PNone = Inr (PStr content)"
  by (simp_all add: not_configured_result_def parse_failure_result_def improve_failure_result_def)

lemma improvement_of_decoded_cases:
  "(\<exists>e. improvement_of_decoded w content decoded = Inl e)
   \<or> (\<exists>e. improvement_of_decoded w content decoded = Inr (parse_failure_result w content e))
   \<or> (\<exists>a b c. improvement_of_decoded w content decoded =
         Inr (PDict [(asc ''success'', PBool True), (asc ''improved_content'', a),
                     (asc ''improvements'', b), (asc ''reasoning'', c)]))"
  by (auto simp add: improvement_of_decoded_def split: sum.splits exn.splits)

lemma improve_content_cases:
  "improve_content w self topic content check_result = not_configured_result content
   \<or> (\<exists>e. improve_content w self topic content check_result = parse_failure_result w content e)
   \<or> (\<exists>e. improve_content w self topic content check_result = improve_failure_result w content e)
   \<or> (\<exists>a b c. improve_content w self topic content check_result =
         PDict [(asc ''success'', PBool True), (asc ''improved_content'', a),
                (asc ''improvements'', b), (asc ''reasoning'', c)])"
proof (cases "truthy (improver_api_key self)")
  case False
  then show ?thesis by (simp add: improve_content_def)
next
  case True
  show ?thesis
  proof (cases "improvement_request w topic content check_result")
    case (Inl e)
    with True show ?thesis by (auto simp add: improve_content_def improve_content_body_def)
  next
    case (Inr request)
    show ?thesis
    proof (cases "make_glm_request w self request")
      case (Inl e)
      with True Inr show ?thesis by (auto simp add: improve_content_def improve_content_body_def)
    next
      case r: (Inr result_text)
      from improvement_of_decoded_cases
        [of w content "json_loads w (clean_json_response w result_text)"]
      show ?thesis
        using True Inr r by (auto simp add: improve_content_def improve_content_body_def)
    qed
  qed
qed

lemma improve_content_success_bool:
  "\<exists>b. dict_get (improve_content w self topic content check_result) (asc ''success'') PNone
          = Inr (PBool b)"
  using improve_content_cases [of w self topic content check_result]
  by (auto simp add: failure_results_keep_content)

lemma improve_content_failed_keeps:
  assumes "dict_get (improve_content w self topic content check_result) (asc ''success'') PNone
          = Inr (PBool False)"
  shows "dict_get (improve_content w self topic content check_result) (asc ''improved_content'') PNone
          = Inr (PStr content)"
  using improve_content_cases [of w self topic content check_result] assms
  by (auto simp add: failure_results_keep_content)

subsection \<open>The freshness blend of a checker whose searcher has the attribute\<close>
subsection \<open>A checker whose searcher has the attribute\<close>

lemma getattr_with_searcher_key [simp]:
  "getattr (searcher_instance (web_searcher (with_searcher_key k (FactChecker_init cfg key url d))))
     (asc ''api_key'') = Inr k"
  by (simp add: with_searcher_key_def WebSearcher_init_def Let_def)

lemma client_with_searcher_key [simp]:
  "client (with_searcher_key k self) = client self"
  by (simp add: with_searcher_key_def)

lemma analyze_content_freshness_score:
  "dict_subscript (analyze_content_freshness lower content topic) (asc ''score'')
     = Inr (PInt (if 3 \<le> fresh_count lower content then 95
                  else if 1 \<le> fresh_count lower content then 85 else 50))"
  by (simp add: analyze_content_freshness_def Let_def)

lemma analyze_content_freshness_reasoning:
  "\<exists>s. dict_subscript (analyze_content_freshness lower content topic) (asc ''reasoning'')
     = Inr (PStr s)"
  by (simp add: analyze_content_freshness_def Let_def)

text \<open>The step function of lines 253 to 273, on a finite age.\<close>

lemma time_score_of_age_steps:
  "(h < 1 \<longrightarrow> snd (time_score_of_age (Finite h)) = 100)
   \<and> (1 \<le> h \<and> h < 24 \<longrightarrow> snd (time_score_of_age (Finite h)) = 95)
   \<and> (24 \<le> h \<and> h < 48 \<longrightarrow> snd (time_score_of_age (Finite h)) = 85)
   \<and> (48 \<le> h \<and> h < 72 \<longrightarrow> snd (time_score_of_age (Finite h)) = 70)
   \<and> (72 \<le> h \<and> h < 168 \<longrightarrow> snd (time_score_of_age (Finite h)) = 50)
   \<and> (168 \<le> h \<and> h < 720 \<longrightarrow> snd (time_score_of_age (Finite h)) = 30)
   \<and> (720 \<le> h \<longrightarrow> snd (time_score_of_age (Finite h)) = 10)"
  by (simp add: time_score_of_age_def)

lemma time_score_of_age_range:
  "snd (time_score_of_age age) \<in> {100, 95, 85, 70, 50, 30, 10}"
  by (simp add: time_score_of_age_def)

lemma time_check_range:
  assumes "time_check w timestamp = Inr (label, time_score, reasoning)"
  shows "time_score \<in> {100, 95, 85, 70, 50, 30, 10}"
  using assms time_score_of_age_range
  by (auto simp add: time_check_def split: option.splits sum.splits)

lemma to_float_time_score:
  assumes "time_score \<in> {100, 95, 85, 70, 50, 30, 10}"
  shows "to_float (NInt time_score) = Inr (Finite (of_int time_score))"
  using assms by auto

text \<open>
  When the attribute exists and no round of grounded search is usable, the verdict of
  \<open>check_freshness\<close> carries the time score of lines 250 to 279 and the blend of lines 339
  to 364.
\<close>

lemma check_freshness_with_attribute:
  assumes k: "getattr (searcher_instance (web_searcher self)) (asc ''api_key'') = Inr searcher_key"
    and n: "\<not> truthy searcher_key \<or> freshness_rounds (web_searcher self) topic content = Inr []"
    and t: "time_check w timestamp = Inr (label, time_score, reasoning)"
  shows "dict_get (check_freshness w self content topic timestamp) (asc ''time_score'') dflt
           = Inr (PInt time_score)
    \<and> dict_get (check_freshness w self content topic timestamp) (asc ''score'') dflt'
           = Inr (PFloat (float_add
               (float_mul (Finite (of_int time_score)) (float_literal (4 / 10)))
               (float_mul (Finite (of_int
                    (if 3 \<le> fresh_count (str_lower w) content then 95
                     else if 1 \<le> fresh_count (str_lower w) content then 85 else 50)))
                  (float_literal (6 / 10)))))"
proof -
  let ?content_score = "if 3 \<le> fresh_count (str_lower w) content then 95
     else if 1 \<le> fresh_count (str_lower w) content then 85 else (50 :: int)"
  have cf: "to_float (NInt ?content_score) = Inr (Finite (of_int ?content_score))"
    by simp
  obtain s where s: "dict_subscript (analyze_content_freshness (str_lower w) content topic)
      (asc ''reasoning'') = Inr (PStr s)"
    using analyze_content_freshness_reasoning by blast
  have tf: "to_float (NInt time_score) = Inr (Finite (of_int time_score))"
    using time_check_range [OF t] by (rule to_float_time_score)
  have b: "check_freshness_body w self content topic timestamp
      = no_search_verdict w label time_score reasoning
          (analyze_content_freshness (str_lower w) content topic)"
    using k n t by (auto simp add: check_freshness_body_def freshness_consensus_def Let_def)
  show ?thesis
    unfolding check_freshness_def b
    using s tf cf
    by (simp add: no_search_verdict_def analyze_content_freshness_score py_mul_def py_num_def
        num_mul_float_def Let_def del: to_float.simps float_literal_04 float_literal_06)
qed

subsection \<open>A reply that is JSON of another shape\<close>

text \<open>
  The parsers are annotated \<open>-> Dict\<close>, and return whatever \<open>json.loads\<close> returns. When
  the reply of the chat model is JSON that is no object, such as \<open>42\<close>, the verdict is
  that value, and \<open>comprehensive_check\<close> raises \<open>AttributeError\<close> where it reads the score
  with \<open>.get\<close>.
\<close>

lemma parsers_return_decoded_json:
  "parse_verification_result (Inr v) text = v"
  "parse_cross_ref_result (Inr v) text = v"
  by (simp_all add: parse_verification_result_def parse_cross_ref_result_def)

lemma aggregate_of_number_raises:
  "aggregate (parse_verification_result (Inr (PInt 42)) (asc ''42'')) fc cc
     = Inl (AttributeError ([0x27] @ asc ''int'' @ [0x27] @ asc '' object has no attribute ''
         @ [0x27] @ asc ''get'' @ [0x27]))"
  by (simp add: aggregate_def parse_verification_result_def no_attribute_def)

subsection \<open>Rounding in the report\<close>

text \<open>
  With truth 90, freshness 82 and consistency 8 the exact weighted sum is 70, and the
  report carries the overall score 69.99999999999999 and is not passed. A score that is an
  \<open>int\<close> too large for a float makes \<open>comprehensive_check\<close> raise \<open>OverflowError\<close>.
\<close>

lemma aggregate_90_82_8:
  "aggregate (PDict [(asc ''confidence'', PInt 90)]) (PDict [(asc ''score'', PInt 82)])
      (PDict [(asc ''confidence'', PInt 8)]) =
   Inr (PDict
        [(asc ''overall_score'', PFloat (Finite (4925812092436479 / 70368744177664))),
         (asc ''is_pass'', PBool False),
         (asc ''quality_level'', PStr [0x4E00, 0x822C]),
         (asc ''truth_check'', PDict [(asc ''confidence'', PInt 90)]),
         (asc ''freshness_check'', PDict [(asc ''score'', PInt 82)]),
         (asc ''consistency_check'', PDict [(asc ''confidence'', PInt 8)]),
         (asc ''recommendation'', PStr (fst (quality_of (Finite (4925812092436479 / 70368744177664))))),
         (asc ''improvement_suggestions'', PList [PStr suggest_consistency]),
         (asc ''score_breakdown'', PDict
            [(asc ''truth_score'', PInt 90),
             (asc ''freshness_score'', PInt 82),
             (asc ''consistency_score'', PInt 8),
             (asc ''weights'', PDict
                [(asc ''truth'', PFloat (float_literal (35 / 100))),
                 (asc ''freshness'', PFloat (float_literal (45 / 100))),
                 (asc ''consistency'', PFloat (float_literal (20 / 100)))])])])"
  by (simp add: aggregate_def py_num_def num_mul_float_def improvement_suggestions_def
      quality_of_def Let_def)

lemma aggregate_too_large:
  "aggregate (PDict [(asc ''confidence'', PInt (2 ^ 1024))]) fc (PDict [])
     = (case dict_get fc (asc ''score'') (PInt 0) of
          Inl e \<Rightarrow> Inl e
        | Inr fs \<Rightarrow> Inl (OverflowError (asc ''int too large to convert to float'')))"
  using to_float_too_large
  by (simp add: aggregate_def py_num_def num_mul_float_def split: sum.splits)

section \<open>Claims\<close>

text \<open>
  Claim C1. When \<open>comprehensive_check\<close> returns a report, its overall score is
  \<open>truth_score * 0.35 + freshness_score * 0.45 + consistency_score * 0.20\<close> as floating-point
  arithmetic evaluates it (each product and each sum rounded to the nearest binary64
  number), the three scores being the \<open>confidence\<close>, \<open>score\<close> and \<open>confidence\<close> fields of the
  three verdicts, converted to \<open>float\<close>; the weights of the report are the three literals,
  which add up to 1 as decimal fractions and to 1.0 as floats; and \<open>is_pass\<close> holds exactly
  when the overall score is at least 70.
\<close>

theorem overall_score_is_weighted_sum:
  assumes "comprehensive_check w self topic content timestamp = Inr report"
  shows "\<exists>ts fs cs nt nf nc t f c.
      dict_get (verify_claim w self content) (asc ''confidence'') (PInt 0) = Inr ts
    \<and> num_of ts = Some nt \<and> to_float nt = Inr t
    \<and> dict_get (check_freshness w self content topic timestamp) (asc ''score'') (PInt 0) = Inr fs
    \<and> num_of fs = Some nf \<and> to_float nf = Inr f
    \<and> dict_get (cross_reference w self topic content) (asc ''confidence'') (PInt 0) = Inr cs
    \<and> num_of cs = Some nc \<and> to_float nc = Inr c
    \<and> dict_get report (asc ''overall_score'') PNone = Inr (PFloat
         (float_add (float_add (float_mul t (float_literal (35 / 100)))
                               (float_mul f (float_literal (45 / 100))))
                    (float_mul c (float_literal (20 / 100)))))
    \<and> dict_get report (asc ''is_pass'') PNone = Inr (PBool (float_ge
         (float_add (float_add (float_mul t (float_literal (35 / 100)))
                               (float_mul f (float_literal (45 / 100))))
                    (float_mul c (float_literal (20 / 100)))) 70))
    \<and> dict_get report (asc ''score_breakdown'') PNone
        = Inr (PDict
            [(asc ''truth_score'', ts),
             (asc ''freshness_score'', fs),
             (asc ''consistency_score'', cs),
             (asc ''weights'', PDict
                [(asc ''truth'', PFloat (float_literal (35 / 100))),
                 (asc ''freshness'', PFloat (float_literal (45 / 100))),
                 (asc ''consistency'', PFloat (float_literal (20 / 100)))])])
    \<and> float_add (float_add (float_literal (35 / 100)) (float_literal (45 / 100)))
         (float_literal (20 / 100)) = Finite 1
    \<and> (35 / 100 + 45 / 100 + 20 / 100 = (1 :: rat))"
proof -
  from comprehensive_check_InrD [OF assms] obtain ts fs cs nt nf nc t f c where
    h: "dict_get (verify_claim w self content) (asc ''confidence'') (PInt 0) = Inr ts"
       "num_of ts = Some nt" "to_float nt = Inr t"
       "dict_get (check_freshness w self content topic timestamp) (asc ''score'') (PInt 0) = Inr fs"
       "num_of fs = Some nf" "to_float nf = Inr f"
       "dict_get (cross_reference w self topic content) (asc ''confidence'') (PInt 0) = Inr cs"
       "num_of cs = Some nc" "to_float nc = Inr c"
       "dict_get report (asc ''overall_score'') PNone = Inr (PFloat
         (float_add (float_add (float_mul t (float_literal (35 / 100)))
                               (float_mul f (float_literal (45 / 100))))
                    (float_mul c (float_literal (20 / 100)))))"
       "dict_get report (asc ''is_pass'') PNone = Inr (PBool (float_ge
         (float_add (float_add (float_mul t (float_literal (35 / 100)))
                               (float_mul f (float_literal (45 / 100))))
                    (float_mul c (float_literal (20 / 100)))) 70))"
       "dict_get report (asc ''score_breakdown'') PNone
          = Inr (PDict
            [(asc ''truth_score'', ts),
             (asc ''freshness_score'', fs),
             (asc ''consistency_score'', cs),
             (asc ''weights'', PDict
                [(asc ''truth'', PFloat (float_literal (35 / 100))),
                 (asc ''freshness'', PFloat (float_literal (45 / 100))),
                 (asc ''consistency'', PFloat (float_literal (20 / 100)))])])"
    by blast
  have s: "float_add (float_add (float_literal (35 / 100)) (float_literal (45 / 100)))
         (float_literal (20 / 100)) = Finite 1"
    by simp
  have e: "35 / 100 + 45 / 100 + 20 / 100 = (1 :: rat)"
    by simp
  show ?thesis
    apply (rule exI [of _ ts], rule exI [of _ fs], rule exI [of _ cs])
    apply (rule exI [of _ nt], rule exI [of _ nf], rule exI [of _ nc])
    apply (rule exI [of _ t], rule exI [of _ f], rule exI [of _ c])
    using h s e by (simp only: simp_thms)
qed

theorem overall_score_is_weighted_sum_witness:
  "\<forall>w. \<exists>report.
     comprehensive_check
       (w\<lparr>str_lower := ascii_lower,
          chat_create := (\<lambda>request. case request of
               VerificationPrompt claim \<Rightarrow>
                 Inr (PStr ([0x7B, 0x22] @ asc ''confidence'' @ [0x22] @ asc '': 85'' @ [0x7D]))
             | _ \<Rightarrow> Inr (PStr ([0x7B, 0x22] @ asc ''confidence'' @ [0x22] @ asc '': 28'' @ [0x7D]))),
          json_loads := (\<lambda>text.
             if text = [0x7B, 0x22] @ asc ''confidence'' @ [0x22] @ asc '': 85'' @ [0x7D]
             then Inr (PDict [(asc ''confidence'', PInt 85)])
             else Inr (PDict [(asc ''confidence'', PInt 28)]))\<rparr>)
       (with_searcher_key PNone
          (FactChecker_init
             \<lparr>TAVILY_API_KEY = None, DEEPSEEK_API_KEY = Some (asc ''sk''),
              DEEPSEEK_BASE_URL = asc ''https://api.deepseek.com'', GLM_API_KEY = None\<rparr>
             PNone PNone PNone))
       (asc ''DeepSeek R1'') (asc ''beta release 2026'') None = Inr report
   \<and> dict_get report (asc ''score_breakdown'') PNone
        = Inr (PDict
            [(asc ''truth_score'', PInt 85),
             (asc ''freshness_score'', PFloat (Finite 77)),
             (asc ''consistency_score'', PInt 28),
             (asc ''weights'', PDict
                [(asc ''truth'', PFloat (float_literal (35 / 100))),
                 (asc ''freshness'', PFloat (float_literal (45 / 100))),
                 (asc ''consistency'', PFloat (float_literal (20 / 100)))])])
   \<and> dict_get report (asc ''overall_score'') PNone
        = Inr (PFloat (Finite (4925812092436479 / 70368744177664)))
   \<and> dict_get report (asc ''is_pass'') PNone = Inr (PBool False)
   \<and> (4925812092436479 / 70368744177664 < (70 :: rat))
   \<and> (85 * (35 / 100) + 77 * (45 / 100) + 28 * (20 / 100) = (70 :: rat))"
proof
  fix w :: world
  let ?r85 = "[0x7B, 0x22] @ asc ''confidence'' @ [0x22] @ asc '': 85'' @ [0x7D]"
  let ?r28 = "[0x7B, 0x22] @ asc ''confidence'' @ [0x22] @ asc '': 28'' @ [0x7D]"
  let ?w = "w\<lparr>str_lower := ascii_lower,
          chat_create := (\<lambda>request. case request of
               VerificationPrompt claim \<Rightarrow> Inr (PStr ?r85)
             | _ \<Rightarrow> Inr (PStr ?r28)),
          json_loads := (\<lambda>text.
             if text = ?r85 then Inr (PDict [(asc ''confidence'', PInt 85)])
             else Inr (PDict [(asc ''confidence'', PInt 28)]))\<rparr>"
  let ?cfg = "\<lparr>TAVILY_API_KEY = None, DEEPSEEK_API_KEY = Some (asc ''sk''),
              DEEPSEEK_BASE_URL = asc ''https://api.deepseek.com'', GLM_API_KEY = None\<rparr>"
  let ?self = "with_searcher_key PNone (FactChecker_init ?cfg PNone PNone PNone)"
  let ?topic = "asc ''DeepSeek R1''"
  let ?content = "asc ''beta release 2026''"
  have cl: "truthy (client ?self)"
    by (simp add: FactChecker_init_def py_or_def opt_str_def Let_def)
  have s85: "str_strip ?r85 = ?r85"
    by (simp add: str_strip_def isspace_def asc_def)
  have s28: "str_strip ?r28 = ?r28"
    by (simp add: str_strip_def isspace_def asc_def)
  have ne: "?r28 \<noteq> ?r85"
    by (simp add: asc_def)
  have vc: "verify_claim ?w ?self ?content = PDict [(asc ''confidence'', PInt 85)]"
    using cl s85
    by (simp add: verify_claim_def verify_claim_body_def ask_verification_def
        parse_verification_result_def del: client_with_searcher_key)
  have cc: "cross_reference ?w ?self ?topic ?content = PDict [(asc ''confidence'', PInt 28)]"
    using cl s28 ne
    by (simp add: cross_reference_def cross_reference_body_def ask_cross_ref_def
        parse_cross_ref_result_def del: client_with_searcher_key)
  have n: "fresh_count ascii_lower ?content = 3"
    by (simp add: fresh_count_def fresh_keywords_def ascii_lower_def asc_def sublist_code)
  have tc: "time_check ?w None = Inr ([0x672A, 0x77E5], 50,
               [0x65E0, 0x65F6, 0x95F4, 0x6233, 0x4FE1, 0x606F, 0xFF0C, 0x65E0, 0x6CD5, 0x5224,
                0x65AD, 0x65F6, 0x6548, 0x6027])"
    by (simp add: time_check_def)
  have k: "getattr (searcher_instance (web_searcher ?self)) (asc ''api_key'') = Inr PNone"
    by simp
  have nt: "\<not> truthy PNone \<or> freshness_rounds (web_searcher ?self) ?topic ?content = Inr []"
    by simp
  from check_freshness_with_attribute [OF k nt tc, of "PInt 0" "PInt 0"]
  have fc: "dict_get (check_freshness ?w ?self ?content ?topic None) (asc ''score'') (PInt 0)
      = Inr (PFloat (Finite 77))"
    using n by simp
  have dv: "dict_get (verify_claim ?w ?self ?content) (asc ''confidence'') (PInt 0)
      = Inr (PInt 85)"
    unfolding vc by simp
  have dc: "dict_get (cross_reference ?w ?self ?topic ?content) (asc ''confidence'') (PInt 0)
      = Inr (PInt 28)"
    unfolding cc by simp
  have n1: "num_of (PInt 85) = Some (NInt 85)" "to_float (NInt 85) = Inr (Finite 85)"
    by simp_all
  have n2: "num_of (PFloat (Finite 77)) = Some (NFloat (Finite 77))"
    "to_float (NFloat (Finite 77)) = Inr (Finite 77)"
    by simp_all
  have n3: "num_of (PInt 28) = Some (NInt 28)" "to_float (NInt 28) = Inr (Finite 28)"
    by simp_all
  have "\<exists>report. aggregate (verify_claim ?w ?self ?content)
      (check_freshness ?w ?self ?content ?topic None) (cross_reference ?w ?self ?topic ?content)
      = Inr report"
    by (rule aggregate_InrI [OF dv n1 fc n2 dc n3])
  then obtain report where
    r: "comprehensive_check ?w ?self ?topic ?content None = Inr report"
    unfolding comprehensive_check_def Let_def by blast
  from overall_score_is_weighted_sum [OF r] obtain ts fs cs nt nf nc t f c where
    h: "dict_get (verify_claim ?w ?self ?content) (asc ''confidence'') (PInt 0) = Inr ts"
       "num_of ts = Some nt" "to_float nt = Inr t"
       "dict_get (check_freshness ?w ?self ?content ?topic None) (asc ''score'') (PInt 0) = Inr fs"
       "num_of fs = Some nf" "to_float nf = Inr f"
       "dict_get (cross_reference ?w ?self ?topic ?content) (asc ''confidence'') (PInt 0) = Inr cs"
       "num_of cs = Some nc" "to_float nc = Inr c"
       "dict_get report (asc ''overall_score'') PNone = Inr (PFloat
         (float_add (float_add (float_mul t (float_literal (35 / 100)))
                               (float_mul f (float_literal (45 / 100))))
                    (float_mul c (float_literal (20 / 100)))))"
       "dict_get report (asc ''is_pass'') PNone = Inr (PBool (float_ge
         (float_add (float_add (float_mul t (float_literal (35 / 100)))
                               (float_mul f (float_literal (45 / 100))))
                    (float_mul c (float_literal (20 / 100)))) 70))"
       "dict_get report (asc ''score_breakdown'') PNone
          = Inr (PDict
            [(asc ''truth_score'', ts),
             (asc ''freshness_score'', fs),
             (asc ''consistency_score'', cs),
             (asc ''weights'', PDict
                [(asc ''truth'', PFloat (float_literal (35 / 100))),
                 (asc ''freshness'', PFloat (float_literal (45 / 100))),
                 (asc ''consistency'', PFloat (float_literal (20 / 100)))])])"
    by blast
  have ts: "ts = PInt 85" using h(1) unfolding dv by simp
  have cs: "cs = PInt 28" using h(7) unfolding dc by simp
  have fs: "fs = PFloat (Finite 77)" using h(4) unfolding fc by simp
  have t: "t = Finite 85" using h(2,3) by (auto simp add: ts)
  have c: "c = Finite 28" using h(8,9) by (auto simp add: cs)
  have f: "f = Finite 77" using h(5,6) by (auto simp add: fs)
  have o: "float_add (float_add (float_mul t (float_literal (35 / 100)))
                               (float_mul f (float_literal (45 / 100))))
                    (float_mul c (float_literal (20 / 100)))
      = Finite (4925812092436479 / 70368744177664)"
    by (simp add: t f c)
  show "\<exists>report.
     comprehensive_check ?w ?self ?topic ?content None = Inr report
   \<and> dict_get report (asc ''score_breakdown'') PNone
        = Inr (PDict
            [(asc ''truth_score'', PInt 85),
             (asc ''freshness_score'', PFloat (Finite 77)),
             (asc ''consistency_score'', PInt 28),
             (asc ''weights'', PDict
                [(asc ''truth'', PFloat (float_literal (35 / 100))),
                 (asc ''freshness'', PFloat (float_literal (45 / 100))),
                 (asc ''consistency'', PFloat (float_literal (20 / 100)))])])
   \<and> dict_get report (asc ''overall_score'') PNone
        = Inr (PFloat (Finite (4925812092436479 / 70368744177664)))
   \<and> dict_get report (asc ''is_pass'') PNone = Inr (PBool False)
   \<and> (4925812092436479 / 70368744177664 < (70 :: rat))
   \<and> (85 * (35 / 100) + 77 * (45 / 100) + 28 * (20 / 100) = (70 :: rat))"
    apply (rule exI [of _ report])
    using r h(10,11,12) unfolding o ts fs cs by simp
qed

text \<open>
  Claim C2. Whatever the topic, the content, the timestamp and the configured keys are,
  a checker built by its constructor returns a report with overall score 0, not passed,
  quality level "very poor" and all five suggestions: reading \<open>api_key\<close> on the searcher
  raises \<open>AttributeError\<close>, so the bodies of \<open>verify_claim\<close> and \<open>cross_reference\<close> raise
  it and the body of \<open>check_freshness\<close> raises as well.
\<close>

theorem comprehensive_check_built_checker_scores_zero:
  "\<exists>report e.
     comprehensive_check w (FactChecker_init cfg key url doubao_api_key) topic content timestamp
       = Inr report
   \<and> dict_get report (asc ''overall_score'') PNone = Inr (PFloat (Finite 0))
   \<and> dict_get report (asc ''is_pass'') PNone = Inr (PBool False)
   \<and> dict_get report (asc ''quality_level'') PNone = Inr (PStr [0x5F88, 0x5DEE])
   \<and> dict_get report (asc ''improvement_suggestions'') PNone =
       Inr (PList (map PStr
         [suggest_truth, suggest_freshness, suggest_consistency, warn_truth, warn_freshness]))
   \<and> getattr (searcher_instance (web_searcher (FactChecker_init cfg key url doubao_api_key)))
         (asc ''api_key'')
       = Inl no_api_key_error
   \<and> verify_claim_body w (FactChecker_init cfg key url doubao_api_key) content
       = Inl no_api_key_error
   \<and> check_freshness_body w (FactChecker_init cfg key url doubao_api_key) content topic timestamp
       = Inl e
   \<and> cross_reference_body w (FactChecker_init cfg key url doubao_api_key) topic content
       = Inl no_api_key_error"
proof -
  obtain e where e:
    "check_freshness_body w (FactChecker_init cfg key url doubao_api_key) content topic timestamp
       = Inl e"
    using check_freshness_body_built by blast
  have "comprehensive_check w (FactChecker_init cfg key url doubao_api_key) topic content timestamp
      = aggregate (verify_failure w no_api_key_error) (freshness_failure w e)
          (cross_reference_failure w no_api_key_error)"
    by (simp add: comprehensive_check_def verify_claim_built cross_reference_built
        check_freshness_def e Let_def)
  then show ?thesis
    using e
    by (simp add: aggregate_failures getattr_WebSearcher_api_key verify_claim_body_built
        cross_reference_body_built)
qed

text \<open>
  Claim C3 (the code at the failing input). With no timestamp, and so with no search
  score anywhere, \<open>check_freshness\<close> of a checker built by its constructor returns the
  failure dictionary of its \<open>except\<close> branch, with score 0 and freshness unknown, for every
  content and topic: the blend of time score and content score is never computed.
\<close>

theorem check_freshness_built_checker_error_verdict:
  "check_freshness w (FactChecker_init cfg key url doubao_api_key) content topic None
     = freshness_failure w no_api_key_error
   \<and> dict_get (freshness_failure w no_api_key_error) (asc ''score'') PNone = Inr (PInt 0)
   \<and> dict_get (freshness_failure w no_api_key_error) (asc ''is_fresh'') (PBool True) = Inr PNone
   \<and> dict_get (freshness_failure w no_api_key_error) (asc ''method'') PNone
       = Inr (PStr (asc ''hybrid''))"
  by (simp add: check_freshness_def check_freshness_body_built_naive freshness_failure_def)

text \<open>
  Claim C4 (the code at the failing input). The body of \<open>check_freshness\<close> computes the
  time score, 50 without a timestamp and the step of the elapsed hours with one, but the
  verdict that a checker built by its constructor returns carries the time score 0, for
  every content, topic and timestamp, present or absent: the read of \<open>api_key\<close> raises
  after the time score is computed, and the \<open>except\<close> branch returns \<open>time_score\<close> 0.
  In a checker whose searcher has the attribute (and finds no usable round of grounded
  search) the verdict carries the time score that the body computed.
\<close>

theorem check_freshness_built_checker_time_score_zero:
  "dict_get (check_freshness w (FactChecker_init cfg key url doubao_api_key) content topic
       timestamp) (asc ''time_score'') PNone = Inr (PInt 0)
   \<and> dict_get (check_freshness w (FactChecker_init cfg key url doubao_api_key) content topic
       None) (asc ''time_score'') PNone = Inr (PInt 0)
   \<and> (\<exists>label reasoning. time_check w None = Inr (label, 50, reasoning))
   \<and> (\<exists>label reasoning. time_check w (Some (Naive t)) =
         Inr (label,
              snd (time_score_of_age (float_div (round_double (of_int (now w - t) / 1000000)) 3600)),
              reasoning))
   \<and> (getattr (searcher_instance (web_searcher self)) (asc ''api_key'') = Inr searcher_key
       \<and> (\<not> truthy searcher_key \<or> freshness_rounds (web_searcher self) topic content = Inr [])
       \<and> time_check w timestamp = Inr (label, time_score, reasoning) \<longrightarrow>
      dict_get (check_freshness w self content topic timestamp) (asc ''time_score'') PNone
        = Inr (PInt time_score))"
proof -
  have a: "dict_get (check_freshness w (FactChecker_init cfg key url doubao_api_key) content topic
       ts) (asc ''time_score'') PNone = Inr (PInt 0)" for ts
    using check_freshness_built [of w cfg key url doubao_api_key content topic ts]
    by (auto simp add: freshness_failure_def)
  have b: "\<exists>label reasoning. time_check w None = Inr (label, 50, reasoning)"
    "\<exists>label reasoning. time_check w (Some (Naive t)) =
         Inr (label,
              snd (time_score_of_age (float_div (round_double (of_int (now w - t) / 1000000)) 3600)),
              reasoning)"
    by (simp_all add: time_check_def age_hours_def)
  have c: "getattr (searcher_instance (web_searcher self)) (asc ''api_key'') = Inr searcher_key
       \<and> (\<not> truthy searcher_key \<or> freshness_rounds (web_searcher self) topic content = Inr [])
       \<and> time_check w timestamp = Inr (label, time_score, reasoning) \<longrightarrow>
      dict_get (check_freshness w self content topic timestamp) (asc ''time_score'') PNone
        = Inr (PInt time_score)"
    using check_freshness_with_attribute [of self searcher_key topic content w timestamp label
        time_score reasoning PNone PNone]
    by blast
  show ?thesis
    using a [of timestamp] a [of None] b c by (simp only: simp_thms)
qed

theorem check_freshness_built_checker_time_score_zero_witness:
  "\<forall>w.
     dict_get (check_freshness (w\<lparr>now := 86403600000\<rparr>)
        (FactChecker_init
           \<lparr>TAVILY_API_KEY = None, DEEPSEEK_API_KEY = None,
            DEEPSEEK_BASE_URL = asc ''https://api.deepseek.com'', GLM_API_KEY = None\<rparr>
           PNone PNone PNone)
        (asc ''released today'') (asc ''DeepSeek R1'') (Some (Naive 0)))
       (asc ''time_score'') PNone = Inr (PInt 0)
   \<and> dict_get (check_freshness (w\<lparr>now := 86403600000\<rparr>)
        (with_searcher_key PNone
           (FactChecker_init
              \<lparr>TAVILY_API_KEY = None, DEEPSEEK_API_KEY = None,
               DEEPSEEK_BASE_URL = asc ''https://api.deepseek.com'', GLM_API_KEY = None\<rparr>
              PNone PNone PNone))
        (asc ''released today'') (asc ''DeepSeek R1'') (Some (Naive 0)))
       (asc ''time_score'') PNone = Inr (PInt 85)
   \<and> dict_get (check_freshness (w\<lparr>now := 86400000000\<rparr>)
        (with_searcher_key PNone
           (FactChecker_init
              \<lparr>TAVILY_API_KEY = None, DEEPSEEK_API_KEY = None,
               DEEPSEEK_BASE_URL = asc ''https://api.deepseek.com'', GLM_API_KEY = None\<rparr>
              PNone PNone PNone))
        (asc ''released today'') (asc ''DeepSeek R1'') (Some (Naive 0)))
       (asc ''time_score'') PNone = Inr (PInt 85)
   \<and> dict_get (check_freshness (w\<lparr>now := 86396400000\<rparr>)
        (with_searcher_key PNone
           (FactChecker_init
              \<lparr>TAVILY_API_KEY = None, DEEPSEEK_API_KEY = None,
               DEEPSEEK_BASE_URL = asc ''https://api.deepseek.com'', GLM_API_KEY = None\<rparr>
              PNone PNone PNone))
        (asc ''released today'') (asc ''DeepSeek R1'') (Some (Naive 0)))
       (asc ''time_score'') PNone = Inr (PInt 95)
   \<and> dict_get (check_freshness w
        (with_searcher_key PNone
           (FactChecker_init
              \<lparr>TAVILY_API_KEY = None, DEEPSEEK_API_KEY = None,
               DEEPSEEK_BASE_URL = asc ''https://api.deepseek.com'', GLM_API_KEY = None\<rparr>
              PNone PNone PNone))
        (asc ''released today'') (asc ''DeepSeek R1'') None)
       (asc ''time_score'') PNone = Inr (PInt 50)"
proof
  fix w :: world
  let ?cfg = "\<lparr>TAVILY_API_KEY = None, DEEPSEEK_API_KEY = None,
            DEEPSEEK_BASE_URL = asc ''https://api.deepseek.com'', GLM_API_KEY = None\<rparr>"
  let ?built = "FactChecker_init ?cfg PNone PNone PNone"
  let ?self = "with_searcher_key PNone ?built"
  let ?content = "asc ''released today''"
  let ?topic = "asc ''DeepSeek R1''"
  have k: "getattr (searcher_instance (web_searcher ?self)) (asc ''api_key'') = Inr PNone
      \<and> (\<not> truthy PNone \<or> freshness_rounds (web_searcher ?self) ?topic ?content = Inr [])"
    by simp
  have t1: "time_check (w\<lparr>now := 86403600000\<rparr>) (Some (Naive 0)) =
      Inr ([0x8FD1] @ asc ''2'' @ [0x5929], 85,
           [0x5185, 0x5BB9, 0x53D1, 0x5E03, 0x4E8E] @ asc '' ''
           @ format_1f w (Finite (6755680916032455 / 281474976710656))
           @ asc '' '' @ [0x5C0F, 0x65F6, 0x524D])"
    by (simp add: time_check_def age_hours_def time_score_of_age_def float_div_def)
  have t2: "time_check (w\<lparr>now := 86400000000\<rparr>) (Some (Naive 0)) =
      Inr ([0x8FD1] @ asc ''2'' @ [0x5929], 85,
           [0x5185, 0x5BB9, 0x53D1, 0x5E03, 0x4E8E] @ asc '' ''
           @ format_1f w (Finite 24)
           @ asc '' '' @ [0x5C0F, 0x65F6, 0x524D])"
    by (simp add: time_check_def age_hours_def time_score_of_age_def float_div_def)
  have t3: "time_check (w\<lparr>now := 86396400000\<rparr>) (Some (Naive 0)) =
      Inr ([0x4ECA, 0x65E5], 95,
           [0x5185, 0x5BB9, 0x53D1, 0x5E03, 0x4E8E] @ asc '' ''
           @ format_1f w (Finite (6755117966079033 / 281474976710656))
           @ asc '' '' @ [0x5C0F, 0x65F6, 0x524D])"
    by (simp add: time_check_def age_hours_def time_score_of_age_def float_div_def)
  have t4: "time_check w None = Inr ([0x672A, 0x77E5], 50,
               [0x65E0, 0x65F6, 0x95F4, 0x6233, 0x4FE1, 0x606F, 0xFF0C, 0x65E0, 0x6CD5, 0x5224,
                0x65AD, 0x65F6, 0x6548, 0x6027])"
    by (simp add: time_check_def)
  let ?ago = "asc '' '' @ [0x5C0F, 0x65F6, 0x524D]"
  have a: "dict_get (check_freshness (w\<lparr>now := 86403600000\<rparr>) ?built ?content ?topic
          (Some (Naive 0))) (asc ''time_score'') PNone = Inr (PInt 0)"
    using check_freshness_built_checker_time_score_zero
         [where w = "w\<lparr>now := 86403600000\<rparr>" and cfg = ?cfg and key = PNone and url = PNone
            and doubao_api_key = PNone and content = ?content and topic = ?topic
            and timestamp = "Some (Naive 0)"]
    by (rule conjunct1)
  have d1: "dict_get (check_freshness (w\<lparr>now := 86403600000\<rparr>) ?self ?content ?topic
          (Some (Naive 0))) (asc ''time_score'') PNone = Inr (PInt 85)"
    using check_freshness_built_checker_time_score_zero
         [where w = "w\<lparr>now := 86403600000\<rparr>" and content = ?content and topic = ?topic
            and timestamp = "Some (Naive 0)" and self = ?self and searcher_key = PNone
            and label = "[0x8FD1] @ asc ''2'' @ [0x5929]" and time_score = 85
            and reasoning = "[0x5185, 0x5BB9, 0x53D1, 0x5E03, 0x4E8E] @ asc '' ''
              @ format_1f w (Finite (6755680916032455 / 281474976710656)) @ ?ago"]
      k t1
    by blast
  have d2: "dict_get (check_freshness (w\<lparr>now := 86400000000\<rparr>) ?self ?content ?topic
          (Some (Naive 0))) (asc ''time_score'') PNone = Inr (PInt 85)"
    using check_freshness_built_checker_time_score_zero
         [where w = "w\<lparr>now := 86400000000\<rparr>" and content = ?content and topic = ?topic
            and timestamp = "Some (Naive 0)" and self = ?self and searcher_key = PNone
            and label = "[0x8FD1] @ asc ''2'' @ [0x5929]" and time_score = 85
            and reasoning = "[0x5185, 0x5BB9, 0x53D1, 0x5E03, 0x4E8E] @ asc '' ''
              @ format_1f w (Finite 24) @ ?ago"]
      k t2
    by blast
  have d3: "dict_get (check_freshness (w\<lparr>now := 86396400000\<rparr>) ?self ?content ?topic
          (Some (Naive 0))) (asc ''time_score'') PNone = Inr (PInt 95)"
    using check_freshness_built_checker_time_score_zero
         [where w = "w\<lparr>now := 86396400000\<rparr>" and content = ?content and topic = ?topic
            and timestamp = "Some (Naive 0)" and self = ?self and searcher_key = PNone
            and label = "[0x4ECA, 0x65E5]" and time_score = 95
            and reasoning = "[0x5185, 0x5BB9, 0x53D1, 0x5E03, 0x4E8E] @ asc '' ''
              @ format_1f w (Finite (6755117966079033 / 281474976710656)) @ ?ago"]
      k t3
    by blast
  have d4: "dict_get (check_freshness w ?self ?content ?topic None)
          (asc ''time_score'') PNone = Inr (PInt 50)"
    using check_freshness_built_checker_time_score_zero
         [where w = w and content = ?content and topic = ?topic
            and timestamp = None and self = ?self and searcher_key = PNone
            and label = "[0x672A, 0x77E5]" and time_score = 50
            and reasoning = "[0x65E0, 0x65F6, 0x95F4, 0x6233, 0x4FE1, 0x606F, 0xFF0C, 0x65E0, 0x6CD5,
                0x5224, 0x65AD, 0x65F6, 0x6548, 0x6027]"]
      k t4
    by blast
  show "dict_get (check_freshness (w\<lparr>now := 86403600000\<rparr>) ?built ?content ?topic
          (Some (Naive 0))) (asc ''time_score'') PNone = Inr (PInt 0)
   \<and> dict_get (check_freshness (w\<lparr>now := 86403600000\<rparr>) ?self ?content ?topic
          (Some (Naive 0))) (asc ''time_score'') PNone = Inr (PInt 85)
   \<and> dict_get (check_freshness (w\<lparr>now := 86400000000\<rparr>) ?self ?content ?topic
          (Some (Naive 0))) (asc ''time_score'') PNone = Inr (PInt 85)
   \<and> dict_get (check_freshness (w\<lparr>now := 86396400000\<rparr>) ?self ?content ?topic
          (Some (Naive 0))) (asc ''time_score'') PNone = Inr (PInt 95)
   \<and> dict_get (check_freshness w ?self ?content ?topic None)
          (asc ''time_score'') PNone = Inr (PInt 50)"
    using a d1 d2 d3 d4 by (simp only: simp_thms)
qed

text \<open>
  Claim C5, as stated, at two usable rounds with confidences 90 and 70 and verdict
  true: \<open>verify_claim\<close> returns \<open>is_true\<close> true and the confidence 80.0, and its reasoning
  is the text of the high band (agreement with confidence at least 80), not the text of
  the medium band. The checker is one whose searcher has the attribute \<open>api_key\<close> and
  answers the two calls of \<open>verify_fact\<close> with these rounds.
\<close>

theorem verify_claim_90_70_is_high_band_not_medium:
  "\<forall>w.
     dict_get (verify_claim w
        (with_verify_fact
           (\<lambda>i claim. Inr \<lparr>vr_is_true = Some True,
                               vr_confidence = NInt (if i = 0 then 90 else 70),
                               vr_reasoning = [], vr_sources = [], vr_search_results = []\<rparr>)
           (with_searcher_key (PStr (asc ''key''))
              (FactChecker_init
                 \<lparr>TAVILY_API_KEY = None, DEEPSEEK_API_KEY = None,
                  DEEPSEEK_BASE_URL = asc ''https://api.deepseek.com'', GLM_API_KEY = None\<rparr>
                 PNone PNone PNone)))
        (asc ''DeepSeek released R1'')) (asc ''confidence'') PNone = Inr (PFloat (Finite 80))
   \<and> dict_get (verify_claim w
        (with_verify_fact
           (\<lambda>i claim. Inr \<lparr>vr_is_true = Some True,
                               vr_confidence = NInt (if i = 0 then 90 else 70),
                               vr_reasoning = [], vr_sources = [], vr_search_results = []\<rparr>)
           (with_searcher_key (PStr (asc ''key''))
              (FactChecker_init
                 \<lparr>TAVILY_API_KEY = None, DEEPSEEK_API_KEY = None,
                  DEEPSEEK_BASE_URL = asc ''https://api.deepseek.com'', GLM_API_KEY = None\<rparr>
                 PNone PNone PNone)))
        (asc ''DeepSeek released R1'')) (asc ''reasoning'') PNone
       = Inr (PStr (reasoning_high 2))
   \<and> reasoning_high 2 \<noteq> reasoning_medium 2"
  by (simp add: verify_claim_def verify_claim_body_def verification_rounds_def
      verify_consensus_def consensus_dict_def mean_confidence_def num_truediv_def
      with_verify_fact_def with_searcher_key_def FactChecker_init_def WebSearcher_init_def
      reasoning_high_def reasoning_medium_def Let_def)

text \<open>
  Claim C5, amended. Whenever at least one usable round of grounded verification exists
  (a round is usable when its confidence is above 0), \<open>verify_claim\<close> returns \<open>is_true\<close>
  as the conjunction of the usable rounds' verdicts (false as soon as one usable round is
  not true), \<open>confidence\<close> as the mean of the usable rounds' confidences (the sum divided
  by the number of rounds, in floating point), and the reasoning of the band: high for
  agreement with mean at least 80, medium for agreement with mean at least 60 and below
  80, low for a round that is not true, manual review otherwise. Two usable rounds with
  confidences 90 and 70 and verdict true give confidence 80 and the high band.
\<close>

theorem verify_claim_consensus_of_usable_rounds:
  assumes "getattr (searcher_instance (web_searcher self)) (asc ''api_key'') = Inr searcher_key"
    and "truthy searcher_key"
    and "call_verify_fact (web_searcher self) 0 claim = Inr r0"
    and "call_verify_fact (web_searcher self) 1 claim = Inr r1"
    and "usable = filter (\<lambda>r. num_gt (vr_confidence r) 0) [r0, r1]"
    and "usable \<noteq> []"
    and "mean_confidence usable = Inr avg"
  shows "verify_claim w self claim =
      PDict
        [(asc ''is_true'', PBool (list_all (\<lambda>r. vr_is_true r = Some True) usable)),
         (asc ''confidence'', PFloat avg),
         (asc ''reasoning'', PStr
            (if list_all (\<lambda>r. vr_is_true r = Some True) usable \<and> float_ge avg 80
             then reasoning_high (length usable)
             else if list_all (\<lambda>r. vr_is_true r = Some True) usable \<and> float_ge avg 60
             then reasoning_medium (length usable)
             else if \<not> list_all (\<lambda>r. vr_is_true r = Some True) usable
             then reasoning_low (length usable)
             else reasoning_review (length usable))),
         (asc ''sources'', PList (map PStr (list_set w (concat (map vr_sources usable))))),
         (asc ''search_results'', PList (concat (map vr_search_results usable))),
         (asc ''method'', PStr (asc ''multi_source_web_search'')),
         (asc ''verification_count'', PInt (int (length usable)))]
    \<and> ((\<exists>r \<in> set usable. vr_is_true r \<noteq> Some True)
         \<longrightarrow> dict_get (verify_claim w self claim) (asc ''is_true'') PNone = Inr (PBool False))
    \<and> mean_confidence usable
         = (case num_sum (NInt 0) (map vr_confidence usable) of Inl e \<Rightarrow> Inl e
            | Inr summed \<Rightarrow> num_truediv summed (length usable))"
proof -
  have rounds: "verification_rounds (web_searcher self) claim = Inr usable"
    using assms(3,4,5) by (simp add: verification_rounds_def)
  have b: "verify_claim_body w self claim
      = consensus_dict (list_set w (concat (map vr_sources usable))) usable"
    using assms(1,2,6) rounds by (simp add: verify_claim_body_def verify_consensus_def Let_def)
  have v: "verify_claim w self claim =
      PDict
        [(asc ''is_true'', PBool (list_all (\<lambda>r. vr_is_true r = Some True) usable)),
         (asc ''confidence'', PFloat avg),
         (asc ''reasoning'', PStr
            (if list_all (\<lambda>r. vr_is_true r = Some True) usable \<and> float_ge avg 80
             then reasoning_high (length usable)
             else if list_all (\<lambda>r. vr_is_true r = Some True) usable \<and> float_ge avg 60
             then reasoning_medium (length usable)
             else if \<not> list_all (\<lambda>r. vr_is_true r = Some True) usable
             then reasoning_low (length usable)
             else reasoning_review (length usable))),
         (asc ''sources'', PList (map PStr (list_set w (concat (map vr_sources usable))))),
         (asc ''search_results'', PList (concat (map vr_search_results usable))),
         (asc ''method'', PStr (asc ''multi_source_web_search'')),
         (asc ''verification_count'', PInt (int (length usable)))]"
    using assms(7) by (simp add: verify_claim_def b consensus_dict_def Let_def)
  show ?thesis
    unfolding v by (auto simp add: list_all_iff mean_confidence_def)
qed

theorem verify_claim_consensus_of_usable_rounds_witness:
  "\<forall>w.
     dict_get (verify_claim w
        (with_verify_fact
           (\<lambda>i claim. Inr \<lparr>vr_is_true = Some True,
                               vr_confidence = NInt (if i = 0 then 90 else 70),
                               vr_reasoning = [], vr_sources = [], vr_search_results = []\<rparr>)
           (with_searcher_key (PStr (asc ''key''))
              (FactChecker_init
                 \<lparr>TAVILY_API_KEY = None, DEEPSEEK_API_KEY = None,
                  DEEPSEEK_BASE_URL = asc ''https://api.deepseek.com'', GLM_API_KEY = None\<rparr>
                 PNone PNone PNone)))
        (asc ''DeepSeek released R1'')) (asc ''is_true'') PNone = Inr (PBool True)
   \<and> dict_get (verify_claim w
        (with_verify_fact
           (\<lambda>i claim. Inr \<lparr>vr_is_true = Some True,
                               vr_confidence = NInt (if i = 0 then 90 else 70),
                               vr_reasoning = [], vr_sources = [], vr_search_results = []\<rparr>)
           (with_searcher_key (PStr (asc ''key''))
              (FactChecker_init
                 \<lparr>TAVILY_API_KEY = None, DEEPSEEK_API_KEY = None,
                  DEEPSEEK_BASE_URL = asc ''https://api.deepseek.com'', GLM_API_KEY = None\<rparr>
                 PNone PNone PNone)))
        (asc ''DeepSeek released R1'')) (asc ''confidence'') PNone = Inr (PFloat (Finite 80))
   \<and> dict_get (verify_claim w
        (with_verify_fact
           (\<lambda>i claim. Inr \<lparr>vr_is_true = Some True,
                               vr_confidence = NInt (if i = 0 then 90 else 70),
                               vr_reasoning = [], vr_sources = [], vr_search_results = []\<rparr>)
           (with_searcher_key (PStr (asc ''key''))
              (FactChecker_init
                 \<lparr>TAVILY_API_KEY = None, DEEPSEEK_API_KEY = None,
                  DEEPSEEK_BASE_URL = asc ''https://api.deepseek.com'', GLM_API_KEY = None\<rparr>
                 PNone PNone PNone)))
        (asc ''DeepSeek released R1'')) (asc ''reasoning'') PNone
       = Inr (PStr (reasoning_high 2))
   \<and> dict_get (verify_claim w
        (with_verify_fact
           (\<lambda>i claim. Inr \<lparr>vr_is_true = Some (i = 0),
                               vr_confidence = NInt (if i = 0 then 90 else 70),
                               vr_reasoning = [], vr_sources = [], vr_search_results = []\<rparr>)
           (with_searcher_key (PStr (asc ''key''))
              (FactChecker_init
                 \<lparr>TAVILY_API_KEY = None, DEEPSEEK_API_KEY = None,
                  DEEPSEEK_BASE_URL = asc ''https://api.deepseek.com'', GLM_API_KEY = None\<rparr>
                 PNone PNone PNone)))
        (asc ''DeepSeek released R1'')) (asc ''is_true'') PNone = Inr (PBool False)
   \<and> dict_get (verify_claim w
        (with_verify_fact
           (\<lambda>i claim. Inr \<lparr>vr_is_true = Some True,
                               vr_confidence = NInt (if i = 0 then 90 else 0),
                               vr_reasoning = [], vr_sources = [], vr_search_results = []\<rparr>)
           (with_searcher_key (PStr (asc ''key''))
              (FactChecker_init
                 \<lparr>TAVILY_API_KEY = None, DEEPSEEK_API_KEY = None,
                  DEEPSEEK_BASE_URL = asc ''https://api.deepseek.com'', GLM_API_KEY = None\<rparr>
                 PNone PNone PNone)))
        (asc ''DeepSeek released R1'')) (asc ''verification_count'') PNone = Inr (PInt 1)"
proof
  fix w :: world
  let ?cfg = "\<lparr>TAVILY_API_KEY = None, DEEPSEEK_API_KEY = None,
                  DEEPSEEK_BASE_URL = asc ''https://api.deepseek.com'', GLM_API_KEY = None\<rparr>"
  let ?base = "with_searcher_key (PStr (asc ''key'')) (FactChecker_init ?cfg PNone PNone PNone)"
  let ?claim = "asc ''DeepSeek released R1''"
  let ?a0 = "\<lparr>vr_is_true = Some True, vr_confidence = NInt 90, vr_reasoning = [],
      vr_sources = [], vr_search_results = []\<rparr>"
  let ?a1 = "\<lparr>vr_is_true = Some True, vr_confidence = NInt 70, vr_reasoning = [],
      vr_sources = [], vr_search_results = []\<rparr>"
  let ?b1 = "\<lparr>vr_is_true = Some False, vr_confidence = NInt 70, vr_reasoning = [],
      vr_sources = [], vr_search_results = []\<rparr>"
  let ?c1 = "\<lparr>vr_is_true = Some True, vr_confidence = NInt 0, vr_reasoning = [],
      vr_sources = [], vr_search_results = []\<rparr>"
  let ?A = "with_verify_fact
           (\<lambda>i claim. Inr \<lparr>vr_is_true = Some True,
                               vr_confidence = NInt (if i = 0 then 90 else 70),
                               vr_reasoning = [], vr_sources = [], vr_search_results = []\<rparr>) ?base"
  let ?B = "with_verify_fact
           (\<lambda>i claim. Inr \<lparr>vr_is_true = Some (i = 0),
                               vr_confidence = NInt (if i = 0 then 90 else 70),
                               vr_reasoning = [], vr_sources = [], vr_search_results = []\<rparr>) ?base"
  let ?C = "with_verify_fact
           (\<lambda>i claim. Inr \<lparr>vr_is_true = Some True,
                               vr_confidence = NInt (if i = 0 then 90 else 0),
                               vr_reasoning = [], vr_sources = [], vr_search_results = []\<rparr>) ?base"
  have kA: "getattr (searcher_instance (web_searcher ?A)) (asc ''api_key'') = Inr (PStr (asc ''key''))"
    and kB: "getattr (searcher_instance (web_searcher ?B)) (asc ''api_key'') = Inr (PStr (asc ''key''))"
    and kC: "getattr (searcher_instance (web_searcher ?C)) (asc ''api_key'') = Inr (PStr (asc ''key''))"
    by (simp_all add: with_verify_fact_def with_searcher_key_def WebSearcher_init_def Let_def)
  have tr: "truthy (PStr (asc ''key''))" by simp
  have A0: "call_verify_fact (web_searcher ?A) 0 ?claim = Inr ?a0"
    and A1: "call_verify_fact (web_searcher ?A) 1 ?claim = Inr ?a1"
    and B0: "call_verify_fact (web_searcher ?B) 0 ?claim = Inr ?a0"
    and B1: "call_verify_fact (web_searcher ?B) 1 ?claim = Inr ?b1"
    and C0: "call_verify_fact (web_searcher ?C) 0 ?claim = Inr ?a0"
    and C1: "call_verify_fact (web_searcher ?C) 1 ?claim = Inr ?c1"
    by (simp_all add: with_verify_fact_def)
  have uA: "[?a0, ?a1] = filter (\<lambda>r. num_gt (vr_confidence r) 0) [?a0, ?a1]" "[?a0, ?a1] \<noteq> []"
    and uB: "[?a0, ?b1] = filter (\<lambda>r. num_gt (vr_confidence r) 0) [?a0, ?b1]" "[?a0, ?b1] \<noteq> []"
    and uC: "[?a0] = filter (\<lambda>r. num_gt (vr_confidence r) 0) [?a0, ?c1]" "[?a0] \<noteq> []"
    by simp_all
  have mA: "mean_confidence [?a0, ?a1] = Inr (Finite 80)"
    and mB: "mean_confidence [?a0, ?b1] = Inr (Finite 80)"
    and mC: "mean_confidence [?a0] = Inr (Finite 90)"
    by (simp_all add: mean_confidence_def num_truediv_def)
  from verify_claim_consensus_of_usable_rounds [OF kA tr A0 A1 uA mA, of w]
       verify_claim_consensus_of_usable_rounds [OF kB tr B0 B1 uB mB, of w]
       verify_claim_consensus_of_usable_rounds [OF kC tr C0 C1 uC mC, of w]
  show "dict_get (verify_claim w ?A ?claim) (asc ''is_true'') PNone = Inr (PBool True)
   \<and> dict_get (verify_claim w ?A ?claim) (asc ''confidence'') PNone = Inr (PFloat (Finite 80))
   \<and> dict_get (verify_claim w ?A ?claim) (asc ''reasoning'') PNone
       = Inr (PStr (reasoning_high 2))
   \<and> dict_get (verify_claim w ?B ?claim) (asc ''is_true'') PNone = Inr (PBool False)
   \<and> dict_get (verify_claim w ?C ?claim) (asc ''verification_count'') PNone = Inr (PInt 1)"
    by (simp add: numeral_2_eq_2 [symmetric])
qed

text \<open>
  Claim C6, as stated, at the content \<open>beta beta beta\<close>: the keyword \<open>beta\<close> occurs
  three times, the code counts one keyword, and the score is 85, not 95.
\<close>

theorem content_freshness_three_occurrences_score_85:
  "spec_occurrence_count ascii_lower (asc ''beta beta beta'') = 3
   \<and> fresh_count ascii_lower (asc ''beta beta beta'') = 1
   \<and> dict_get (analyze_content_freshness ascii_lower (asc ''beta beta beta'') (asc ''release notes''))
       (asc ''score'') PNone = Inr (PInt 85)"
proof -
  have 1: "spec_occurrence_count ascii_lower (asc ''beta beta beta'') = 3"
    by (simp add: spec_occurrence_count_def fresh_keywords_def ascii_lower_def asc_def)
  have 2: "fresh_count ascii_lower (asc ''beta beta beta'') = 1"
    by (simp add: fresh_count_def fresh_keywords_def ascii_lower_def asc_def sublist_code)
  show ?thesis
    using 1 2 by (simp add: analyze_content_freshness_def Let_def)
qed

text \<open>
  Claim C6, amended. For every content string the content-freshness sub-score is decided
  by the number of keywords of the fixed list that occur in the lowered content, each
  keyword counted once however often it occurs: the score is 95, fresh, level "newest"
  when at least 3 keywords occur; 85, fresh, level "fairly new" when at least 1 occurs;
  50 and not fresh when none occurs. The 46 keywords have no capital letter, so a keyword
  written in capitals in the content is found: \<open>BETA Release 2026\<close> has three.
\<close>

theorem content_freshness_score_by_count:
  "fresh_count lower content =
     length (filter (\<lambda>keyword. sublist keyword (lower content)) fresh_keywords)
   \<and> dict_get (analyze_content_freshness lower content topic) (asc ''score'') PNone =
       Inr (PInt (if 3 \<le> fresh_count lower content then 95
                  else if 1 \<le> fresh_count lower content then 85 else 50))
   \<and> dict_get (analyze_content_freshness lower content topic) (asc ''is_fresh'') PNone =
       Inr (PBool (1 \<le> fresh_count lower content))
   \<and> dict_get (analyze_content_freshness lower content topic) (asc ''freshness_level'') PNone =
       Inr (PStr (if 3 \<le> fresh_count lower content then [0x6700, 0x65B0]
                  else if 1 \<le> fresh_count lower content then [0x8F83, 0x65B0]
                  else [0x672A, 0x77E5]))
   \<and> length fresh_keywords = 46
   \<and> map ascii_lower fresh_keywords = fresh_keywords
   \<and> fresh_count ascii_lower (asc ''BETA Release 2026'') = 3
   \<and> dict_get (analyze_content_freshness ascii_lower (asc ''BETA Release 2026'') topic)
       (asc ''score'') PNone = Inr (PInt 95)"
proof -
  have c: "fresh_count lower content =
     length (filter (\<lambda>keyword. sublist keyword (lower content)) fresh_keywords)"
    by (simp add: fresh_count_def sum_list_triv)
  have k: "length fresh_keywords = 46" "map ascii_lower fresh_keywords = fresh_keywords"
    by (simp_all add: fresh_keywords_def ascii_lower_def asc_def)
  have n: "fresh_count ascii_lower (asc ''BETA Release 2026'') = 3"
    by (simp add: fresh_count_def fresh_keywords_def ascii_lower_def asc_def sublist_code)
  have s: "dict_get (analyze_content_freshness ascii_lower (asc ''BETA Release 2026'') topic)
       (asc ''score'') PNone = Inr (PInt 95)"
    using n by (simp add: analyze_content_freshness_def Let_def)
  have d: "dict_get (analyze_content_freshness lower content topic) (asc ''score'') PNone =
       Inr (PInt (if 3 \<le> fresh_count lower content then 95
                  else if 1 \<le> fresh_count lower content then 85 else 50))"
    "dict_get (analyze_content_freshness lower content topic) (asc ''is_fresh'') PNone =
       Inr (PBool (1 \<le> fresh_count lower content))"
    "dict_get (analyze_content_freshness lower content topic) (asc ''freshness_level'') PNone =
       Inr (PStr (if 3 \<le> fresh_count lower content then [0x6700, 0x65B0]
                  else if 1 \<le> fresh_count lower content then [0x8F83, 0x65B0]
                  else [0x672A, 0x77E5]))"
    by (simp_all add: analyze_content_freshness_def Let_def)
  show ?thesis
    using c k n s d by (simp only: simp_thms)
qed

text \<open>
  Claim C7. Every exception raised inside \<open>verify_claim\<close>, \<open>check_freshness\<close> or
  \<open>cross_reference\<close>, whatever it is, is turned into the verdict of the \<open>except\<close> branch:
  truth, freshness or consistency unknown (\<open>None\<close>) with confidence or score 0. When the
  three sub-checks fail, \<open>comprehensive_check\<close> returns the report with these three
  verdicts and the overall score 0.0. A checker built by its constructor returns a report
  with a finite overall score for every input and every behaviour of the services.
\<close>

theorem sub_check_exceptions_become_verdicts:
  "(verify_claim_body w self content = Inl e1 \<longrightarrow>
      verify_claim w self content = verify_failure w e1)
   \<and> (check_freshness_body w self content topic timestamp = Inl e2 \<longrightarrow>
      check_freshness w self content topic timestamp = freshness_failure w e2)
   \<and> (cross_reference_body w self topic content = Inl e3 \<longrightarrow>
      cross_reference w self topic content = cross_reference_failure w e3)
   \<and> dict_get (verify_failure w e1) (asc ''is_true'') (PBool True) = Inr PNone
   \<and> dict_get (verify_failure w e1) (asc ''confidence'') PNone = Inr (PInt 0)
   \<and> dict_get (freshness_failure w e2) (asc ''is_fresh'') (PBool True) = Inr PNone
   \<and> dict_get (freshness_failure w e2) (asc ''score'') PNone = Inr (PInt 0)
   \<and> dict_get (cross_reference_failure w e3) (asc ''is_consistent'') (PBool True) = Inr PNone
   \<and> dict_get (cross_reference_failure w e3) (asc ''confidence'') PNone = Inr (PInt 0)
   \<and> (verify_claim_body w self content = Inl e1
       \<and> check_freshness_body w self content topic timestamp = Inl e2
       \<and> cross_reference_body w self topic content = Inl e3 \<longrightarrow>
      (\<exists>report. comprehensive_check w self topic content timestamp = Inr report
         \<and> dict_get report (asc ''truth_check'') PNone = Inr (verify_failure w e1)
         \<and> dict_get report (asc ''freshness_check'') PNone = Inr (freshness_failure w e2)
         \<and> dict_get report (asc ''consistency_check'') PNone = Inr (cross_reference_failure w e3)
         \<and> dict_get report (asc ''overall_score'') PNone = Inr (PFloat (Finite 0))
         \<and> dict_get report (asc ''is_pass'') PNone = Inr (PBool False)))
   \<and> (\<exists>report x.
         comprehensive_check w (FactChecker_init cfg key url doubao_api_key) topic content timestamp
           = Inr report
         \<and> dict_get report (asc ''overall_score'') PNone = Inr (PFloat (Finite x)))"
proof -
  have 1: "verify_claim_body w self content = Inl e1 \<longrightarrow>
      verify_claim w self content = verify_failure w e1"
    by (simp add: verify_claim_def)
  have 2: "check_freshness_body w self content topic timestamp = Inl e2 \<longrightarrow>
      check_freshness w self content topic timestamp = freshness_failure w e2"
    by (simp add: check_freshness_def)
  have 3: "cross_reference_body w self topic content = Inl e3 \<longrightarrow>
      cross_reference w self topic content = cross_reference_failure w e3"
    by (simp add: cross_reference_def)
  have 4: "dict_get (verify_failure w e1) (asc ''is_true'') (PBool True) = Inr PNone"
    "dict_get (verify_failure w e1) (asc ''confidence'') PNone = Inr (PInt 0)"
    "dict_get (freshness_failure w e2) (asc ''is_fresh'') (PBool True) = Inr PNone"
    "dict_get (freshness_failure w e2) (asc ''score'') PNone = Inr (PInt 0)"
    "dict_get (cross_reference_failure w e3) (asc ''is_consistent'') (PBool True) = Inr PNone"
    "dict_get (cross_reference_failure w e3) (asc ''confidence'') PNone = Inr (PInt 0)"
    by (simp_all add: verify_failure_def freshness_failure_def cross_reference_failure_def)
  have 5: "verify_claim_body w self content = Inl e1
       \<and> check_freshness_body w self content topic timestamp = Inl e2
       \<and> cross_reference_body w self topic content = Inl e3 \<longrightarrow>
      (\<exists>report. comprehensive_check w self topic content timestamp = Inr report
         \<and> dict_get report (asc ''truth_check'') PNone = Inr (verify_failure w e1)
         \<and> dict_get report (asc ''freshness_check'') PNone = Inr (freshness_failure w e2)
         \<and> dict_get report (asc ''consistency_check'') PNone = Inr (cross_reference_failure w e3)
         \<and> dict_get report (asc ''overall_score'') PNone = Inr (PFloat (Finite 0))
         \<and> dict_get report (asc ''is_pass'') PNone = Inr (PBool False))"
    by (simp add: comprehensive_check_def verify_claim_def check_freshness_def
        cross_reference_def aggregate_failures Let_def)
  have 6: "\<exists>report x.
         comprehensive_check w (FactChecker_init cfg key url doubao_api_key) topic content timestamp
           = Inr report
         \<and> dict_get report (asc ''overall_score'') PNone = Inr (PFloat (Finite x))"
    using comprehensive_check_built [of w cfg key url doubao_api_key topic content timestamp]
    by (auto simp add: aggregate_failures)
  show ?thesis
    using 1 2 3 4 5 6 by (simp only: simp_thms)
qed

theorem sub_check_exceptions_become_verdicts_witness:
  "\<forall>w.
     verify_claim
       (w\<lparr>chat_create := (\<lambda>request. Inl (OtherException (asc ''Connection error.'')))\<rparr>)
       (with_searcher_key PNone
          (FactChecker_init
             \<lparr>TAVILY_API_KEY = None, DEEPSEEK_API_KEY = Some (asc ''sk''),
              DEEPSEEK_BASE_URL = asc ''https://api.deepseek.com'', GLM_API_KEY = None\<rparr>
             PNone PNone PNone))
       (asc ''released today'')
     = verify_failure
         (w\<lparr>chat_create := (\<lambda>request. Inl (OtherException (asc ''Connection error.'')))\<rparr>)
         (OtherException (asc ''Connection error.''))
   \<and> dict_get (verify_failure
         (w\<lparr>chat_create := (\<lambda>request. Inl (OtherException (asc ''Connection error.'')))\<rparr>)
         (OtherException (asc ''Connection error.''))) (asc ''reasoning'') PNone
       = Inr (PStr ([0x9A8C, 0x8BC1, 0x5931, 0x8D25] @ asc '': Connection error.''))
   \<and> check_freshness
       (w\<lparr>chat_create := (\<lambda>request. Inl (OtherException (asc ''Connection error.'')))\<rparr>)
       (with_searcher_key PNone
          (FactChecker_init
             \<lparr>TAVILY_API_KEY = None, DEEPSEEK_API_KEY = Some (asc ''sk''),
              DEEPSEEK_BASE_URL = asc ''https://api.deepseek.com'', GLM_API_KEY = None\<rparr>
             PNone PNone PNone))
       (asc ''released today'') (asc ''DeepSeek R1'') (Some (Aware 0))
     = freshness_failure
         (w\<lparr>chat_create := (\<lambda>request. Inl (OtherException (asc ''Connection error.'')))\<rparr>)
         (TypeError (asc ''can't subtract offset-naive and offset-aware datetimes''))
   \<and> cross_reference
       (w\<lparr>chat_create := (\<lambda>request. Inl (OtherException (asc ''Connection error.'')))\<rparr>)
       (with_searcher_key PNone
          (FactChecker_init
             \<lparr>TAVILY_API_KEY = None, DEEPSEEK_API_KEY = Some (asc ''sk''),
              DEEPSEEK_BASE_URL = asc ''https://api.deepseek.com'', GLM_API_KEY = None\<rparr>
             PNone PNone PNone))
       (asc ''DeepSeek R1'') (asc ''released today'')
     = cross_reference_failure
         (w\<lparr>chat_create := (\<lambda>request. Inl (OtherException (asc ''Connection error.'')))\<rparr>)
         (OtherException (asc ''Connection error.''))
   \<and> (\<exists>report.
        comprehensive_check
          (w\<lparr>chat_create := (\<lambda>request. Inl (OtherException (asc ''Connection error.'')))\<rparr>)
          (with_searcher_key PNone
             (FactChecker_init
                \<lparr>TAVILY_API_KEY = None, DEEPSEEK_API_KEY = Some (asc ''sk''),
                 DEEPSEEK_BASE_URL = asc ''https://api.deepseek.com'', GLM_API_KEY = None\<rparr>
                PNone PNone PNone))
          (asc ''DeepSeek R1'') (asc ''released today'') (Some (Aware 0)) = Inr report
        \<and> dict_get report (asc ''overall_score'') PNone = Inr (PFloat (Finite 0))
        \<and> dict_get report (asc ''is_pass'') PNone = Inr (PBool False))"
proof
  fix w :: world
  let ?w = "w\<lparr>chat_create := (\<lambda>request. Inl (OtherException (asc ''Connection error.'')))\<rparr>"
  let ?cfg = "\<lparr>TAVILY_API_KEY = None, DEEPSEEK_API_KEY = Some (asc ''sk''),
              DEEPSEEK_BASE_URL = asc ''https://api.deepseek.com'', GLM_API_KEY = None\<rparr>"
  let ?self = "with_searcher_key PNone (FactChecker_init ?cfg PNone PNone PNone)"
  let ?topic = "asc ''DeepSeek R1''"
  let ?content = "asc ''released today''"
  let ?e = "OtherException (asc ''Connection error.'')"
  let ?t = "TypeError (asc ''can't subtract offset-naive and offset-aware datetimes'')"
  have cl: "truthy (client ?self)"
    by (simp add: FactChecker_init_def py_or_def opt_str_def Let_def)
  have b1: "verify_claim_body ?w ?self ?content = Inl ?e"
    using cl by (simp add: verify_claim_body_def ask_verification_def del: client_with_searcher_key)
  have b2: "check_freshness_body ?w ?self ?content ?topic (Some (Aware 0)) = Inl ?t"
    by (simp add: check_freshness_body_def time_check_def age_hours_def)
  have b3: "cross_reference_body ?w ?self ?topic ?content = Inl ?e"
    using cl by (simp add: cross_reference_body_def ask_cross_ref_def del: client_with_searcher_key)
  have m: "dict_get (verify_failure ?w ?e) (asc ''reasoning'') PNone
       = Inr (PStr ([0x9A8C, 0x8BC1, 0x5931, 0x8D25] @ asc '': Connection error.''))"
    by (simp add: verify_failure_def asc_def)
  from sub_check_exceptions_become_verdicts
         [of ?w ?self ?content ?e ?topic "Some (Aware 0)" ?t ?e]
  show "verify_claim ?w ?self ?content = verify_failure ?w ?e
   \<and> dict_get (verify_failure ?w ?e) (asc ''reasoning'') PNone
       = Inr (PStr ([0x9A8C, 0x8BC1, 0x5931, 0x8D25] @ asc '': Connection error.''))
   \<and> check_freshness ?w ?self ?content ?topic (Some (Aware 0)) = freshness_failure ?w ?t
   \<and> cross_reference ?w ?self ?topic ?content = cross_reference_failure ?w ?e
   \<and> (\<exists>report.
        comprehensive_check ?w ?self ?topic ?content (Some (Aware 0)) = Inr report
        \<and> dict_get report (asc ''overall_score'') PNone = Inr (PFloat (Finite 0))
        \<and> dict_get report (asc ''is_pass'') PNone = Inr (PBool False))"
    unfolding b1 b2 b3 using m by blast
qed

text \<open>
  Claim C8, as stated, at truth 80, freshness 80, consistency 40: the consistency
  score is below 50, and the list is the one consistency suggestion, with no warning.
\<close>

theorem suggestions_80_80_40_no_consistency_warning:
  "improvement_suggestions (NInt 80) (NInt 80) (NInt 40) = [suggest_consistency]"
  by (simp add: improvement_suggestions_def)

text \<open>
  Claim C8, amended. In the suggestion list of a report: each of the three sub-scores
  below 70 adds the suggestion that names its dimension; a truth score below 50 and a
  freshness score below 50 each add a warning (a consistency score below 50 adds none);
  no text occurs twice; all suggestions come before all warnings; and truth 40,
  freshness 80, consistency 90 gives the truth suggestion followed by the truth warning
  and nothing else.
\<close>

theorem improvement_suggestions_of_report:
  assumes "comprehensive_check w self topic content timestamp = Inr report"
  shows "\<exists>ts fs cs t f c suggestions.
      dict_get (verify_claim w self content) (asc ''confidence'') (PInt 0) = Inr ts
    \<and> num_of ts = Some t
    \<and> dict_get (check_freshness w self content topic timestamp) (asc ''score'') (PInt 0) = Inr fs
    \<and> num_of fs = Some f
    \<and> dict_get (cross_reference w self topic content) (asc ''confidence'') (PInt 0) = Inr cs
    \<and> num_of cs = Some c
    \<and> dict_get report (asc ''improvement_suggestions'') PNone = Inr (PList (map PStr suggestions))
    \<and> suggestions = improvement_suggestions t f c
    \<and> (suggest_truth \<in> set suggestions) = num_lt t 70
    \<and> (suggest_freshness \<in> set suggestions) = num_lt f 70
    \<and> (suggest_consistency \<in> set suggestions) = num_lt c 70
    \<and> (warn_truth \<in> set suggestions) = num_lt t 50
    \<and> (warn_freshness \<in> set suggestions) = num_lt f 50
    \<and> distinct suggestions
    \<and> (\<exists>ms ws. suggestions = ms @ ws
          \<and> set ms \<subseteq> {suggest_truth, suggest_freshness, suggest_consistency}
          \<and> set ws \<subseteq> {warn_truth, warn_freshness})
    \<and> improvement_suggestions (NInt 40) (NInt 80) (NInt 90) = [suggest_truth, warn_truth]
    \<and> improvement_suggestions (NFloat (Finite 40)) (NFloat (Finite 80)) (NFloat (Finite 90))
         = [suggest_truth, warn_truth]"
proof -
  from comprehensive_check_InrD [OF assms] obtain ts fs cs t f c where
    h: "dict_get (verify_claim w self content) (asc ''confidence'') (PInt 0) = Inr ts"
       "num_of ts = Some t"
       "dict_get (check_freshness w self content topic timestamp) (asc ''score'') (PInt 0) = Inr fs"
       "num_of fs = Some f"
       "dict_get (cross_reference w self topic content) (asc ''confidence'') (PInt 0) = Inr cs"
       "num_of cs = Some c"
       "dict_get report (asc ''improvement_suggestions'') PNone
          = Inr (PList (map PStr (improvement_suggestions t f c)))"
    by blast
  have ex: "improvement_suggestions (NInt 40) (NInt 80) (NInt 90) = [suggest_truth, warn_truth]"
    "improvement_suggestions (NFloat (Finite 40)) (NFloat (Finite 80)) (NFloat (Finite 90))
         = [suggest_truth, warn_truth]"
    by (simp_all add: improvement_suggestions_def)
  show ?thesis
    apply (rule exI [of _ ts], rule exI [of _ fs], rule exI [of _ cs])
    apply (rule exI [of _ t], rule exI [of _ f], rule exI [of _ c])
    apply (rule exI [of _ "improvement_suggestions t f c"])
    using h ex improvement_suggestions_split [of t f c]
    by (simp add: improvement_suggestions_members improvement_suggestions_distinct)
qed

theorem improvement_suggestions_of_report_witness:
  "\<forall>w. \<exists>report suggestions.
     comprehensive_check w
       (FactChecker_init
          \<lparr>TAVILY_API_KEY = None, DEEPSEEK_API_KEY = None,
           DEEPSEEK_BASE_URL = asc ''https://api.deepseek.com'', GLM_API_KEY = None\<rparr>
          PNone PNone PNone) (asc ''DeepSeek R1'') (asc ''released today'') None = Inr report
   \<and> dict_get report (asc ''improvement_suggestions'') PNone = Inr (PList (map PStr suggestions))
   \<and> distinct suggestions
   \<and> improvement_suggestions (NInt 40) (NInt 80) (NInt 90) = [suggest_truth, warn_truth]"
proof
  fix w
  let ?self = "FactChecker_init
          \<lparr>TAVILY_API_KEY = None, DEEPSEEK_API_KEY = None,
           DEEPSEEK_BASE_URL = asc ''https://api.deepseek.com'', GLM_API_KEY = None\<rparr>
          PNone PNone PNone"
  obtain e where "comprehensive_check w ?self (asc ''DeepSeek R1'') (asc ''released today'') None
      = aggregate (verify_failure w no_api_key_error) (freshness_failure w e)
          (cross_reference_failure w no_api_key_error)"
    using comprehensive_check_built by blast
  then obtain report where
    r: "comprehensive_check w ?self (asc ''DeepSeek R1'') (asc ''released today'') None = Inr report"
    by (simp add: aggregate_failures)
  from improvement_suggestions_of_report [OF r]
  show "\<exists>report suggestions.
     comprehensive_check w ?self (asc ''DeepSeek R1'') (asc ''released today'') None = Inr report
   \<and> dict_get report (asc ''improvement_suggestions'') PNone = Inr (PList (map PStr suggestions))
   \<and> distinct suggestions
   \<and> improvement_suggestions (NInt 40) (NInt 80) (NInt 90) = [suggest_truth, warn_truth]"
    using r by blast
qed

text \<open>
  Claim C9. For every response on which \<open>json.loads\<close> raises, whatever it raises, the
  claim-verification parser returns the degraded dictionary with confidence 50,
  \<open>is_true\<close> unknown and the text itself as \<open>reasoning\<close>, and the cross-reference parser
  the degraded dictionary with confidence 50, \<open>is_consistent\<close> unknown and the text itself
  as \<open>additional_context\<close>; a parser returns a value and raises nothing.
\<close>

theorem parsers_degrade_when_json_loads_raises:
  "parse_verification_result (Inl e) text =
     PDict [(asc ''is_true'', PNone), (asc ''confidence'', PInt 50),
            (asc ''reasoning'', PStr text), (asc ''sources'', PList []),
            (asc ''method'', PStr (asc ''none''))]
   \<and> parse_cross_ref_result (Inl e) text =
     PDict [(asc ''is_consistent'', PNone), (asc ''confidence'', PInt 50),
            (asc ''known_facts'', PList []), (asc ''contradictions'', PList []),
            (asc ''additional_context'', PStr text), (asc ''reasoning'', PStr []),
            (asc ''method'', PStr (asc ''none''))]
   \<and> dict_get (parse_verification_result (Inl e) text) (asc ''confidence'') PNone = Inr (PInt 50)
   \<and> dict_get (parse_verification_result (Inl e) text) (asc ''is_true'') (PBool True) = Inr PNone
   \<and> dict_get (parse_verification_result (Inl e) text) (asc ''reasoning'') PNone = Inr (PStr text)
   \<and> dict_get (parse_cross_ref_result (Inl e) text) (asc ''confidence'') PNone = Inr (PInt 50)
   \<and> dict_get (parse_cross_ref_result (Inl e) text) (asc ''is_consistent'') (PBool True)
       = Inr PNone
   \<and> dict_get (parse_cross_ref_result (Inl e) text) (asc ''additional_context'') PNone
       = Inr (PStr text)"
  by (simp add: parse_verification_result_def parse_cross_ref_result_def)

text \<open>
  Claim C10. \<open>improve_content\<close> returns \<open>success = False\<close> with \<open>improved_content\<close>
  equal to the content it was given when no key is configured, when the request cannot
  be built or the provider call raises, and when \<open>json.loads\<close> raises on the cleaned
  response; and whenever the result has \<open>success = False\<close>, its \<open>improved_content\<close> is
  the content it was given.
\<close>

theorem improve_content_failure_keeps_content:
  "(\<not> truthy (improver_api_key self) \<longrightarrow>
      improve_content w self topic content check_result = not_configured_result content)
   \<and> (truthy (improver_api_key self)
        \<and> improvement_request w topic content check_result = Inl e \<longrightarrow>
      improve_content w self topic content check_result = improve_failure_result w content e)
   \<and> (truthy (improver_api_key self)
        \<and> improvement_request w topic content check_result = Inr request
        \<and> make_glm_request w self request = Inl e \<longrightarrow>
      improve_content w self topic content check_result = improve_failure_result w content e)
   \<and> (truthy (improver_api_key self)
        \<and> improvement_request w topic content check_result = Inr request
        \<and> make_glm_request w self request = Inr result_text
        \<and> json_loads w (clean_json_response w result_text) = Inl e \<longrightarrow>
      improve_content w self topic content check_result =
        (case e of JSONDecodeError m \<Rightarrow> parse_failure_result w content e
         | _ \<Rightarrow> improve_failure_result w content e))
   \<and> (dict_get (improve_content w self topic content check_result) (asc ''success'') PNone
          = Inr (PBool False) \<longrightarrow>
      dict_get (improve_content w self topic content check_result) (asc ''improved_content'') PNone
          = Inr (PStr content))
   \<and> (\<exists>b. dict_get (improve_content w self topic content check_result) (asc ''success'') PNone
          = Inr (PBool b))
   \<and> dict_get (not_configured_result content) (asc ''success'') PNone = Inr (PBool False)
   \<and> dict_get (not_configured_result content) (asc ''improved_content'') PNone = Inr (PStr content)
   \<and> dict_get (parse_failure_result w content e) (asc ''success'') PNone = Inr (PBool False)
   \<and> dict_get (parse_failure_result w content e) (asc ''improved_content'') PNone = Inr (PStr content)
   \<and> dict_get (improve_failure_result w content e) (asc ''success'') PNone = Inr (PBool False)
   \<and> dict_get (improve_failure_result w content e) (asc ''improved_content'') PNone
        = Inr (PStr content)"
proof -
  have 1: "\<not> truthy (improver_api_key self) \<longrightarrow>
      improve_content w self topic content check_result = not_configured_result content"
    by (simp add: improve_content_def)
  have 2: "truthy (improver_api_key self)
        \<and> improvement_request w topic content check_result = Inl e \<longrightarrow>
      improve_content w self topic content check_result = improve_failure_result w content e"
    by (simp add: improve_content_def improve_content_body_def)
  have 3: "truthy (improver_api_key self)
        \<and> improvement_request w topic content check_result = Inr request
        \<and> make_glm_request w self request = Inl e \<longrightarrow>
      improve_content w self topic content check_result = improve_failure_result w content e"
    by (simp add: improve_content_def improve_content_body_def)
  have 4: "truthy (improver_api_key self)
        \<and> improvement_request w topic content check_result = Inr request
        \<and> make_glm_request w self request = Inr result_text
        \<and> json_loads w (clean_json_response w result_text) = Inl e \<longrightarrow>
      improve_content w self topic content check_result =
        (case e of JSONDecodeError m \<Rightarrow> parse_failure_result w content e
         | _ \<Rightarrow> improve_failure_result w content e)"
    by (cases e) (simp_all add: improve_content_def improve_content_body_def
        improvement_of_decoded_def)
  have 5: "dict_get (improve_content w self topic content check_result) (asc ''success'') PNone
          = Inr (PBool False) \<longrightarrow>
      dict_get (improve_content w self topic content check_result) (asc ''improved_content'') PNone
          = Inr (PStr content)"
    using improve_content_failed_keeps by blast
  show ?thesis
    using 1 2 3 4 5 improve_content_success_bool [of w self topic content check_result]
    by (simp add: failure_results_keep_content)
qed

theorem improve_content_failure_keeps_content_witness:
  "\<forall>w.
     improve_content w
       (ContentImprover_init
          \<lparr>TAVILY_API_KEY = None, DEEPSEEK_API_KEY = None,
           DEEPSEEK_BASE_URL = asc ''https://api.deepseek.com'', GLM_API_KEY = None\<rparr> PNone)
       (asc ''DeepSeek R1'') (asc ''released today'') (PDict [])
       = not_configured_result (asc ''released today'')
   \<and> improve_content w
       (ContentImprover_init
          \<lparr>TAVILY_API_KEY = None, DEEPSEEK_API_KEY = None,
           DEEPSEEK_BASE_URL = asc ''https://api.deepseek.com'', GLM_API_KEY = Some (asc ''key'')\<rparr>
          PNone)
       (asc ''DeepSeek R1'') (asc ''released today'') (PDict [])
       = improve_failure_result w (asc ''released today'') (KeyError (asc ''score_breakdown''))
   \<and> improve_content
       (w\<lparr>requests_post := (\<lambda>request. Inl (OtherException (asc ''connection refused'')))\<rparr>)
       (ContentImprover_init
          \<lparr>TAVILY_API_KEY = None, DEEPSEEK_API_KEY = None,
           DEEPSEEK_BASE_URL = asc ''https://api.deepseek.com'', GLM_API_KEY = Some (asc ''key'')\<rparr>
          PNone)
       (asc ''DeepSeek R1'') (asc ''released today'')
       (PDict [(asc ''overall_score'', PInt 80),
               (asc ''score_breakdown'', PDict [(asc ''truth_score'', PInt 80),
                  (asc ''freshness_score'', PInt 80), (asc ''consistency_score'', PInt 80)])])
       = improve_failure_result
           (w\<lparr>requests_post := (\<lambda>request. Inl (OtherException (asc ''connection refused'')))\<rparr>)
           (asc ''released today'') (OtherException (asc ''connection refused''))
   \<and> improve_content
       (w\<lparr>requests_post := (\<lambda>request. Inr
             \<lparr>resp_status_code = 200, resp_text = [],
              resp_json = Inr (PDict [(asc ''output'', PList
                [PDict [(asc ''type'', PStr (asc ''message'')),
                        (asc ''role'', PStr (asc ''assistant'')),
                        (asc ''content'', PList
                           [PDict [(asc ''type'', PStr (asc ''output_text'')),
                                   (asc ''text'', PStr (asc ''not json''))]])]])])\<rparr>),
          re_search := (\<lambda>pattern text. None),
          json_loads := (\<lambda>text. Inl (JSONDecodeError (asc ''Expecting value'')))\<rparr>)
       (ContentImprover_init
          \<lparr>TAVILY_API_KEY = None, DEEPSEEK_API_KEY = None,
           DEEPSEEK_BASE_URL = asc ''https://api.deepseek.com'', GLM_API_KEY = Some (asc ''key'')\<rparr>
          PNone)
       (asc ''DeepSeek R1'') (asc ''released today'')
       (PDict [(asc ''overall_score'', PInt 80),
               (asc ''score_breakdown'', PDict [(asc ''truth_score'', PInt 80),
                  (asc ''freshness_score'', PInt 80), (asc ''consistency_score'', PInt 80)])])
       = parse_failure_result
           (w\<lparr>requests_post := (\<lambda>request. Inr
             \<lparr>resp_status_code = 200, resp_text = [],
              resp_json = Inr (PDict [(asc ''output'', PList
                [PDict [(asc ''type'', PStr (asc ''message'')),
                        (asc ''role'', PStr (asc ''assistant'')),
                        (asc ''content'', PList
                           [PDict [(asc ''type'', PStr (asc ''output_text'')),
                                   (asc ''text'', PStr (asc ''not json''))]])]])])\<rparr>),
          re_search := (\<lambda>pattern text. None),
          json_loads := (\<lambda>text. Inl (JSONDecodeError (asc ''Expecting value'')))\<rparr>)
           (asc ''released today'') (JSONDecodeError (asc ''Expecting value''))
   \<and> dict_get (improve_failure_result w (asc ''released today'') (KeyError (asc ''score_breakdown'')))
       (asc ''improved_content'') PNone = Inr (PStr (asc ''released today''))
   \<and> dict_get (parse_failure_result w (asc ''released today'')
         (JSONDecodeError (asc ''Expecting value''))) (asc ''improved_content'') PNone
       = Inr (PStr (asc ''released today''))"
proof
  fix w :: world
  let ?cfg0 = "\<lparr>TAVILY_API_KEY = None, DEEPSEEK_API_KEY = None,
           DEEPSEEK_BASE_URL = asc ''https://api.deepseek.com'', GLM_API_KEY = None\<rparr>"
  let ?cfg1 = "\<lparr>TAVILY_API_KEY = None, DEEPSEEK_API_KEY = None,
           DEEPSEEK_BASE_URL = asc ''https://api.deepseek.com'', GLM_API_KEY = Some (asc ''key'')\<rparr>"
  let ?down = "w\<lparr>requests_post := (\<lambda>request. Inl (OtherException (asc ''connection refused'')))\<rparr>"
  let ?prose = "w\<lparr>requests_post := (\<lambda>request. Inr
             \<lparr>resp_status_code = 200, resp_text = [],
              resp_json = Inr (PDict [(asc ''output'', PList
                [PDict [(asc ''type'', PStr (asc ''message'')),
                        (asc ''role'', PStr (asc ''assistant'')),
                        (asc ''content'', PList
                           [PDict [(asc ''type'', PStr (asc ''output_text'')),
                                   (asc ''text'', PStr (asc ''not json''))]])]])])\<rparr>),
          re_search := (\<lambda>pattern text. None),
          json_loads := (\<lambda>text. Inl (JSONDecodeError (asc ''Expecting value'')))\<rparr>"
  let ?report = "PDict [(asc ''overall_score'', PInt 80),
               (asc ''score_breakdown'', PDict [(asc ''truth_score'', PInt 80),
                  (asc ''freshness_score'', PInt 80), (asc ''consistency_score'', PInt 80)])]"
  let ?request = "ImprovementPrompt (asc ''DeepSeek R1'') (asc ''released today'')
      (format_1f w (Finite 80)) (format_1f w (Finite 80)) (format_1f w (Finite 80)) (format_1f w (Finite 80)) []"
  have k0: "\<not> truthy (improver_api_key (ContentImprover_init ?cfg0 PNone))"
    by (simp add: ContentImprover_init_def py_or_def opt_str_def)
  have k1: "truthy (improver_api_key (ContentImprover_init ?cfg1 PNone))"
    by (simp add: ContentImprover_init_def py_or_def opt_str_def)
  have r0: "improvement_request w (asc ''DeepSeek R1'') (asc ''released today'') (PDict [])
      = Inl (KeyError (asc ''score_breakdown''))"
    by (simp add: improvement_request_def)
  have r1: "improvement_request ?down (asc ''DeepSeek R1'') (asc ''released today'') ?report
      = Inr ?request"
    by (simp add: improvement_request_def need_of_def py_lt_def py_format_1f_def)
  have r2: "improvement_request ?prose (asc ''DeepSeek R1'') (asc ''released today'') ?report
      = Inr ?request"
    by (simp add: improvement_request_def need_of_def py_lt_def py_format_1f_def)
  have g1: "make_glm_request ?down (ContentImprover_init ?cfg1 PNone) ?request
      = Inl (OtherException (asc ''connection refused''))"
    using k1 by (simp add: make_glm_request_def)
  have g2: "make_glm_request ?prose (ContentImprover_init ?cfg1 PNone) ?request
      = Inr (asc ''not json'')"
    using k1 by (simp add: make_glm_request_def glm_content_def collect_output_item_def
        collect_content_item_def)
  have j2: "json_loads ?prose (clean_json_response ?prose (asc ''not json''))
      = Inl (JSONDecodeError (asc ''Expecting value''))"
    by simp
  show "improve_content w (ContentImprover_init ?cfg0 PNone)
       (asc ''DeepSeek R1'') (asc ''released today'') (PDict [])
       = not_configured_result (asc ''released today'')
   \<and> improve_content w (ContentImprover_init ?cfg1 PNone)
       (asc ''DeepSeek R1'') (asc ''released today'') (PDict [])
       = improve_failure_result w (asc ''released today'') (KeyError (asc ''score_breakdown''))
   \<and> improve_content ?down (ContentImprover_init ?cfg1 PNone)
       (asc ''DeepSeek R1'') (asc ''released today'') ?report
       = improve_failure_result ?down (asc ''released today'')
           (OtherException (asc ''connection refused''))
   \<and> improve_content ?prose (ContentImprover_init ?cfg1 PNone)
       (asc ''DeepSeek R1'') (asc ''released today'') ?report
       = parse_failure_result ?prose (asc ''released today'')
           (JSONDecodeError (asc ''Expecting value''))
   \<and> dict_get (improve_failure_result w (asc ''released today'') (KeyError (asc ''score_breakdown'')))
       (asc ''improved_content'') PNone = Inr (PStr (asc ''released today''))
   \<and> dict_get (parse_failure_result w (asc ''released today'')
         (JSONDecodeError (asc ''Expecting value''))) (asc ''improved_content'') PNone
       = Inr (PStr (asc ''released today''))"
    using k0 k1 r0 r1 r2 g1 g2 j2
      improve_content_failure_keeps_content
        [of "ContentImprover_init ?cfg0 PNone" w "asc ''DeepSeek R1''" "asc ''released today''"
            "PDict []" "KeyError (asc ''score_breakdown'')"]
      improve_content_failure_keeps_content
        [of "ContentImprover_init ?cfg1 PNone" w "asc ''DeepSeek R1''" "asc ''released today''"
            "PDict []" "KeyError (asc ''score_breakdown'')"]
      improve_content_failure_keeps_content
        [of "ContentImprover_init ?cfg1 PNone" ?down "asc ''DeepSeek R1''" "asc ''released today''"
            ?report "OtherException (asc ''connection refused'')" ?request]
      improve_content_failure_keeps_content
        [of "ContentImprover_init ?cfg1 PNone" ?prose "asc ''DeepSeek R1''" "asc ''released today''"
            ?report "JSONDecodeError (asc ''Expecting value'')" ?request "asc ''not json''"]
      improve_content_failure_keeps_content
        [of "ContentImprover_init ?cfg1 PNone" w "asc ''DeepSeek R1''" "asc ''released today''"
            "PDict []" "JSONDecodeError (asc ''Expecting value'')"]
    by simp
qed


end
